theory Spec2Isabelle
  imports Complex_Main
begin

section \<open>Tensors\<close>

text \<open>
  The operations of \<^verbatim>\<open>colossalai/nn/layer/parallel_2p5d/_operation.py\<close> work on
  torch tensors. A tensor is its shape together with its elements in row-major order
  (what \<^verbatim>\<open>contiguous()\<close> lays out); a tensor is well formed when it has as many elements
  as its shape says. The element type is any semiring (a field for the layer norm):
  the rounding of the float16 and float32 the code computes in is not modelled.
\<close>

datatype error =
    Invalid_shapes "nat list" "nat list" string
      \<comment> \<open>the AssertionError \<^verbatim>\<open>'Invalid shapes: A={}, B={} for <op>.'\<close>, with A.shape, B.shape and the operation\<close>
  | IndexError
  | ZeroDivisionError
  | RuntimeError
      \<comment> \<open>an error torch raises (reshape, matmul, broadcasting, permute, chunk)\<close>
  | Not_finite
      \<comment> \<open>no exception: a floating-point result that is inf or nan\<close>
  | Stuck
      \<comment> \<open>no exception: a collective whose group members did not all issue the matching call\<close>

fun shape_error :: "error \<Rightarrow> bool" where
  \<comment> \<open>the errors that report incompatible shapes: the assertion of the forwards and torch's own\<close>
  "shape_error (Invalid_shapes sa sb opn) = True"
| "shape_error RuntimeError = True"
| "shape_error e = False"

datatype 'a tensor = Tensor (shape: "nat list") (data: "'a list")

definition wf_tensor :: "'a tensor \<Rightarrow> bool" where
  "wf_tensor t \<longleftrightarrow> length (data t) = prod_list (shape t)"

definition numel :: "'a tensor \<Rightarrow> nat" where
  "numel t = prod_list (shape t)"

definition py_index :: "'b list \<Rightarrow> int \<Rightarrow> error + 'b" where
  \<comment> \<open>\<^verbatim>\<open>xs[i]\<close> on a Python list, tuple or torch.Size: a negative index counts from the end\<close>
  "py_index xs i =
     (if 0 \<le> i \<and> i < int (length xs) then Inr (xs ! nat i)
      else if i < 0 \<and> - int (length xs) \<le> i then Inr (xs ! nat (int (length xs) + i))
      else Inl IndexError)"

definition py_range :: "int \<Rightarrow> int list" where
  \<comment> \<open>\<^verbatim>\<open>range(n)\<close>: empty when \<open>n \<le> 0\<close>\<close>
  "py_range n = map int [0..<nat n]"

definition reshape :: "'a tensor \<Rightarrow> int list \<Rightarrow> error + 'a tensor" where
  \<comment> \<open>\<^verbatim>\<open>t.reshape(sh)\<close>: at most one entry of \<open>sh\<close> is -1 and is inferred from the number of
      elements; the elements keep their row-major order\<close>
  "reshape t sh =
     (let n = prod_list (shape t);
          known = prod_list (map nat (filter (\<lambda>x. 0 \<le> x) sh));
          holes = length (filter (\<lambda>x. x < 0) sh)
      in if \<exists>x \<in> set sh. x < - 1 then Inl RuntimeError
         else if holes = 0 then
           (if known = n then Inr (Tensor (map nat sh) (data t)) else Inl RuntimeError)
         else if 1 < holes then Inl RuntimeError
         else if known = 0 then Inl RuntimeError
         else if n mod known \<noteq> 0 then Inl RuntimeError
         else Inr (Tensor (map (\<lambda>x. if x < 0 then n div known else nat x) sh) (data t)))"

definition zeros :: "nat list \<Rightarrow> 'a::zero tensor" where
  \<comment> \<open>\<^verbatim>\<open>torch.zeros(shape)\<close>\<close>
  "zeros sh = Tensor sh (replicate (prod_list sh) 0)"

definition zeros_like :: "'a::zero tensor \<Rightarrow> 'a tensor" where
  "zeros_like t = zeros (shape t)"

definition empty :: "(nat \<Rightarrow> 'a) \<Rightarrow> nat list \<Rightarrow> 'a tensor" where
  \<comment> \<open>\<^verbatim>\<open>torch.empty(shape)\<close>: a buffer of the device provider whose contents are whatever the
      memory held; \<open>junk\<close> gives that content by offset\<close>
  "empty junk sh = Tensor sh (map junk [0..<prod_list sh])"

definition empty_like :: "(nat \<Rightarrow> 'a) \<Rightarrow> 'a tensor \<Rightarrow> 'a tensor" where
  "empty_like junk t = empty junk (shape t)"

definition matmul :: "'a::semiring_0 tensor \<Rightarrow> 'a tensor \<Rightarrow> error + 'a tensor" where
  \<comment> \<open>\<^verbatim>\<open>torch.matmul\<close> of two 2-D tensors (every operand below was reshaped to
      \<^verbatim>\<open>(-1, n)\<close> first, so is 2-D); the sums and products are exact, where torch rounds
      the result to the dtype of the tensors\<close>
  "matmul a b =
     (case (shape a, shape b) of
        ([m, k], [k', n]) \<Rightarrow>
          if k = k' then
            Inr (Tensor [m, n]
              (map (\<lambda>p. \<Sum>l\<leftarrow>[0..<k]. data a ! ((p div n) * k + l) * data b ! (l * n + p mod n))
                 [0..<m * n]))
          else Inl RuntimeError
      | _ \<Rightarrow> Inl RuntimeError)"

definition transpose01 :: "'a tensor \<Rightarrow> error + 'a tensor" where
  \<comment> \<open>\<^verbatim>\<open>t.transpose(0, 1)\<close> of a 2-D tensor, laid out row-major\<close>
  "transpose01 t =
     (case shape t of
        [m, n] \<Rightarrow> Inr (Tensor [n, m] (map (\<lambda>p. data t ! ((p mod m) * n + p div m)) [0..<n * m]))
      | _ \<Rightarrow> Inl RuntimeError)"

definition addmm :: "'a::semiring_0 tensor \<Rightarrow> 'a tensor \<Rightarrow> 'a tensor \<Rightarrow> error + 'a tensor" where
  \<comment> \<open>\<^verbatim>\<open>torch.addmm(C, A, B, out=C)\<close>: the new C is \<open>C + A B\<close>; C has the product's
      shape here (the gathered tiles have the shape of the rank's own). Exact, where
      torch rounds the new C to its dtype at every call\<close>
  "addmm C a b =
     (case matmul a b of
        Inl e \<Rightarrow> Inl e
      | Inr P \<Rightarrow>
          if shape C = shape P then
            Inr (Tensor (shape C) (map (\<lambda>p. data C ! p + data P ! p) [0..<prod_list (shape C)]))
          else Inl RuntimeError)"

subsection \<open>Elementwise operations with broadcasting\<close>

text \<open>
  \<^verbatim>\<open>a + b\<close>, \<^verbatim>\<open>a - b\<close> and \<^verbatim>\<open>a * b\<close> on tensors align the two shapes at their last
  dimension; two sizes are compatible when they are equal or one of them is 1. The two
  functions below read shapes from the last dimension to the first.
\<close>

fun broadcast_shapes :: "nat list \<Rightarrow> nat list \<Rightarrow> nat list option" where
  "broadcast_shapes [] ys = Some ys"
| "broadcast_shapes (x # xs) [] = Some (x # xs)"
| "broadcast_shapes (x # xs) (y # ys) =
     (if x = y \<or> y = 1 then map_option ((#) x) (broadcast_shapes xs ys)
      else if x = 1 then map_option ((#) y) (broadcast_shapes xs ys)
      else None)"

fun broadcast_offset :: "nat list \<Rightarrow> nat list \<Rightarrow> nat \<Rightarrow> nat" where
  \<comment> \<open>the offset, in an operand of shape \<open>s\<close>, of the element that position \<open>p\<close> of the
      result of shape \<open>S\<close> reads\<close>
  "broadcast_offset (n # S) (m # s) p =
     (if m = 1 then 0 else p mod n) + m * broadcast_offset S s (p div n)"
| "broadcast_offset S s p = 0"

definition pointwise :: "('a \<Rightarrow> 'a \<Rightarrow> 'a) \<Rightarrow> 'a tensor \<Rightarrow> 'a tensor \<Rightarrow> error + 'a tensor" where
  "pointwise f a b =
     (case broadcast_shapes (rev (shape a)) (rev (shape b)) of
        None \<Rightarrow> Inl RuntimeError
      | Some S \<Rightarrow>
          Inr (Tensor (rev S)
            (map (\<lambda>p. f (data a ! broadcast_offset S (rev (shape a)) p)
                        (data b ! broadcast_offset S (rev (shape b)) p))
               [0..<prod_list S])))"

definition pointwise_inplace ::
  "('a \<Rightarrow> 'a \<Rightarrow> 'a) \<Rightarrow> 'a tensor \<Rightarrow> 'a tensor \<Rightarrow> error + 'a tensor" where
  \<comment> \<open>\<^verbatim>\<open>a -= b\<close>, \<^verbatim>\<open>a *= b\<close>: the result is written into \<open>a\<close>, whose shape cannot change\<close>
  "pointwise_inplace f a b =
     (case pointwise f a b of
        Inl e \<Rightarrow> Inl e
      | Inr r \<Rightarrow> if shape r = shape a then Inr r else Inl RuntimeError)"

subsection \<open>Sums\<close>

definition sum_leading :: "'a::comm_monoid_add tensor \<Rightarrow> 'a tensor" where
  \<comment> \<open>\<^verbatim>\<open>torch.sum(t, dim=tuple(range(t.ndim - 1)))\<close>: the sum over every dimension but the
      last. For a tensor of at most one dimension the tuple is empty, which torch reads
      as the sum over all dimensions.\<close>
  "sum_leading t =
     (if length (shape t) \<le> 1 then Tensor [] [sum_list (data t)]
      else
        (let n = last (shape t); rows = prod_list (butlast (shape t))
         in Tensor [n] (map (\<lambda>j. \<Sum>p\<leftarrow>[0..<rows]. data t ! (p * n + j)) [0..<n])))"

definition sum_last_keepdim :: "'a::comm_monoid_add tensor \<Rightarrow> 'a tensor" where
  \<comment> \<open>\<^verbatim>\<open>torch.sum(t, dim=-1, keepdim=True)\<close>\<close>
  "sum_last_keepdim t =
     (if shape t = [] then t
      else
        (let n = last (shape t); rows = prod_list (butlast (shape t))
         in Tensor (butlast (shape t) @ [1])
              (map (\<lambda>p. \<Sum>j\<leftarrow>[0..<n]. data t ! (p * n + j)) [0..<rows])))"

definition tensor_sum :: "'a::comm_monoid_add tensor list \<Rightarrow> 'a tensor" where
  \<comment> \<open>the elementwise sum of tensors of one shape (what a sum-reduction of a group leaves)\<close>
  "tensor_sum ts =
     Tensor (shape (hd ts)) (map (\<lambda>p. \<Sum>t\<leftarrow>ts. data t ! p) [0..<prod_list (shape (hd ts))])"

subsection \<open>Permuting and chunking\<close>

definition strides :: "nat list \<Rightarrow> nat list" where
  "strides sh = map (\<lambda>i. prod_list (drop (Suc i) sh)) [0..<length sh]"

definition permute :: "'a tensor \<Rightarrow> nat list \<Rightarrow> error + 'a tensor" where
  \<comment> \<open>\<^verbatim>\<open>t.permute(dims).contiguous()\<close>: \<open>dims\<close> must order exactly the dimensions of \<open>t\<close>\<close>
  "permute t dims =
     (if length dims \<noteq> length (shape t) \<or> \<not> distinct dims
         \<or> \<not> list_all (\<lambda>d. d < length (shape t)) dims
      then Inl RuntimeError
      else
        (let sh = map (\<lambda>d. shape t ! d) dims
         in Inr (Tensor sh
              (map (\<lambda>q. data t !
                      (\<Sum>j\<leftarrow>[0..<length dims].
                         ((q div (strides sh ! j)) mod (sh ! j)) * (strides (shape t) ! (dims ! j))))
                 [0..<prod_list sh]))))"

definition narrow :: "'a tensor \<Rightarrow> nat \<Rightarrow> nat \<Rightarrow> nat \<Rightarrow> 'a tensor" where
  \<comment> \<open>the slice \<open>start ..< start + len\<close> of dimension \<open>axis\<close>\<close>
  "narrow t axis start len =
     (let n = shape t ! axis;
          inner = prod_list (drop (Suc axis) (shape t));
          outer = prod_list (take axis (shape t))
      in Tensor ((shape t)[axis := len])
           (map (\<lambda>q. data t ! ((q div (len * inner)) * (n * inner) + start * inner
                                 + q mod (len * inner)))
              [0..<outer * len * inner]))"

definition chunk :: "'a tensor \<Rightarrow> int \<Rightarrow> int \<Rightarrow> error + 'a tensor list" where
  \<comment> \<open>\<^verbatim>\<open>t.chunk(chunks, dim)\<close>: pieces of \<open>ceil(n / chunks)\<close> along \<open>axis\<close>, the last one
      shorter; \<open>chunks\<close> empty pieces when the dimension is empty\<close>
  "chunk t chunks axis =
     (let nd = int (length (shape t))
      in if nd = 0 then Inl RuntimeError
         else if \<not> (- nd \<le> axis \<and> axis < nd) then Inl IndexError
         else if chunks \<le> 0 then Inl RuntimeError
         else
           (let k = nat (if axis < 0 then axis + nd else axis);
                n = shape t ! k;
                c = nat chunks;
                size = (n + c - 1) div c
            in if size = 0 then Inr (replicate c (narrow t k 0 0))
               else Inr (map (\<lambda>j. narrow t k (j * size) (min size (n - j * size)))
                           [0..<(n + size - 1) div size])))"

definition div_scalar :: "'a::field tensor \<Rightarrow> int \<Rightarrow> error + 'a tensor" where
  \<comment> \<open>\<^verbatim>\<open>t /= n\<close> for a Python int \<open>n\<close>. Dividing by 0 raises nothing in torch and leaves
      inf or nan, which the exact arithmetic of this model cannot hold: \<open>Not_finite\<close>.\<close>
  "div_scalar t n =
     (if n = 0 then Inl Not_finite
      else Inr (Tensor (shape t) (map (\<lambda>v. v / of_int n) (data t))))"

definition py_insert :: "'b list \<Rightarrow> int \<Rightarrow> 'b \<Rightarrow> 'b list" where
  \<comment> \<open>\<^verbatim>\<open>xs.insert(i, x)\<close>: an index past either end is clamped\<close>
  "py_insert xs i x =
     (let n = int (length xs);
          j = nat (if i < 0 then max 0 (n + i) else min i n)
      in take j xs @ x # drop j xs)"

section \<open>The accumulation loop of \<^verbatim>\<open>Matmul_AB_2p5D.forward\<close>\<close>

fun AB_loop ::
  "int \<Rightarrow> int \<Rightarrow> int \<Rightarrow> 'a::semiring_0 tensor list \<Rightarrow> 'a tensor list \<Rightarrow> 'a tensor \<Rightarrow> int list
    \<Rightarrow> error + 'a tensor" where
  "AB_loop tesseract_dim row_rank col_rank A_list B_list C [] = Inr C"
| "AB_loop tesseract_dim row_rank col_rank A_list B_list C (i # rest) =
     (let src_a = i + tesseract_dim * row_rank;
          src_b = i + tesseract_dim * col_rank
      in if tesseract_dim = 0 then Inl ZeroDivisionError
         else
           (let src_a = src_a mod tesseract_dim;
                src_b = src_b mod tesseract_dim
            in case py_index A_list src_a of
                 Inl e \<Rightarrow> Inl e
               | Inr A_temp \<Rightarrow>
                   (case py_index B_list src_b of
                      Inl e \<Rightarrow> Inl e
                    | Inr B_temp \<Rightarrow>
                        (case addmm C A_temp B_temp of
                           Inl e \<Rightarrow> Inl e
                         | Inr C' \<Rightarrow>
                             AB_loop tesseract_dim row_rank col_rank A_list B_list C' rest))))"

text \<open>
  Follows the spec's words, for comparison with \<open>AB_loop\<close>: at iteration \<open>i\<close> the tile
  \<open>A_list[fa i]\<close> is multiplied by the tile \<open>B_list[fb i]\<close> and the product is added
  to the running sum. The spec's sentence takes \<open>fa i = (i + row_rank) mod d\<close> and
  \<open>fb i = (i + col_rank) mod d\<close>.
\<close>

fun accumulate_tiles ::
  "(int \<Rightarrow> int) \<Rightarrow> (int \<Rightarrow> int) \<Rightarrow> 'a::semiring_0 tensor list \<Rightarrow> 'a tensor list \<Rightarrow> 'a tensor
    \<Rightarrow> int list \<Rightarrow> error + 'a tensor" where
  "accumulate_tiles fa fb A_list B_list C [] = Inr C"
| "accumulate_tiles fa fb A_list B_list C (i # rest) =
     (case py_index A_list (fa i) of
        Inl e \<Rightarrow> Inl e
      | Inr A_temp \<Rightarrow>
          (case py_index B_list (fb i) of
             Inl e \<Rightarrow> Inl e
           | Inr B_temp \<Rightarrow>
               (case addmm C A_temp B_temp of
                  Inl e \<Rightarrow> Inl e
                | Inr C' \<Rightarrow> accumulate_tiles fa fb A_list B_list C' rest)))"

section \<open>Rank programs\<close>

text \<open>
  Every rank of the grid runs the same code, and the collective calls of
  \<^verbatim>\<open>torch.distributed\<close> are the only points where a rank waits for the others. The code
  of one rank is a tree: it returns, raises, or issues a collective and continues with
  what the collective left in its buffer. The constructors keep the argument order of
  \<^verbatim>\<open>dist.all_gather(tensor_list, tensor, group)\<close>, \<^verbatim>\<open>dist.broadcast(tensor, src, group)\<close>,
  \<^verbatim>\<open>dist.reduce(tensor, dst, group)\<close> and \<^verbatim>\<open>dist.all_reduce(tensor, group)\<close>; the group is
  named by the parallel mode that \<^verbatim>\<open>gpc.get_group\<close> is asked for.
\<close>

datatype ParallelMode = PARALLEL_2P5D_ROW | PARALLEL_2P5D_COL

datatype ('a, 'r) proc =
    Return 'r
  | Raise error
  | All_gather "'a tensor list" "'a tensor" ParallelMode "'a tensor list \<Rightarrow> ('a, 'r) proc"
  | Broadcast "'a tensor" int ParallelMode "'a tensor \<Rightarrow> ('a, 'r) proc"
  | Reduce "'a tensor" int ParallelMode "'a tensor \<Rightarrow> ('a, 'r) proc"
  | All_reduce "'a tensor" ParallelMode "'a tensor \<Rightarrow> ('a, 'r) proc"

primrec seq :: "('a, 'r) proc \<Rightarrow> ('r \<Rightarrow> ('a, 's) proc) \<Rightarrow> ('a, 's) proc" where
  "seq (Return x) f = f x"
| "seq (Raise e) f = Raise e"
| "seq (All_gather l t g k) f = All_gather l t g (\<lambda>x. seq (k x) f)"
| "seq (Broadcast t src g k) f = Broadcast t src g (\<lambda>x. seq (k x) f)"
| "seq (Reduce t dst g k) f = Reduce t dst g (\<lambda>x. seq (k x) f)"
| "seq (All_reduce t g k) f = All_reduce t g (\<lambda>x. seq (k x) f)"

fun attempt :: "error + 'b \<Rightarrow> ('b \<Rightarrow> ('a, 'r) proc) \<Rightarrow> ('a, 'r) proc" where
  \<comment> \<open>a local operation that may raise\<close>
  "attempt (Inl e) k = Raise e"
| "attempt (Inr x) k = k x"

text \<open>
  What a rank asks of its surroundings: the parallel context \<^verbatim>\<open>gpc\<close> (the size of a
  group and the rank's position in it) and the contents of freshly allocated,
  uninitialised memory.
\<close>

record 'a env =
  get_world_size :: "ParallelMode \<Rightarrow> int"
  get_local_rank :: "ParallelMode \<Rightarrow> int"
  uninitialized :: "nat \<Rightarrow> 'a"

text \<open>The attributes the three matmul forwards store on \<^verbatim>\<open>ctx\<close>.\<close>

record 'a matmul_ctx =
  saved_tensors :: "'a tensor \<times> 'a tensor"
  ctx_tesseract_dim :: int
  ctx_row_rank :: int
  ctx_col_rank :: int
  ctx_dep_rank :: int
  ctx_row_parallel_mode :: ParallelMode
  ctx_col_parallel_mode :: ParallelMode
  ctx_A_shape :: "nat list"
  ctx_B_shape :: "nat list"
  ctx_data_parallel_rank :: int
  ctx_pipeline_parallel_rank :: int
  ctx_pipeline_parallel_size :: int
  ctx_tensor_parallel_size :: int

record bias_ctx =
  bias_row_rank :: int
  bias_col_rank :: int
  bias_dep_rank :: int
  bias_tesseract_dim :: int
  bias_col_parallel_mode :: ParallelMode
  bias_bias :: bool
  bias_data_parallel_rank :: int
  bias_pipeline_parallel_rank :: int
  bias_pipeline_parallel_size :: int
  bias_tensor_parallel_size :: int

record 'a layernorm_ctx =
  ln_hidden_size :: int
  ln_saved_tensors :: "'a tensor \<times> 'a tensor"
  ln_row_parallel_mode :: ParallelMode

record gather_ctx =
  ag_tesseract_dim :: int
  ag_row_rank :: int

record split_ctx =
  sf_tesseract_dim :: int
  sf_batch_size :: nat
  sf_para_mode :: ParallelMode

section \<open>\<^verbatim>\<open>Matmul_AB_2p5D\<close>, \<^verbatim>\<open>Matmul_ABT_2p5D\<close>, \<^verbatim>\<open>Matmul_ATB_2p5D\<close>\<close>

text \<open>
  The forwards take the arguments of the source in its order, after the surroundings
  \<open>env\<close>. \<open>ctx\<close> is whether the \<^verbatim>\<open>ctx\<close> passed is truthy (it is under \<^verbatim>\<open>apply\<close>); a forward
  returns its output together with what it stored on \<^verbatim>\<open>ctx\<close>. The casts of
  \<^verbatim>\<open>custom_fwd\<close> and the device of a buffer are not modelled.
\<close>

definition save_ctx ::
  "bool \<Rightarrow> 'a tensor \<times> 'a tensor \<Rightarrow> int \<Rightarrow> int \<Rightarrow> int \<Rightarrow> int \<Rightarrow> ParallelMode \<Rightarrow> ParallelMode
    \<Rightarrow> nat list \<Rightarrow> nat list \<Rightarrow> int \<Rightarrow> int \<Rightarrow> int \<Rightarrow> int \<Rightarrow> 'a matmul_ctx option" where
  \<comment> \<open>the two \<^verbatim>\<open>if ctx:\<close> blocks, which the three forwards share word for word\<close>
  "save_ctx ctx saved tesseract_dim row_rank col_rank dep_rank row_parallel_mode
      col_parallel_mode A_shape B_shape data_parallel_rank pipeline_parallel_rank
      pipeline_parallel_size tensor_parallel_size =
     (if ctx then
        Some \<lparr>saved_tensors = saved,
              ctx_tesseract_dim = tesseract_dim,
              ctx_row_rank = row_rank,
              ctx_col_rank = col_rank,
              ctx_dep_rank = dep_rank,
              ctx_row_parallel_mode = row_parallel_mode,
              ctx_col_parallel_mode = col_parallel_mode,
              ctx_A_shape = A_shape,
              ctx_B_shape = B_shape,
              ctx_data_parallel_rank = data_parallel_rank,
              ctx_pipeline_parallel_rank = pipeline_parallel_rank,
              ctx_pipeline_parallel_size = pipeline_parallel_size,
              ctx_tensor_parallel_size = tensor_parallel_size\<rparr>
      else None)"

definition Matmul_AB_2p5D_forward ::
  "'a::semiring_0 env \<Rightarrow> bool \<Rightarrow> 'a tensor \<Rightarrow> 'a tensor \<Rightarrow> int \<Rightarrow> int list \<Rightarrow> int \<Rightarrow> int \<Rightarrow> int
    \<Rightarrow> ParallelMode \<Rightarrow> ParallelMode \<Rightarrow> int \<Rightarrow> int \<Rightarrow> int \<Rightarrow> int
    \<Rightarrow> ('a, 'a tensor \<times> 'a matmul_ctx option) proc" where
  "Matmul_AB_2p5D_forward env ctx A B tesseract_dim out_shape row_rank col_rank dep_rank
      row_parallel_mode col_parallel_mode data_parallel_rank pipeline_parallel_rank
      pipeline_parallel_size tensor_parallel_size =
     attempt (py_index (shape A) (- 1)) (\<lambda>A_last.
     attempt (py_index (shape B) (- 2)) (\<lambda>B_inner.
     if A_last \<noteq> B_inner then Raise (Invalid_shapes (shape A) (shape B) ''AB'')
     else
       (let saved = (A, B);
            A_shape = shape A;
            B_shape = shape B
        in attempt (reshape A [- 1, int A_last]) (\<lambda>A.
           attempt (py_index B_shape (- 1)) (\<lambda>B_last.
           attempt (reshape B [- 1, int B_last]) (\<lambda>B.
           attempt (py_index (shape A) 0) (\<lambda>C_rows.
           attempt (py_index (shape B) (- 1)) (\<lambda>C_cols.
          (let C = zeros [C_rows, C_cols];
               A_list = replicate (nat (get_world_size env row_parallel_mode - 1))
                          (empty_like (uninitialized env) A);
               B_list = replicate (nat (get_world_size env col_parallel_mode - 1))
                          (empty_like (uninitialized env) B);
               A_list = py_insert A_list (get_local_rank env row_parallel_mode) A;
               B_list = py_insert B_list (get_local_rank env col_parallel_mode) B
           in All_gather A_list A row_parallel_mode (\<lambda>A_list.
              All_gather B_list B col_parallel_mode (\<lambda>B_list.
              attempt (AB_loop tesseract_dim row_rank col_rank A_list B_list C
                         (py_range tesseract_dim)) (\<lambda>C.
              attempt (reshape C out_shape) (\<lambda>out.
              Return (out,
                save_ctx ctx saved tesseract_dim row_rank col_rank dep_rank
                  row_parallel_mode col_parallel_mode A_shape B_shape data_parallel_rank
                  pipeline_parallel_rank pipeline_parallel_size
                  tensor_parallel_size))))))))))))))"

primrec ABT_loop ::
  "int \<Rightarrow> int \<Rightarrow> int \<Rightarrow> int \<Rightarrow> ParallelMode \<Rightarrow> ParallelMode \<Rightarrow> int \<Rightarrow> int \<Rightarrow> int \<Rightarrow> int
    \<Rightarrow> 'a::semiring_0 tensor \<Rightarrow> 'a tensor \<Rightarrow> int list \<Rightarrow> 'a tensor \<Rightarrow> ('a, 'a tensor) proc" where
  "ABT_loop tesseract_dim row_rank col_rank dep_rank row_parallel_mode col_parallel_mode
      data_parallel_rank pipeline_parallel_rank pipeline_parallel_size tensor_parallel_size
      A B [] = (\<lambda>C. Return C)"
| "ABT_loop tesseract_dim row_rank col_rank dep_rank row_parallel_mode col_parallel_mode
      data_parallel_rank pipeline_parallel_rank pipeline_parallel_size tensor_parallel_size
      A B (i # rest) = (\<lambda>C.
     (let B_temp = B;
          src_b = col_rank + i * tesseract_dim + dep_rank * (tesseract_dim ^ 2)
                    + data_parallel_rank * pipeline_parallel_size * tensor_parallel_size
                    + pipeline_parallel_rank * tensor_parallel_size
      in Broadcast B_temp src_b col_parallel_mode (\<lambda>B_temp.
         attempt (transpose01 B_temp) (\<lambda>B_temp_T.
         attempt (matmul A B_temp_T) (\<lambda>C_temp.
        (let src_c = i + row_rank * tesseract_dim + dep_rank * (tesseract_dim ^ 2)
                       + data_parallel_rank * pipeline_parallel_size * tensor_parallel_size
                       + pipeline_parallel_rank * tensor_parallel_size
         in Reduce C_temp src_c row_parallel_mode (\<lambda>C_temp.
            ABT_loop tesseract_dim row_rank col_rank dep_rank row_parallel_mode
              col_parallel_mode data_parallel_rank pipeline_parallel_rank
              pipeline_parallel_size tensor_parallel_size A B rest
              (if i = col_rank then C_temp else C))))))))"

definition Matmul_ABT_2p5D_forward ::
  "'a::semiring_0 env \<Rightarrow> bool \<Rightarrow> 'a tensor \<Rightarrow> 'a tensor \<Rightarrow> int \<Rightarrow> int list \<Rightarrow> int \<Rightarrow> int \<Rightarrow> int
    \<Rightarrow> ParallelMode \<Rightarrow> ParallelMode \<Rightarrow> int \<Rightarrow> int \<Rightarrow> int \<Rightarrow> int
    \<Rightarrow> ('a, 'a tensor \<times> 'a matmul_ctx option) proc" where
  "Matmul_ABT_2p5D_forward env ctx A B tesseract_dim out_shape row_rank col_rank dep_rank
      row_parallel_mode col_parallel_mode data_parallel_rank pipeline_parallel_rank
      pipeline_parallel_size tensor_parallel_size =
     attempt (py_index (shape A) (- 1)) (\<lambda>A_last.
     attempt (py_index (shape B) (- 1)) (\<lambda>B_last.
     if A_last \<noteq> B_last then Raise (Invalid_shapes (shape A) (shape B) ''ABT'')
     else
       (let saved = (A, B);
            A_shape = shape A;
            B_shape = shape B
        in attempt (reshape A [- 1, int A_last]) (\<lambda>A.
           attempt (reshape B [- 1, int B_last]) (\<lambda>B.
           attempt (py_index (shape A) 0) (\<lambda>C_rows.
           attempt (py_index (shape B) 0) (\<lambda>C_cols.
          (let C = empty (uninitialized env) [C_rows, C_cols]
           in seq (ABT_loop tesseract_dim row_rank col_rank dep_rank row_parallel_mode
                     col_parallel_mode data_parallel_rank pipeline_parallel_rank
                     pipeline_parallel_size tensor_parallel_size A B
                     (py_range tesseract_dim) C) (\<lambda>C.
              attempt (reshape C out_shape) (\<lambda>out.
              Return (out,
                save_ctx ctx saved tesseract_dim row_rank col_rank dep_rank
                  row_parallel_mode col_parallel_mode A_shape B_shape data_parallel_rank
                  pipeline_parallel_rank pipeline_parallel_size
                  tensor_parallel_size)))))))))))"

primrec ATB_loop ::
  "int \<Rightarrow> int \<Rightarrow> int \<Rightarrow> int \<Rightarrow> ParallelMode \<Rightarrow> ParallelMode \<Rightarrow> int \<Rightarrow> int \<Rightarrow> int \<Rightarrow> int
    \<Rightarrow> 'a::semiring_0 tensor \<Rightarrow> 'a tensor \<Rightarrow> int list \<Rightarrow> 'a tensor \<Rightarrow> ('a, 'a tensor) proc" where
  "ATB_loop tesseract_dim row_rank col_rank dep_rank row_parallel_mode col_parallel_mode
      data_parallel_rank pipeline_parallel_rank pipeline_parallel_size tensor_parallel_size
      A B [] = (\<lambda>C. Return C)"
| "ATB_loop tesseract_dim row_rank col_rank dep_rank row_parallel_mode col_parallel_mode
      data_parallel_rank pipeline_parallel_rank pipeline_parallel_size tensor_parallel_size
      A B (i # rest) = (\<lambda>C.
     (let A_temp = A;
          src_a = i + row_rank * tesseract_dim + dep_rank * (tesseract_dim ^ 2)
                    + data_parallel_rank * pipeline_parallel_size * tensor_parallel_size
                    + pipeline_parallel_rank * tensor_parallel_size
      in Broadcast A_temp src_a row_parallel_mode (\<lambda>A_temp.
         attempt (transpose01 A_temp) (\<lambda>A_temp_T.
         attempt (matmul A_temp_T B) (\<lambda>C_temp.
        (let src_c = col_rank + i * tesseract_dim + dep_rank * (tesseract_dim ^ 2)
                       + data_parallel_rank * pipeline_parallel_size * tensor_parallel_size
                       + pipeline_parallel_rank * tensor_parallel_size
         in Reduce C_temp src_c col_parallel_mode (\<lambda>C_temp.
            ATB_loop tesseract_dim row_rank col_rank dep_rank row_parallel_mode
              col_parallel_mode data_parallel_rank pipeline_parallel_rank
              pipeline_parallel_size tensor_parallel_size A B rest
              (if i = row_rank then C_temp else C))))))))"

definition Matmul_ATB_2p5D_forward ::
  "'a::semiring_0 env \<Rightarrow> bool \<Rightarrow> 'a tensor \<Rightarrow> 'a tensor \<Rightarrow> int \<Rightarrow> int list \<Rightarrow> int \<Rightarrow> int \<Rightarrow> int
    \<Rightarrow> ParallelMode \<Rightarrow> ParallelMode \<Rightarrow> int \<Rightarrow> int \<Rightarrow> int \<Rightarrow> int
    \<Rightarrow> ('a, 'a tensor \<times> 'a matmul_ctx option) proc" where
  "Matmul_ATB_2p5D_forward env ctx A B tesseract_dim out_shape row_rank col_rank dep_rank
      row_parallel_mode col_parallel_mode data_parallel_rank pipeline_parallel_rank
      pipeline_parallel_size tensor_parallel_size =
     attempt (py_index (shape A) (- 2)) (\<lambda>A_inner.
     attempt (py_index (shape B) (- 2)) (\<lambda>B_inner.
     if A_inner \<noteq> B_inner then Raise (Invalid_shapes (shape A) (shape B) ''ATB'')
     else
       (let saved = (A, B);
            A_shape = shape A;
            B_shape = shape B
        in attempt (py_index A_shape (- 1)) (\<lambda>A_last.
           attempt (reshape A [- 1, int A_last]) (\<lambda>A.
           attempt (py_index B_shape (- 1)) (\<lambda>B_last.
           attempt (reshape B [- 1, int B_last]) (\<lambda>B.
           attempt (py_index (shape A) (- 1)) (\<lambda>C_rows.
           attempt (py_index (shape B) (- 1)) (\<lambda>C_cols.
          (let C = empty (uninitialized env) [C_rows, C_cols]
           in seq (ATB_loop tesseract_dim row_rank col_rank dep_rank row_parallel_mode
                     col_parallel_mode data_parallel_rank pipeline_parallel_rank
                     pipeline_parallel_size tensor_parallel_size A B
                     (py_range tesseract_dim) C) (\<lambda>C.
              attempt (reshape C out_shape) (\<lambda>out.
              Return (out,
                save_ctx ctx saved tesseract_dim row_rank col_rank dep_rank
                  row_parallel_mode col_parallel_mode A_shape B_shape data_parallel_rank
                  pipeline_parallel_rank pipeline_parallel_size
                  tensor_parallel_size)))))))))))))"

text \<open>
  The backwards. \<^verbatim>\<open>X.apply(...)\<close> runs the forward of \<open>X\<close> with a context of its own and
  hands back the output only. The result is the tuple the source returns, \<^verbatim>\<open>None\<close>
  being \<open>None\<close>.
\<close>

definition Matmul_AB_2p5D_backward ::
  "'a::semiring_0 env \<Rightarrow> 'a matmul_ctx \<Rightarrow> 'a tensor \<Rightarrow> ('a, 'a tensor option list) proc" where
  "Matmul_AB_2p5D_backward env ctx output_grad =
     (let (A, B) = saved_tensors ctx
      in seq (Matmul_ABT_2p5D_forward env True
                output_grad B
                (ctx_tesseract_dim ctx) (map int (ctx_A_shape ctx))
                (ctx_row_rank ctx) (ctx_col_rank ctx) (ctx_dep_rank ctx)
                (ctx_row_parallel_mode ctx)
                (ctx_col_parallel_mode ctx)
                (ctx_data_parallel_rank ctx)
                (ctx_pipeline_parallel_rank ctx)
                (ctx_pipeline_parallel_size ctx)
                (ctx_tensor_parallel_size ctx)) (\<lambda>(A_grad, _).
         seq (Matmul_ATB_2p5D_forward env True
                A output_grad
                (ctx_tesseract_dim ctx) (map int (ctx_B_shape ctx))
                (ctx_row_rank ctx) (ctx_col_rank ctx) (ctx_dep_rank ctx)
                (ctx_row_parallel_mode ctx)
                (ctx_col_parallel_mode ctx)
                (ctx_data_parallel_rank ctx)
                (ctx_pipeline_parallel_rank ctx)
                (ctx_pipeline_parallel_size ctx)
                (ctx_tensor_parallel_size ctx)) (\<lambda>(B_grad, _).
         Return [Some A_grad, Some B_grad, None, None, None, None, None, None, None, None,
                 None, None, None, None, None])))"

definition Matmul_ABT_2p5D_backward ::
  "'a::semiring_0 env \<Rightarrow> 'a matmul_ctx \<Rightarrow> 'a tensor \<Rightarrow> ('a, 'a tensor option list) proc" where
  "Matmul_ABT_2p5D_backward env ctx output_grad =
     (let (A, B) = saved_tensors ctx
      in seq (Matmul_AB_2p5D_forward env True
                output_grad B
                (ctx_tesseract_dim ctx) (map int (ctx_A_shape ctx))
                (ctx_row_rank ctx) (ctx_col_rank ctx) (ctx_dep_rank ctx)
                (ctx_row_parallel_mode ctx)
                (ctx_col_parallel_mode ctx)
                (ctx_data_parallel_rank ctx)
                (ctx_pipeline_parallel_rank ctx)
                (ctx_pipeline_parallel_size ctx)
                (ctx_tensor_parallel_size ctx)) (\<lambda>(A_grad, _).
         seq (Matmul_ATB_2p5D_forward env True
                output_grad A
                (ctx_tesseract_dim ctx) (map int (ctx_B_shape ctx))
                (ctx_row_rank ctx) (ctx_col_rank ctx) (ctx_dep_rank ctx)
                (ctx_row_parallel_mode ctx)
                (ctx_col_parallel_mode ctx)
                (ctx_data_parallel_rank ctx)
                (ctx_pipeline_parallel_rank ctx)
                (ctx_pipeline_parallel_size ctx)
                (ctx_tensor_parallel_size ctx)) (\<lambda>(B_grad, _).
         Return [Some A_grad, Some B_grad, None, None, None, None, None, None, None, None,
                 None, None, None, None, None])))"

definition Matmul_ATB_2p5D_backward ::
  "'a::semiring_0 env \<Rightarrow> 'a matmul_ctx \<Rightarrow> 'a tensor \<Rightarrow> ('a, 'a tensor option list) proc" where
  "Matmul_ATB_2p5D_backward env ctx output_grad =
     (let (A, B) = saved_tensors ctx
      in seq (Matmul_ABT_2p5D_forward env True
                B output_grad
                (ctx_tesseract_dim ctx) (map int (ctx_A_shape ctx))
                (ctx_row_rank ctx) (ctx_col_rank ctx) (ctx_dep_rank ctx)
                (ctx_row_parallel_mode ctx)
                (ctx_col_parallel_mode ctx)
                (ctx_data_parallel_rank ctx)
                (ctx_pipeline_parallel_rank ctx)
                (ctx_pipeline_parallel_size ctx)
                (ctx_tensor_parallel_size ctx)) (\<lambda>(A_grad, _).
         seq (Matmul_AB_2p5D_forward env True
                A output_grad
                (ctx_tesseract_dim ctx) (map int (ctx_B_shape ctx))
                (ctx_row_rank ctx) (ctx_col_rank ctx) (ctx_dep_rank ctx)
                (ctx_row_parallel_mode ctx)
                (ctx_col_parallel_mode ctx)
                (ctx_data_parallel_rank ctx)
                (ctx_pipeline_parallel_rank ctx)
                (ctx_pipeline_parallel_size ctx)
                (ctx_tensor_parallel_size ctx)) (\<lambda>(B_grad, _).
         Return [Some A_grad, Some B_grad, None, None, None, None, None, None, None, None,
                 None, None, None, None, None])))"

section \<open>\<^verbatim>\<open>Add_Bias_2p5D\<close>\<close>

definition Add_Bias_2p5D_forward ::
  "'a::semiring_0 tensor \<Rightarrow> 'a tensor \<Rightarrow> int \<Rightarrow> int \<Rightarrow> int \<Rightarrow> int \<Rightarrow> int \<Rightarrow> ParallelMode \<Rightarrow> bool
    \<Rightarrow> int \<Rightarrow> int \<Rightarrow> int \<Rightarrow> int \<Rightarrow> ('a, 'a tensor \<times> bias_ctx) proc" where
  "Add_Bias_2p5D_forward input bias output_size_per_partition tesseract_dim row_rank col_rank
      dep_rank col_parallel_mode skip_bias_add data_parallel_rank pipeline_parallel_rank
      pipeline_parallel_size tensor_parallel_size =
     attempt
       (if row_rank = 0 then Inr bias
        else if output_size_per_partition < 0 then Inl RuntimeError
        else Inr (zeros [nat output_size_per_partition])) (\<lambda>bias_temp.
    (let src_rank = col_rank + dep_rank * (tesseract_dim ^ 2)
                      + data_parallel_rank * pipeline_parallel_size * tensor_parallel_size
                      + pipeline_parallel_rank * tensor_parallel_size
     in Broadcast bias_temp src_rank col_parallel_mode (\<lambda>bias_temp.
       (let ctx = \<lparr>bias_row_rank = row_rank,
                   bias_col_rank = col_rank,
                   bias_dep_rank = dep_rank,
                   bias_tesseract_dim = tesseract_dim,
                   bias_col_parallel_mode = col_parallel_mode,
                   bias_bias = skip_bias_add,
                   bias_data_parallel_rank = data_parallel_rank,
                   bias_pipeline_parallel_rank = pipeline_parallel_rank,
                   bias_pipeline_parallel_size = pipeline_parallel_size,
                   bias_tensor_parallel_size = tensor_parallel_size\<rparr>
        in if skip_bias_add then Return (bias_temp, ctx)
           else attempt (pointwise plus input bias_temp) (\<lambda>output.
                Return (output, ctx))))))"

definition Add_Bias_2p5D_backward ::
  "bias_ctx \<Rightarrow> 'a::semiring_0 tensor \<Rightarrow> ('a, 'a tensor option list) proc" where
  "Add_Bias_2p5D_backward ctx output_grad =
     (let row_rank = bias_row_rank ctx;
          col_rank = bias_col_rank ctx;
          dep_rank = bias_dep_rank ctx;
          tesseract_dim = bias_tesseract_dim ctx;
          col_parallel_mode = bias_col_parallel_mode ctx;
          data_parallel_rank = bias_data_parallel_rank ctx;
          pipeline_parallel_rank = bias_pipeline_parallel_rank ctx;
          pipeline_parallel_size = bias_pipeline_parallel_size ctx;
          tensor_parallel_size = bias_tensor_parallel_size ctx
      in if bias_bias ctx then
           (let dst_rank = col_rank + dep_rank * (tesseract_dim ^ 2)
                             + data_parallel_rank * pipeline_parallel_size * tensor_parallel_size
                             + pipeline_parallel_rank * tensor_parallel_size
            in Reduce output_grad dst_rank col_parallel_mode (\<lambda>output_grad.
               if row_rank = 0 then
                 Return [None, Some output_grad, None, None, None, None, None, None, None,
                         None, None, None, None, None, None, None]
               else
                 (let grad_tmp = zeros_like output_grad
                  in Return [None, Some grad_tmp, None, None, None, None, None, None, None,
                             None, None, None, None, None, None, None])))
         else
           (let reduce = sum_leading output_grad;
                dst_rank = col_rank + dep_rank * (tesseract_dim ^ 2)
                             + data_parallel_rank * pipeline_parallel_size * tensor_parallel_size
                             + pipeline_parallel_rank * tensor_parallel_size
            in Reduce reduce dst_rank col_parallel_mode (\<lambda>reduce.
               if row_rank = 0 then
                 Return [Some output_grad, Some reduce, None, None, None, None, None, None,
                         None, None, None, None, None, None, None, None, None]
               else
                 (let reduce_tmp = zeros_like reduce
                  in Return [Some output_grad, Some reduce_tmp, None, None, None, None, None,
                             None, None, None, None, None, None, None, None, None, None]))))"

section \<open>\<^verbatim>\<open>_LayerNorm_2p5D\<close>\<close>

definition LayerNorm_2p5D_forward ::
  "'a::field tensor \<Rightarrow> 'a tensor \<Rightarrow> 'a tensor \<Rightarrow> int \<Rightarrow> ParallelMode
    \<Rightarrow> ('a, 'a tensor \<times> 'a layernorm_ctx) proc" where
  "LayerNorm_2p5D_forward input E_x Var_x hidden_size row_parallel_mode =
     attempt (pointwise minus input E_x) (\<lambda>input.
     attempt (pointwise times input Var_x) (\<lambda>output.
     Return (output,
       \<lparr>ln_hidden_size = hidden_size,
        ln_saved_tensors = (output, Var_x),
        ln_row_parallel_mode = row_parallel_mode\<rparr>)))"

definition LayerNorm_2p5D_backward ::
  "'a::field layernorm_ctx \<Rightarrow> 'a tensor \<Rightarrow> ('a, 'a tensor option list) proc" where
  "LayerNorm_2p5D_backward ctx output_grad =
     (let row_parallel_mode = ln_row_parallel_mode ctx;
          (x, Var_x) = ln_saved_tensors ctx;
          output_grad_sum = sum_last_keepdim output_grad
      in All_reduce output_grad_sum row_parallel_mode (\<lambda>output_grad_sum.
         attempt (div_scalar output_grad_sum (ln_hidden_size ctx)) (\<lambda>output_grad_sum.
         attempt (pointwise times output_grad x) (\<lambda>output_grad_mul_x.
        (let output_grad_mul_x_sum = sum_last_keepdim output_grad_mul_x
         in All_reduce output_grad_mul_x_sum row_parallel_mode (\<lambda>output_grad_mul_x_sum.
            attempt (div_scalar output_grad_mul_x_sum (ln_hidden_size ctx))
              (\<lambda>output_grad_mul_x_sum.
           (let input_grad = output_grad
            in attempt (pointwise times x output_grad_mul_x_sum) (\<lambda>x_mean.
               attempt (pointwise_inplace minus input_grad x_mean) (\<lambda>input_grad.
               attempt (pointwise_inplace minus input_grad output_grad_sum) (\<lambda>input_grad.
               attempt (pointwise_inplace times input_grad Var_x) (\<lambda>input_grad.
               Return [Some input_grad, None, None, None, None, None, None]))))))))))))"

section \<open>\<^verbatim>\<open>AllGatherLast\<close> and \<^verbatim>\<open>SplitFirst\<close>\<close>

definition AllGatherLast_forward ::
  "'a env \<Rightarrow> 'a tensor \<Rightarrow> int \<Rightarrow> ParallelMode \<Rightarrow> ('a, 'a tensor \<times> gather_ctx) proc" where
  "AllGatherLast_forward env inputs tesseract_dim col_parallel_mode =
     (let ctx = \<lparr>ag_tesseract_dim = tesseract_dim,
                 ag_row_rank = get_local_rank env col_parallel_mode\<rparr>
      in attempt (py_index (shape inputs) (- 1)) (\<lambda>inputs_size.
        (let last_dim = tesseract_dim * int inputs_size
         in if last_dim < 0 then Raise RuntimeError
            else
              (let outputs_shape = nat last_dim # butlast (shape inputs);
                   outputs = empty (uninitialized env) outputs_shape
               in attempt (chunk outputs tesseract_dim 0) (\<lambda>chunks.
                  attempt (permute inputs [2, 0, 1]) (\<lambda>permuted.
                  All_gather chunks permuted col_parallel_mode (\<lambda>chunks.
                 (let outputs = Tensor outputs_shape (concat (map data chunks))
                  in attempt (permute outputs [1, 2, 0]) (\<lambda>outputs.
                     Return (outputs, ctx))))))))))"


definition SplitFirst_forward ::
  "'a env \<Rightarrow> 'a tensor \<Rightarrow> int \<Rightarrow> ParallelMode \<Rightarrow> ('a, 'a tensor \<times> split_ctx) proc" where
  "SplitFirst_forward env inputs tesseract_dim col_parallel_mode =
     attempt (py_index (shape inputs) 0) (\<lambda>batch_size.
    (let ctx = \<lparr>sf_tesseract_dim = tesseract_dim,
                sf_batch_size = batch_size,
                sf_para_mode = col_parallel_mode\<rparr>;
         row_rank = get_local_rank env col_parallel_mode
     in attempt (chunk inputs tesseract_dim 0) (\<lambda>chunks.
        attempt (py_index chunks row_rank) (\<lambda>outputs.
        Return (outputs, ctx)))))"


section \<open>One rank, whatever the collectives leave\<close>

text \<open>
  The view of a single rank: the buffers the collectives hand back are given by
  \<open>answers\<close>, indexed by the position of the collective among those the rank issues.
  \<open>exec\<close> is what the rank then returns or raises, \<open>requests\<close> the collectives it
  issues, in order, with the tensors and addresses it passes.
\<close>

record 'a answers =
  gathered :: "nat \<Rightarrow> 'a tensor list"
  received :: "nat \<Rightarrow> 'a tensor"

datatype 'a request =
    Req_all_gather "'a tensor list" "'a tensor" ParallelMode
  | Req_broadcast "'a tensor" int ParallelMode
  | Req_reduce "'a tensor" int ParallelMode
  | Req_all_reduce "'a tensor" ParallelMode

primrec exec :: "('a, 'r) proc \<Rightarrow> 'a answers \<Rightarrow> nat \<Rightarrow> error + 'r" where
  "exec (Return x) = (\<lambda>ans n. Inr x)"
| "exec (Raise e) = (\<lambda>ans n. Inl e)"
| "exec (All_gather l t g k) = (\<lambda>ans n. exec (k (gathered ans n)) ans (Suc n))"
| "exec (Broadcast t src g k) = (\<lambda>ans n. exec (k (received ans n)) ans (Suc n))"
| "exec (Reduce t dst g k) = (\<lambda>ans n. exec (k (received ans n)) ans (Suc n))"
| "exec (All_reduce t g k) = (\<lambda>ans n. exec (k (received ans n)) ans (Suc n))"

primrec requests :: "('a, 'r) proc \<Rightarrow> 'a answers \<Rightarrow> nat \<Rightarrow> 'a request list" where
  "requests (Return x) = (\<lambda>ans n. [])"
| "requests (Raise e) = (\<lambda>ans n. [])"
| "requests (All_gather l t g k) =
     (\<lambda>ans n. Req_all_gather l t g # requests (k (gathered ans n)) ans (Suc n))"
| "requests (Broadcast t src g k) =
     (\<lambda>ans n. Req_broadcast t src g # requests (k (received ans n)) ans (Suc n))"
| "requests (Reduce t dst g k) =
     (\<lambda>ans n. Req_reduce t dst g # requests (k (received ans n)) ans (Suc n))"
| "requests (All_reduce t g k) =
     (\<lambda>ans n. Req_all_reduce t g # requests (k (received ans n)) ans (Suc n))"

text \<open>
  Modelled from the spec (section 4.2, CollectiveChannel: the collectives work in place on
  the buffers they are given): \<open>keeps_shapes p ans n\<close> says that every buffer the answers
  hand back to the rank has the shape of the buffer the rank passed, the list of an
  all-gather entry by entry.
\<close>

primrec keeps_shapes :: "('a, 'r) proc \<Rightarrow> 'a answers \<Rightarrow> nat \<Rightarrow> bool" where
  "keeps_shapes (Return x) = (\<lambda>ans n. True)"
| "keeps_shapes (Raise e) = (\<lambda>ans n. True)"
| "keeps_shapes (All_gather l t g k) =
     (\<lambda>ans n. map shape (gathered ans n) = map shape l
              \<and> keeps_shapes (k (gathered ans n)) ans (Suc n))"
| "keeps_shapes (Broadcast t src g k) =
     (\<lambda>ans n. shape (received ans n) = shape t \<and> keeps_shapes (k (received ans n)) ans (Suc n))"
| "keeps_shapes (Reduce t dst g k) =
     (\<lambda>ans n. shape (received ans n) = shape t \<and> keeps_shapes (k (received ans n)) ans (Suc n))"
| "keeps_shapes (All_reduce t g k) =
     (\<lambda>ans n. shape (received ans n) = shape t \<and> keeps_shapes (k (received ans n)) ans (Suc n))"

text \<open>
  What a request asks for, its tensors left out: the collective, its group and, for a
  broadcast or a reduce, the global rank it names as source or destination.
\<close>

datatype collective =
    Gather ParallelMode
  | Bcast int ParallelMode
  | Red int ParallelMode
  | All_red ParallelMode

fun collective_of :: "'a request \<Rightarrow> collective" where
  "collective_of (Req_all_gather l t g) = Gather g"
| "collective_of (Req_broadcast t src g) = Bcast src g"
| "collective_of (Req_reduce t dst g) = Red dst g"
| "collective_of (Req_all_reduce t g) = All_red g"

section \<open>The grid\<close>

text \<open>
  Modelled from the spec: the runtime that numbers the ranks and forms the groups (the
  parallel context \<^verbatim>\<open>gpc\<close> and \<^verbatim>\<open>torch.distributed\<close> are not in the source), after the
  spec's sections 3 (GridCoordinate, CommunicationGroup) and 4.2 (CollectiveChannel) and
  the addresses the source itself computes. One slice of the grid is
  \<open>tesseract_dim \<times> tesseract_dim\<close> ranks at one depth, data-parallel and pipeline
  coordinate; the rank at \<open>(row_rank, col_rank)\<close> has the global rank
  \<open>col_rank + row_rank * tesseract_dim + dep_rank * tesseract_dim\<^sup>2 + \<dots>\<close>. The row group of
  a rank is the ranks of its \<open>row_rank\<close>, ordered by \<open>col_rank\<close>; its column group the
  ranks of its \<open>col_rank\<close>, ordered by \<open>row_rank\<close>.
\<close>

record grid =
  grid_tesseract_dim :: nat
  grid_dep_rank :: int
  grid_data_parallel_rank :: int
  grid_pipeline_parallel_rank :: int
  grid_pipeline_parallel_size :: int
  grid_tensor_parallel_size :: int

definition global_rank :: "grid \<Rightarrow> nat \<times> nat \<Rightarrow> int" where
  "global_rank G = (\<lambda>(row_rank, col_rank).
     int col_rank + int row_rank * int (grid_tesseract_dim G)
       + grid_dep_rank G * (int (grid_tesseract_dim G) ^ 2)
       + grid_data_parallel_rank G * grid_pipeline_parallel_size G * grid_tensor_parallel_size G
       + grid_pipeline_parallel_rank G * grid_tensor_parallel_size G)"

definition member :: "ParallelMode \<Rightarrow> nat \<times> nat \<Rightarrow> nat \<Rightarrow> nat \<times> nat" where
  \<comment> \<open>the member at position \<open>q\<close> of a rank's group\<close>
  "member g = (\<lambda>(row_rank, col_rank) q.
     case g of PARALLEL_2P5D_ROW \<Rightarrow> (row_rank, q) | PARALLEL_2P5D_COL \<Rightarrow> (q, col_rank))"

definition local_rank :: "ParallelMode \<Rightarrow> nat \<times> nat \<Rightarrow> nat" where
  \<comment> \<open>\<^verbatim>\<open>gpc.get_local_rank(mode)\<close>: the rank's own position in its group\<close>
  "local_rank g = (\<lambda>(row_rank, col_rank).
     case g of PARALLEL_2P5D_ROW \<Rightarrow> col_rank | PARALLEL_2P5D_COL \<Rightarrow> row_rank)"

definition group_of :: "grid \<Rightarrow> ParallelMode \<Rightarrow> nat \<times> nat \<Rightarrow> (nat \<times> nat) list" where
  "group_of G g rc = map (member g rc) [0..<grid_tesseract_dim G]"

definition rank_env :: "grid \<Rightarrow> (nat \<Rightarrow> 'a) \<Rightarrow> nat \<times> nat \<Rightarrow> 'a env" where
  "rank_env G junk rc =
     \<lparr>get_world_size = (\<lambda>g. int (grid_tesseract_dim G)),
      get_local_rank = (\<lambda>g. int (local_rank g rc)),
      uninitialized = junk\<rparr>"

text \<open>What a member passes to the collective a rank is waiting in, if it is there too.\<close>

fun gather_arg :: "ParallelMode \<Rightarrow> ('a, 'r) proc \<Rightarrow> 'a tensor option" where
  "gather_arg g (All_gather l t g' k) = (if g' = g then Some t else None)"
| "gather_arg g p = None"

fun broadcast_arg :: "ParallelMode \<Rightarrow> int \<Rightarrow> ('a, 'r) proc \<Rightarrow> 'a tensor option" where
  "broadcast_arg g src (Broadcast t src' g' k) = (if g' = g \<and> src' = src then Some t else None)"
| "broadcast_arg g src p = None"

fun reduce_arg :: "ParallelMode \<Rightarrow> int \<Rightarrow> ('a, 'r) proc \<Rightarrow> 'a tensor option" where
  "reduce_arg g dst (Reduce t dst' g' k) = (if g' = g \<and> dst' = dst then Some t else None)"
| "reduce_arg g dst p = None"

fun all_reduce_arg :: "ParallelMode \<Rightarrow> ('a, 'r) proc \<Rightarrow> 'a tensor option" where
  "all_reduce_arg g (All_reduce t g' k) = (if g' = g then Some t else None)"
| "all_reduce_arg g p = None"

text \<open>
  One round: every rank that waits in a collective gets what the collective leaves in
  its buffer, provided every member of its group waits in the same collective with a
  tensor of the same shape (and the same source or destination); otherwise the rank is
  stuck. \<open>all_gather\<close> leaves the members' tensors in group order, \<open>broadcast\<close> the
  tensor of the source, \<open>all_reduce\<close> the sum. \<open>reduce\<close> leaves the sum at the
  destination; elsewhere the buffer is unspecified, and \<open>residue\<close> says what it holds.
\<close>

definition step ::
  "grid \<Rightarrow> (nat \<times> nat \<Rightarrow> 'a tensor list \<Rightarrow> 'a list) \<Rightarrow> (nat \<times> nat \<Rightarrow> ('a::comm_monoid_add, 'r) proc)
    \<Rightarrow> nat \<times> nat \<Rightarrow> ('a, 'r) proc" where
  "step G residue P rc =
     (case P rc of
        Return x \<Rightarrow> Return x
      | Raise e \<Rightarrow> Raise e
      | All_gather l t g k \<Rightarrow>
          (case those (map (\<lambda>m. gather_arg g (P m)) (group_of G g rc)) of
             None \<Rightarrow> Raise Stuck
           | Some ts \<Rightarrow>
               if length l = length ts \<and> list_all (\<lambda>x. shape x = shape t) (l @ ts)
               then k ts else Raise Stuck)
      | Broadcast t src g k \<Rightarrow>
          (case those (map (\<lambda>m. broadcast_arg g src (P m)) (group_of G g rc)) of
             None \<Rightarrow> Raise Stuck
           | Some ts \<Rightarrow>
               (case find (\<lambda>m. global_rank G m = src) (group_of G g rc) of
                  None \<Rightarrow> Raise Stuck
                | Some m \<Rightarrow>
                    (case broadcast_arg g src (P m) of
                       None \<Rightarrow> Raise Stuck
                     | Some x \<Rightarrow>
                         if list_all (\<lambda>y. shape y = shape t) ts then k x else Raise Stuck)))
      | Reduce t dst g k \<Rightarrow>
          (case those (map (\<lambda>m. reduce_arg g dst (P m)) (group_of G g rc)) of
             None \<Rightarrow> Raise Stuck
           | Some ts \<Rightarrow>
               if list_ex (\<lambda>m. global_rank G m = dst) (group_of G g rc)
                  \<and> list_all (\<lambda>y. shape y = shape t) ts
               then k (if global_rank G rc = dst then tensor_sum ts
                       else Tensor (shape t) (residue rc ts))
               else Raise Stuck)
      | All_reduce t g k \<Rightarrow>
          (case those (map (\<lambda>m. all_reduce_arg g (P m)) (group_of G g rc)) of
             None \<Rightarrow> Raise Stuck
           | Some ts \<Rightarrow>
               if list_all (\<lambda>y. shape y = shape t) ts then k (tensor_sum ts)
               else Raise Stuck))"

primrec run ::
  "grid \<Rightarrow> (nat \<times> nat \<Rightarrow> 'a tensor list \<Rightarrow> 'a list) \<Rightarrow> nat
    \<Rightarrow> (nat \<times> nat \<Rightarrow> ('a::comm_monoid_add, 'r) proc) \<Rightarrow> nat \<times> nat \<Rightarrow> ('a, 'r) proc" where
  "run G residue 0 P = P"
| "run G residue (Suc n) P = run G residue n (step G residue P)"

text \<open>
  Modelled from the spec: the callers of the operations (the layers, not in the source),
  which pass every rank of the slice its own coordinates, the two parallel modes and the
  sizes of the grid; for a backward, the context the rank's forward stored.
\<close>

definition matmul_on_grid ::
  "('a env \<Rightarrow> bool \<Rightarrow> 'a tensor \<Rightarrow> 'a tensor \<Rightarrow> int \<Rightarrow> int list \<Rightarrow> int \<Rightarrow> int \<Rightarrow> int
      \<Rightarrow> ParallelMode \<Rightarrow> ParallelMode \<Rightarrow> int \<Rightarrow> int \<Rightarrow> int \<Rightarrow> int \<Rightarrow> ('a, 'r) proc)
    \<Rightarrow> grid \<Rightarrow> (nat \<Rightarrow> 'a) \<Rightarrow> bool \<Rightarrow> (nat \<times> nat \<Rightarrow> 'a tensor) \<Rightarrow> (nat \<times> nat \<Rightarrow> 'a tensor)
    \<Rightarrow> int list \<Rightarrow> nat \<times> nat \<Rightarrow> ('a, 'r) proc" where
  "matmul_on_grid forward G junk ctx A B out_shape = (\<lambda>(row_rank, col_rank).
     forward (rank_env G junk (row_rank, col_rank)) ctx
       (A (row_rank, col_rank)) (B (row_rank, col_rank))
       (int (grid_tesseract_dim G)) out_shape
       (int row_rank) (int col_rank) (grid_dep_rank G)
       PARALLEL_2P5D_ROW PARALLEL_2P5D_COL
       (grid_data_parallel_rank G) (grid_pipeline_parallel_rank G)
       (grid_pipeline_parallel_size G) (grid_tensor_parallel_size G))"

definition Add_Bias_on_grid ::
  "grid \<Rightarrow> (nat \<times> nat \<Rightarrow> 'a::semiring_0 tensor) \<Rightarrow> (nat \<times> nat \<Rightarrow> 'a tensor) \<Rightarrow> int \<Rightarrow> bool
    \<Rightarrow> nat \<times> nat \<Rightarrow> ('a, 'a tensor \<times> bias_ctx) proc" where
  "Add_Bias_on_grid G input bias output_size_per_partition skip_bias_add =
     (\<lambda>(row_rank, col_rank).
       Add_Bias_2p5D_forward (input (row_rank, col_rank)) (bias (row_rank, col_rank))
         output_size_per_partition (int (grid_tesseract_dim G))
         (int row_rank) (int col_rank) (grid_dep_rank G)
         PARALLEL_2P5D_COL skip_bias_add
         (grid_data_parallel_rank G) (grid_pipeline_parallel_rank G)
         (grid_pipeline_parallel_size G) (grid_tensor_parallel_size G))"

definition Add_Bias_ctx_on_grid :: "grid \<Rightarrow> bool \<Rightarrow> nat \<times> nat \<Rightarrow> bias_ctx" where
  \<comment> \<open>what \<open>Add_Bias_on_grid\<close> stores on the context of each rank\<close>
  "Add_Bias_ctx_on_grid G skip_bias_add = (\<lambda>(row_rank, col_rank).
     \<lparr>bias_row_rank = int row_rank,
      bias_col_rank = int col_rank,
      bias_dep_rank = grid_dep_rank G,
      bias_tesseract_dim = int (grid_tesseract_dim G),
      bias_col_parallel_mode = PARALLEL_2P5D_COL,
      bias_bias = skip_bias_add,
      bias_data_parallel_rank = grid_data_parallel_rank G,
      bias_pipeline_parallel_rank = grid_pipeline_parallel_rank G,
      bias_pipeline_parallel_size = grid_pipeline_parallel_size G,
      bias_tensor_parallel_size = grid_tensor_parallel_size G\<rparr>)"

definition Add_Bias_backward_on_grid ::
  "grid \<Rightarrow> bool \<Rightarrow> (nat \<times> nat \<Rightarrow> 'a::semiring_0 tensor)
    \<Rightarrow> nat \<times> nat \<Rightarrow> ('a, 'a tensor option list) proc" where
  "Add_Bias_backward_on_grid G skip_bias_add output_grad = (\<lambda>(row_rank, col_rank).
     Add_Bias_2p5D_backward (Add_Bias_ctx_on_grid G skip_bias_add (row_rank, col_rank))
       (output_grad (row_rank, col_rank)))"

definition LayerNorm_backward_on_grid ::
  "(nat \<times> nat \<Rightarrow> 'a::field layernorm_ctx) \<Rightarrow> (nat \<times> nat \<Rightarrow> 'a tensor)
    \<Rightarrow> nat \<times> nat \<Rightarrow> ('a, 'a tensor option list) proc" where
  "LayerNorm_backward_on_grid ctx output_grad = (\<lambda>(row_rank, col_rank).
     LayerNorm_2p5D_backward (ctx (row_rank, col_rank)) (output_grad (row_rank, col_rank)))"

section \<open>The slice inside the loops of \<^verbatim>\<open>Matmul_ABT_2p5D\<close> and \<^verbatim>\<open>Matmul_ATB_2p5D\<close>\<close>

text \<open>
  \<open>in_loop loop G A B K i C\<close> is the program of every rank of the slice \<open>G\<close> when each is
  about to start iteration \<open>i\<close> of \<open>loop\<close> (\<open>ABT_loop\<close> or \<open>ATB_loop\<close>) on its tiles
  \<open>A\<close> and \<open>B\<close>, holds \<open>C\<close> in its variable \<^verbatim>\<open>C\<close>, and goes on with \<open>K\<close> after the loop.
  \<open>ABT_partial A B i\<close> is the \<^verbatim>\<open>C_temp\<close> a rank computes at iteration \<open>i\<close> of \<open>ABT_loop\<close>,
  \<^verbatim>\<open>torch.matmul(A, B_temp.transpose(0, 1))\<close> with \<^verbatim>\<open>B_temp\<close> the tile of the rank at row
  \<open>i\<close> of its column; \<open>ATB_partial A B i\<close> the one of \<open>ATB_loop\<close>,
  \<^verbatim>\<open>torch.matmul(A_temp.transpose(0, 1), B)\<close> with \<^verbatim>\<open>A_temp\<close> the tile of the rank at column
  \<open>i\<close> of its row.
\<close>

definition in_loop ::
  "(int \<Rightarrow> int \<Rightarrow> int \<Rightarrow> int \<Rightarrow> ParallelMode \<Rightarrow> ParallelMode \<Rightarrow> int \<Rightarrow> int \<Rightarrow> int \<Rightarrow> int
      \<Rightarrow> 'a tensor \<Rightarrow> 'a tensor \<Rightarrow> int list \<Rightarrow> 'a tensor \<Rightarrow> ('a, 'a tensor) proc)
    \<Rightarrow> grid \<Rightarrow> (nat \<times> nat \<Rightarrow> 'a tensor) \<Rightarrow> (nat \<times> nat \<Rightarrow> 'a tensor)
    \<Rightarrow> (nat \<times> nat \<Rightarrow> 'a tensor \<Rightarrow> ('a, 'r) proc) \<Rightarrow> nat \<Rightarrow> (nat \<times> nat \<Rightarrow> 'a tensor)
    \<Rightarrow> nat \<times> nat \<Rightarrow> ('a, 'r) proc" where
  "in_loop loop G A B K i C = (\<lambda>(row_rank, col_rank).
     seq (loop (int (grid_tesseract_dim G)) (int row_rank) (int col_rank) (grid_dep_rank G)
            PARALLEL_2P5D_ROW PARALLEL_2P5D_COL
            (grid_data_parallel_rank G) (grid_pipeline_parallel_rank G)
            (grid_pipeline_parallel_size G) (grid_tensor_parallel_size G)
            (A (row_rank, col_rank)) (B (row_rank, col_rank))
            (map int [i..<grid_tesseract_dim G]) (C (row_rank, col_rank)))
       (K (row_rank, col_rank)))"

definition ABT_partial ::
  "(nat \<times> nat \<Rightarrow> 'a::semiring_0 tensor) \<Rightarrow> (nat \<times> nat \<Rightarrow> 'a tensor) \<Rightarrow> nat \<Rightarrow> nat \<times> nat \<Rightarrow> 'a tensor" where
  "ABT_partial A B i = (\<lambda>(row_rank, col_rank).
     projr (matmul (A (row_rank, col_rank)) (projr (transpose01 (B (i, col_rank))))))"

definition ATB_partial ::
  "(nat \<times> nat \<Rightarrow> 'a::semiring_0 tensor) \<Rightarrow> (nat \<times> nat \<Rightarrow> 'a tensor) \<Rightarrow> nat \<Rightarrow> nat \<times> nat \<Rightarrow> 'a tensor" where
  "ATB_partial A B i = (\<lambda>(row_rank, col_rank).
     projr (matmul (projr (transpose01 (A (row_rank, i)))) (B (row_rank, col_rank))))"

section \<open>Reference notions of the spec\<close>

text \<open>
  Follows the spec's words (section 4.1, GridAddressing): the global rank a collective
  addresses, from the offset within the slice.
\<close>

definition grid_address :: "int \<Rightarrow> int \<Rightarrow> int \<Rightarrow> int \<Rightarrow> int \<Rightarrow> int \<Rightarrow> int \<Rightarrow> int" where
  "grid_address minor_offset dep_rank tesseract_dim data_parallel_rank pipeline_parallel_rank
      pipeline_parallel_size tensor_parallel_size =
     minor_offset + dep_rank * tesseract_dim\<^sup>2
       + data_parallel_rank * pipeline_parallel_size * tensor_parallel_size
       + pipeline_parallel_rank * tensor_parallel_size"

text \<open>
  Follows the spec's words (section 8): the tiles of a \<open>d \<times> d\<close> grid, each \<open>m \<times> n\<close> in
  row-major order, assembled into the dense \<open>d m \<times> d n\<close> matrix whose block
  \<open>(r, c)\<close> is the tile of the rank at row \<open>r\<close> and column \<open>c\<close>.
\<close>

definition assemble :: "nat \<Rightarrow> nat \<Rightarrow> nat \<Rightarrow> (nat \<times> nat \<Rightarrow> 'a tensor) \<Rightarrow> 'a tensor" where
  "assemble d m n T =
     Tensor [d * m, d * n]
       (map (\<lambda>p. data (T ((p div (d * n)) div m, (p mod (d * n)) div n))
                   ! (((p div (d * n)) mod m) * n + (p mod (d * n)) mod n))
          [0..<d * m * (d * n)])"

text \<open>
  Follows the spec's words (section 4.6, the column-sum of the output gradient): the
  sum of a tensor of two or more dimensions over every dimension but the last, one entry
  per column.
\<close>

definition column_sum :: "'a::comm_monoid_add tensor \<Rightarrow> 'a tensor" where
  "column_sum t =
     Tensor [last (shape t)]
       (map (\<lambda>j. \<Sum>p\<leftarrow>[0..<prod_list (butlast (shape t))]. data t ! (p * last (shape t) + j))
          [0..<last (shape t)])"

text \<open>
  The tiles the ranks of a slice have returned: the output of the forward of each rank
  that has returned (the empty tensor for a rank that has not).
\<close>

definition returned_tiles :: "(nat \<times> nat \<Rightarrow> ('a, 'a tensor \<times> 'c) proc) \<Rightarrow> nat \<times> nat \<Rightarrow> 'a tensor" where
  "returned_tiles P rc = (case P rc of Return x \<Rightarrow> fst x | _ \<Rightarrow> Tensor [] [])"






text \<open>
  Follows the spec's words (section 6, the autodiff engine contract): the tuple a
  backward returns has exactly one slot per parameter of the forward, a gradient for a
  tensor and \<^verbatim>\<open>None\<close> for a non-tensor.
\<close>

definition arity_contract :: "(string \<times> bool) list \<Rightarrow> 'a tensor option list \<Rightarrow> bool" where
  "arity_contract params grads \<longleftrightarrow>
     length grads = length params
     \<and> list_all (\<lambda>(p, g). snd p = (g \<noteq> None)) (zip params grads)"

text \<open>
  What the backwards of the source return instead: one slot per parameter of the forward,
  then \<open>surplus\<close> more slots. The slot of a tensor parameter holds a gradient, unless the
  parameter is one of \<open>without\<close>; the slot of every other parameter, and every surplus
  slot, holds \<^verbatim>\<open>None\<close>.
\<close>

definition slots_contract ::
  "(string \<times> bool) list \<Rightarrow> string list \<Rightarrow> nat \<Rightarrow> 'a tensor option list \<Rightarrow> bool" where
  "slots_contract params without surplus grads \<longleftrightarrow>
     length grads = length params + surplus
     \<and> list_all (\<lambda>(p, g). (g \<noteq> None) = (snd p \<and> fst p \<notin> set without)) (zip params grads)
     \<and> list_all (\<lambda>g. g = None) (drop (length params) grads)"

section \<open>Concrete inputs\<close>

text \<open>
  A rank of a 2 x 2 grid with 1 x 1 tiles, and buffers for its collectives to hand back;
  the theorems below are instantiated at them.
\<close>

definition env_ex :: "int env" where
  "env_ex = \<lparr>get_world_size = (\<lambda>g. 2), get_local_rank = (\<lambda>g. 0), uninitialized = (\<lambda>i. 0)\<rparr>"

definition ans_ex :: "int answers" where
  "ans_ex = \<lparr>gathered = (\<lambda>n. [Tensor [1, 1] [2], Tensor [1, 1] [3]]),
             received = (\<lambda>n. Tensor [1, 1] [5])\<rparr>"

definition ctx_ex :: "int matmul_ctx" where
  "ctx_ex = \<lparr>saved_tensors = (Tensor [1, 1] [2], Tensor [1, 1] [3]),
             ctx_tesseract_dim = 2, ctx_row_rank = 1, ctx_col_rank = 0, ctx_dep_rank = 0,
             ctx_row_parallel_mode = PARALLEL_2P5D_ROW,
             ctx_col_parallel_mode = PARALLEL_2P5D_COL,
             ctx_A_shape = [1, 1], ctx_B_shape = [1, 1],
             ctx_data_parallel_rank = 0, ctx_pipeline_parallel_rank = 0,
             ctx_pipeline_parallel_size = 1, ctx_tensor_parallel_size = 4\<rparr>"

definition bias_ctx_ex :: "bool \<Rightarrow> bias_ctx" where
  \<comment> \<open>what \<^verbatim>\<open>Add_Bias_2p5D.forward\<close> stores at row 0, column 1 of the slice at depth 1\<close>
  "bias_ctx_ex skip_bias_add =
     \<lparr>bias_row_rank = 0, bias_col_rank = 1, bias_dep_rank = 1, bias_tesseract_dim = 2,
      bias_col_parallel_mode = PARALLEL_2P5D_COL, bias_bias = skip_bias_add,
      bias_data_parallel_rank = 0, bias_pipeline_parallel_rank = 0,
      bias_pipeline_parallel_size = 1, bias_tensor_parallel_size = 8\<rparr>"

definition bias_ans_ex :: "int answers" where
  "bias_ans_ex = \<lparr>gathered = (\<lambda>n. []), received = (\<lambda>n. Tensor [2] [10, 20])\<rparr>"

definition grid_ex :: grid where
  \<comment> \<open>the slice at depth 1 of a 2 x 2 x 2 grid\<close>
  "grid_ex = \<lparr>grid_tesseract_dim = 2, grid_dep_rank = 1, grid_data_parallel_rank = 0,
              grid_pipeline_parallel_rank = 0, grid_pipeline_parallel_size = 1,
              grid_tensor_parallel_size = 8\<rparr>"

definition residue_ex :: "nat \<times> nat \<Rightarrow> int tensor list \<Rightarrow> int list" where
  \<comment> \<open>a reduce that leaves, off the destination, the tensor of the first member\<close>
  "residue_ex rc ts = data (hd ts)"

definition bias_ex :: "nat \<times> nat \<Rightarrow> int tensor" where
  "bias_ex = (\<lambda>(r, c). if r = 0 then Tensor [2] [10 + int c, 20 + int c] else Tensor [2] [7, 7])"

definition input_ex :: "nat \<times> nat \<Rightarrow> int tensor" where
  "input_ex = (\<lambda>(r, c). Tensor [1, 2] [int r, int c])"

definition grad_ex :: "nat \<times> nat \<Rightarrow> int tensor" where
  "grad_ex = (\<lambda>(r, c). Tensor [2, 2] [1, int r, int c, 2])"

definition ln_input_ex :: "nat \<times> nat \<Rightarrow> real tensor" where
  "ln_input_ex = (\<lambda>(r, c). Tensor [1, 2] [1 + real c, 4 - real c])"

definition ln_E_ex :: "nat \<times> nat \<Rightarrow> real tensor" where
  "ln_E_ex = (\<lambda>rc. Tensor [1, 1] [2])"

definition ln_Var_ex :: "nat \<times> nat \<Rightarrow> real tensor" where
  "ln_Var_ex = (\<lambda>rc. Tensor [1, 1] [1 / 2])"

definition ln_grad_ex :: "nat \<times> nat \<Rightarrow> real tensor" where
  "ln_grad_ex = (\<lambda>(r, c). Tensor [1, 2] [1, 2 + real c])"

definition ln_residue_ex :: "nat \<times> nat \<Rightarrow> real tensor list \<Rightarrow> real list" where
  "ln_residue_ex rc ts = data (hd ts)"




text \<open>
  Tiles of a 2 x 4 and of a 4 x 2 matrix on the 2 x 2 grid: the dense matrices are
  \<open>[[1, 2, 3, 4], [5, 6, 7, 8]]\<close> and \<open>[[0, 1], [1, -1], [1, 2], [1, -1]]\<close>.
\<close>

definition A_ex :: "nat \<times> nat \<Rightarrow> int tensor" where
  "A_ex = (\<lambda>(r, c). Tensor [1, 2] [4 * int r + 2 * int c + 1, 4 * int r + 2 * int c + 2])"

definition B_ex :: "nat \<times> nat \<Rightarrow> int tensor" where
  "B_ex = (\<lambda>(r, c). Tensor [2, 1] [int r + int c, 1 - 2 * int c])"

definition shapes_ans_ex :: "int answers" where
  \<comment> \<open>buffers of the shapes a rank passes in the three forwards at the inputs of C5: the
      gathered tiles of \<open>A\<close> then of \<open>B\<close>; the broadcast tile, then the reduced product\<close>
  "shapes_ans_ex =
     \<lparr>gathered = (\<lambda>n. if n = 0 then [zeros [2, 2], zeros [2, 2]] else [zeros [2, 1], zeros [2, 1]]),
      received = (\<lambda>n. if even n then zeros [3, 2] else zeros [2, 3])\<rparr>"

section \<open>Basic facts\<close>

subsection \<open>Indexing and reshaping\<close>

lemma py_index_last: "xs \<noteq> [] \<Longrightarrow> py_index xs (- 1) = Inr (last xs)"
  by (cases xs rule: rev_cases) (auto simp: py_index_def nth_append)

lemma py_index_penultimate:
  "2 \<le> length xs \<Longrightarrow> py_index xs (- 2) = Inr (xs ! (length xs - 2))"
  by (auto simp: py_index_def nat_diff_distrib' int_ops)

lemma py_index_first: "xs \<noteq> [] \<Longrightarrow> py_index xs 0 = Inr (hd xs)"
  by (cases xs) (auto simp: py_index_def)

lemma py_index_error: "py_index xs i = Inl e \<Longrightarrow> e = IndexError"
  by (auto simp: py_index_def split: if_splits)

lemma py_index_nat: "i < length xs \<Longrightarrow> py_index xs (int i) = Inr (xs ! i)"
  by (simp add: py_index_def)

lemma reshape_error: "reshape t sh = Inl e \<Longrightarrow> e = RuntimeError"
  by (auto simp: reshape_def Let_def split: if_splits)

lemma prod_list_butlast_last: "xs \<noteq> [] \<Longrightarrow> prod_list (butlast xs) * last xs = prod_list xs"
  by (cases xs rule: rev_cases) auto

lemma reshape_rows:
  assumes "shape t \<noteq> []" "last (shape t) = k" "0 < k"
  shows "reshape t [- 1, int k] = Inr (Tensor [prod_list (butlast (shape t)), k] (data t))"
proof -
  have "prod_list (shape t) = prod_list (butlast (shape t)) * k"
    using prod_list_butlast_last [OF assms(1)] assms(2) by simp
  then show ?thesis
    using assms(3) by (simp add: reshape_def)
qed

lemma reshape_known:
  "prod_list os = prod_list (shape t) \<Longrightarrow> reshape t (map int os) = Inr (Tensor os (data t))"
  by (simp add: reshape_def comp_def filter_id_conv)

subsection \<open>Running a rank program\<close>

lemma exec_attempt:
  "exec (attempt x k) ans n = (case x of Inl e \<Rightarrow> Inl e | Inr y \<Rightarrow> exec (k y) ans n)"
  by (cases x) simp_all

lemma requests_attempt:
  "requests (attempt x k) ans n = (case x of Inl e \<Rightarrow> [] | Inr y \<Rightarrow> requests (k y) ans n)"
  by (cases x) simp_all

lemma seq_attempt: "seq (attempt x k) f = attempt x (\<lambda>y. seq (k y) f)"
  by (cases x) simp_all

lemma exec_seq:
  "exec (seq p f) ans n =
     (case exec p ans n of
        Inl e \<Rightarrow> Inl e
      | Inr x \<Rightarrow> exec (f x) ans (n + length (requests p ans n)))"
  by (induction p arbitrary: n) (simp_all split: sum.splits)

lemma requests_seq:
  "requests (seq p f) ans n =
     requests p ans n @
     (case exec p ans n of
        Inl e \<Rightarrow> []
      | Inr x \<Rightarrow> requests (f x) ans (n + length (requests p ans n)))"
  by (induction p arbitrary: n) (simp_all split: sum.splits)

subsection \<open>Which errors the operations raise\<close>

lemma matmul_error: "matmul a b = Inl e \<Longrightarrow> e = RuntimeError"
  by (auto simp: matmul_def split: list.splits if_splits)

lemma transpose01_error: "transpose01 t = Inl e \<Longrightarrow> e = RuntimeError"
  by (auto simp: transpose01_def split: list.splits)

lemma addmm_error: "addmm C a b = Inl e \<Longrightarrow> e = RuntimeError"
  by (auto simp: addmm_def split: sum.splits if_splits dest: matmul_error)

lemma AB_loop_error:
  "AB_loop d r c A_list B_list C js = Inl e \<Longrightarrow> e \<noteq> Invalid_shapes sa sb opn"
proof (induction js arbitrary: C)
  case Nil
  then show ?case by simp
next
  case (Cons i js)
  then show ?case
    by (auto simp: Let_def split: if_splits sum.splits dest: py_index_error addmm_error)
qed

lemma ABT_loop_error:
  "exec (ABT_loop d r c dep rm cm dpr ppr pps tps A B js C) ans n \<noteq> Inl (Invalid_shapes sa sb opn)"
proof (induction js arbitrary: C n)
  case Nil
  show ?case by simp
next
  case (Cons i js)
  show ?case
    using Cons.IH
    by (auto simp: Let_def exec_attempt split: sum.splits dest: transpose01_error matmul_error)
qed

lemma ATB_loop_error:
  "exec (ATB_loop d r c dep rm cm dpr ppr pps tps A B js C) ans n \<noteq> Inl (Invalid_shapes sa sb opn)"
proof (induction js arbitrary: C n)
  case Nil
  show ?case by simp
next
  case (Cons i js)
  show ?case
    using Cons.IH
    by (auto simp: Let_def exec_attempt split: sum.splits dest: transpose01_error matmul_error)
qed

lemma AB_forward_mismatch:
  assumes "shape A \<noteq> []" "2 \<le> length (shape B)"
    and "last (shape A) \<noteq> shape B ! (length (shape B) - 2)"
  shows "Matmul_AB_2p5D_forward env ctx A B d os r c dep rm cm dpr ppr pps tps
         = Raise (Invalid_shapes (shape A) (shape B) ''AB'')"
  using assms by (simp add: Matmul_AB_2p5D_forward_def py_index_last py_index_penultimate)

lemma AB_forward_match:
  assumes "shape A \<noteq> []" "2 \<le> length (shape B)"
    and "last (shape A) = shape B ! (length (shape B) - 2)"
  shows "exec (Matmul_AB_2p5D_forward env ctx A B d os r c dep rm cm dpr ppr pps tps) ans n
         \<noteq> Inl (Invalid_shapes sa sb opn)"
  using assms
  by (auto simp: Matmul_AB_2p5D_forward_def py_index_last py_index_penultimate Let_def
      exec_attempt split: sum.splits dest: py_index_error reshape_error AB_loop_error)

lemma ABT_forward_mismatch:
  assumes "shape A \<noteq> []" "shape B \<noteq> []"
    and "last (shape A) \<noteq> last (shape B)"
  shows "Matmul_ABT_2p5D_forward env ctx A B d os r c dep rm cm dpr ppr pps tps
         = Raise (Invalid_shapes (shape A) (shape B) ''ABT'')"
  using assms by (simp add: Matmul_ABT_2p5D_forward_def py_index_last)

lemma ABT_forward_match:
  assumes "shape A \<noteq> []" "shape B \<noteq> []"
    and "last (shape A) = last (shape B)"
  shows "exec (Matmul_ABT_2p5D_forward env ctx A B d os r c dep rm cm dpr ppr pps tps) ans n
         \<noteq> Inl (Invalid_shapes sa sb opn)"
  using assms
  by (auto simp: Matmul_ABT_2p5D_forward_def py_index_last Let_def
      exec_attempt exec_seq ABT_loop_error split: sum.splits dest: py_index_error reshape_error)

lemma ATB_forward_mismatch:
  assumes "2 \<le> length (shape A)" "2 \<le> length (shape B)"
    and "shape A ! (length (shape A) - 2) \<noteq> shape B ! (length (shape B) - 2)"
  shows "Matmul_ATB_2p5D_forward env ctx A B d os r c dep rm cm dpr ppr pps tps
         = Raise (Invalid_shapes (shape A) (shape B) ''ATB'')"
  using assms by (simp add: Matmul_ATB_2p5D_forward_def py_index_penultimate)

lemma ATB_forward_match:
  assumes "2 \<le> length (shape A)" "2 \<le> length (shape B)"
    and "shape A ! (length (shape A) - 2) = shape B ! (length (shape B) - 2)"
  shows "exec (Matmul_ATB_2p5D_forward env ctx A B d os r c dep rm cm dpr ppr pps tps) ans n
         \<noteq> Inl (Invalid_shapes sa sb opn)"
  using assms
  by (auto simp: Matmul_ATB_2p5D_forward_def py_index_penultimate Let_def
      exec_attempt exec_seq ATB_loop_error split: sum.splits dest: py_index_error reshape_error)

subsection \<open>\<^verbatim>\<open>AllGatherLast.forward\<close> by the number of dimensions\<close>

lemma permute_wrong_rank: "length (shape t) \<noteq> length dims \<Longrightarrow> permute t dims = Inl RuntimeError"
  by (auto simp: permute_def)

lemma attempt_cases:
  "(\<And>y. \<exists>e. k y = Raise e) \<Longrightarrow> \<exists>e. attempt x k = Raise e"
  by (cases x) auto

lemma AllGatherLast_forward_raises:
  assumes "length (shape inputs) \<noteq> 3"
  shows "\<exists>e. AllGatherLast_forward env inputs d cm = Raise e"
proof -
  have p: "permute inputs [2, 0, 1] = Inl RuntimeError"
    using assms by (simp add: permute_wrong_rank)
  show ?thesis
    unfolding AllGatherLast_forward_def Let_def
  proof (rule attempt_cases)
    fix y
    show "\<exists>e. (if d * int y < 0 then Raise RuntimeError
       else attempt (chunk (empty (uninitialized env) (nat (d * int y) # butlast (shape inputs))) d 0)
        (\<lambda>chunks. attempt (permute inputs [2, 0, 1])
           (\<lambda>permuted. All_gather chunks permuted cm
              (\<lambda>chunks. attempt (permute (Tensor (nat (d * int y) # butlast (shape inputs))
                    (concat (map data chunks))) [1, 2, 0])
                 (\<lambda>outputs. Return (outputs, \<lparr>ag_tesseract_dim = d,
                     ag_row_rank = get_local_rank env cm\<rparr>)))))) = Raise e"
    proof (cases "d * int y < 0")
      case True
      then show ?thesis by simp
    next
      case False
      have "\<exists>e. attempt (chunk (empty (uninitialized env) (nat (d * int y) # butlast (shape inputs))) d 0)
        (\<lambda>chunks. attempt (permute inputs [2, 0, 1])
           (\<lambda>permuted. All_gather chunks permuted cm
              (\<lambda>chunks. attempt (permute (Tensor (nat (d * int y) # butlast (shape inputs))
                    (concat (map data chunks))) [1, 2, 0])
                 (\<lambda>outputs. Return (outputs, \<lparr>ag_tesseract_dim = d,
                     ag_row_rank = get_local_rank env cm\<rparr>))))) = Raise e"
        by (rule attempt_cases) (simp only: p attempt.simps, blast)
      with False show ?thesis by (simp only: if_False)
    qed
  qed
qed

lemma chunk_first_dim:
  "shape t \<noteq> [] \<Longrightarrow> 0 < d \<Longrightarrow> \<exists>cs. chunk t d 0 = Inr cs"
  by (auto simp: chunk_def Let_def)

lemma AllGatherLast_forward_gathers:
  assumes "length (shape inputs) = 3" "0 < d"
  shows "\<exists>chunks permuted k. AllGatherLast_forward env inputs d cm = All_gather chunks permuted cm k"
proof -
  from assms(1) obtain a b c where sh: "shape inputs = [a, b, c]"
    by (auto simp: length_Suc_conv numeral_3_eq_3)
  have 1: "py_index (shape inputs) (- 1) = Inr c"
    using sh by (simp add: py_index_last)
  have 0: "\<not> d * int c < 0" using assms(2) by (simp add: mult_less_0_iff)
  obtain cs where 2: "chunk (empty (uninitialized env) (nat (d * int c) # butlast (shape inputs))) d 0 = Inr cs"
    using chunk_first_dim [of "empty (uninitialized env) (nat (d * int c) # butlast (shape inputs))" d] assms(2)
    by (auto simp: empty_def)
  obtain p where 3: "permute inputs [2, 0, 1] = Inr p"
    using sh by (simp add: permute_def Let_def)
  show ?thesis
    unfolding AllGatherLast_forward_def Let_def
    by (simp only: 1 2 3 0 attempt.simps if_False) blast
qed

subsection \<open>The accumulation loop\<close>

lemma AB_loop_accumulates:
  "\<forall>i \<in> set js. 0 \<le> i \<and> i < d \<Longrightarrow>
   AB_loop d row_rank col_rank A_list B_list C js =
   accumulate_tiles (\<lambda>i. i) (\<lambda>i. i) A_list B_list C js"
proof (induction js arbitrary: C)
  case Nil
  show ?case by simp
next
  case (Cons i js)
  from Cons.prems have i: "0 \<le> i" "i < d" and rest: "\<forall>j \<in> set js. 0 \<le> j \<and> j < d"
    by simp_all
  from i have "d \<noteq> 0" "(i + d * row_rank) mod d = i" "(i + d * col_rank) mod d = i"
    by simp_all
  then show ?case
    using Cons.IH [OF rest] by (simp split: sum.splits)
qed

lemma py_range_bounds: "\<forall>i \<in> set (py_range d). 0 \<le> i \<and> i < d"
  by (auto simp: py_range_def)

subsection \<open>What the forwards store for the backwards\<close>

lemma AB_forward_saves:
  "exec (Matmul_AB_2p5D_forward env ctx A B d os r c dep rm cm dpr ppr pps tps) ans n = Inr (out, cx)
   \<Longrightarrow> cx = save_ctx ctx (A, B) d r c dep rm cm (shape A) (shape B) dpr ppr pps tps"
  by (auto simp: Matmul_AB_2p5D_forward_def exec_attempt Let_def split: sum.splits if_splits)

lemma ABT_forward_saves:
  "exec (Matmul_ABT_2p5D_forward env ctx A B d os r c dep rm cm dpr ppr pps tps) ans n = Inr (out, cx)
   \<Longrightarrow> cx = save_ctx ctx (A, B) d r c dep rm cm (shape A) (shape B) dpr ppr pps tps"
  by (auto simp: Matmul_ABT_2p5D_forward_def exec_attempt exec_seq Let_def
      split: sum.splits if_splits)

lemma ATB_forward_saves:
  "exec (Matmul_ATB_2p5D_forward env ctx A B d os r c dep rm cm dpr ppr pps tps) ans n = Inr (out, cx)
   \<Longrightarrow> cx = save_ctx ctx (A, B) d r c dep rm cm (shape A) (shape B) dpr ppr pps tps"
  by (auto simp: Matmul_ATB_2p5D_forward_def exec_attempt exec_seq Let_def
      split: sum.splits if_splits)

lemma AB_backward_of_saved:
  "Matmul_AB_2p5D_backward env
      (the (save_ctx True (A, B) d r c dep rm cm sa sb dpr ppr pps tps)) g =
   seq (Matmul_ABT_2p5D_forward env True g B d (map int sa) r c dep rm cm dpr ppr pps tps)
     (\<lambda>(A_grad, _).
   seq (Matmul_ATB_2p5D_forward env True A g d (map int sb) r c dep rm cm dpr ppr pps tps)
     (\<lambda>(B_grad, _).
   Return [Some A_grad, Some B_grad, None, None, None, None, None, None, None, None,
           None, None, None, None, None]))"
  by (simp add: Matmul_AB_2p5D_backward_def save_ctx_def)

lemma ABT_backward_of_saved:
  "Matmul_ABT_2p5D_backward env
      (the (save_ctx True (A, B) d r c dep rm cm sa sb dpr ppr pps tps)) g =
   seq (Matmul_AB_2p5D_forward env True g B d (map int sa) r c dep rm cm dpr ppr pps tps)
     (\<lambda>(A_grad, _).
   seq (Matmul_ATB_2p5D_forward env True g A d (map int sb) r c dep rm cm dpr ppr pps tps)
     (\<lambda>(B_grad, _).
   Return [Some A_grad, Some B_grad, None, None, None, None, None, None, None, None,
           None, None, None, None, None]))"
  by (simp add: Matmul_ABT_2p5D_backward_def save_ctx_def)

lemma ATB_backward_of_saved:
  "Matmul_ATB_2p5D_backward env
      (the (save_ctx True (A, B) d r c dep rm cm sa sb dpr ppr pps tps)) g =
   seq (Matmul_ABT_2p5D_forward env True B g d (map int sa) r c dep rm cm dpr ppr pps tps)
     (\<lambda>(A_grad, _).
   seq (Matmul_AB_2p5D_forward env True A g d (map int sb) r c dep rm cm dpr ppr pps tps)
     (\<lambda>(B_grad, _).
   Return [Some A_grad, Some B_grad, None, None, None, None, None, None, None, None,
           None, None, None, None, None]))"
  by (simp add: Matmul_ATB_2p5D_backward_def save_ctx_def)

subsection \<open>The collectives a rank issues\<close>

lemma ABT_loop_schedule:
  "map collective_of (requests (ABT_loop d r c dep rm cm dpr ppr pps tps A B js C) ans n) =
     take (length (requests (ABT_loop d r c dep rm cm dpr ppr pps tps A B js C) ans n))
       (concat (map (\<lambda>i. [Bcast (grid_address (c + i * d) dep d dpr ppr pps tps) cm,
                           Red (grid_address (i + r * d) dep d dpr ppr pps tps) rm]) js))"
proof (induction js arbitrary: C n)
  case Nil
  show ?case by simp
next
  case (Cons i js)
  show ?case
    by (simp add: Let_def requests_attempt grid_address_def Cons.IH split: sum.splits)
qed

lemma ABT_loop_returns:
  "exec (ABT_loop d r c dep rm cm dpr ppr pps tps A B js C) ans n = Inr C' \<Longrightarrow>
   length (requests (ABT_loop d r c dep rm cm dpr ppr pps tps A B js C) ans n) = 2 * length js"
proof (induction js arbitrary: C n)
  case Nil
  show ?case by simp
next
  case (Cons i js)
  from Cons.prems show ?case
    by (auto simp: Let_def requests_attempt exec_attempt split: sum.splits dest: Cons.IH)
qed

lemma ATB_loop_schedule:
  "map collective_of (requests (ATB_loop d r c dep rm cm dpr ppr pps tps A B js C) ans n) =
     take (length (requests (ATB_loop d r c dep rm cm dpr ppr pps tps A B js C) ans n))
       (concat (map (\<lambda>i. [Bcast (grid_address (i + r * d) dep d dpr ppr pps tps) rm,
                           Red (grid_address (c + i * d) dep d dpr ppr pps tps) cm]) js))"
proof (induction js arbitrary: C n)
  case Nil
  show ?case by simp
next
  case (Cons i js)
  show ?case
    by (simp add: Let_def requests_attempt grid_address_def Cons.IH split: sum.splits)
qed

lemma ATB_loop_returns:
  "exec (ATB_loop d r c dep rm cm dpr ppr pps tps A B js C) ans n = Inr C' \<Longrightarrow>
   length (requests (ATB_loop d r c dep rm cm dpr ppr pps tps A B js C) ans n) = 2 * length js"
proof (induction js arbitrary: C n)
  case Nil
  show ?case by simp
next
  case (Cons i js)
  from Cons.prems show ?case
    by (auto simp: Let_def requests_attempt exec_attempt split: sum.splits dest: Cons.IH)
qed

lemma length_schedule: "length (concat (map (\<lambda>i. [f i, h i]) js)) = 2 * length js"
  by (induction js) simp_all

lemma whole_schedule:
  assumes "map collective_of reqs = take (length reqs) S" "length reqs = length S"
  shows "map collective_of reqs = S"
  using assms by simp

lemma requests_after_loop:
  "requests (seq p (\<lambda>C. attempt (f C) (\<lambda>out. Return (h out)))) ans n = requests p ans n"
  by (simp add: requests_seq requests_attempt split: sum.splits)

lemma exec_after_loop:
  "exec (seq p K) ans n = Inr x \<Longrightarrow> \<exists>y. exec p ans n = Inr y"
  by (simp add: exec_seq split: sum.splits)

lemma ABT_forward_schedule:
  "map collective_of
     (requests (Matmul_ABT_2p5D_forward env ctx A B d os r c dep rm cm dpr ppr pps tps) ans n) =
   take (length (requests (Matmul_ABT_2p5D_forward env ctx A B d os r c dep rm cm dpr ppr pps tps)
                   ans n))
     (concat (map (\<lambda>i. [Bcast (grid_address (c + i * d) dep d dpr ppr pps tps) cm,
                         Red (grid_address (i + r * d) dep d dpr ppr pps tps) rm]) (py_range d)))"
  by (simp add: Matmul_ABT_2p5D_forward_def requests_attempt requests_after_loop Let_def
      ABT_loop_schedule split: sum.splits)

lemma ABT_forward_returns:
  "exec (Matmul_ABT_2p5D_forward env ctx A B d os r c dep rm cm dpr ppr pps tps) ans n = Inr x \<Longrightarrow>
   length (requests (Matmul_ABT_2p5D_forward env ctx A B d os r c dep rm cm dpr ppr pps tps) ans n)
     = 2 * length (py_range d)"
  by (auto simp: Matmul_ABT_2p5D_forward_def requests_attempt exec_attempt requests_after_loop
      Let_def split: sum.splits if_splits dest!: exec_after_loop ABT_loop_returns)

lemma ATB_forward_schedule:
  "map collective_of
     (requests (Matmul_ATB_2p5D_forward env ctx A B d os r c dep rm cm dpr ppr pps tps) ans n) =
   take (length (requests (Matmul_ATB_2p5D_forward env ctx A B d os r c dep rm cm dpr ppr pps tps)
                   ans n))
     (concat (map (\<lambda>i. [Bcast (grid_address (i + r * d) dep d dpr ppr pps tps) rm,
                         Red (grid_address (c + i * d) dep d dpr ppr pps tps) cm]) (py_range d)))"
  by (simp add: Matmul_ATB_2p5D_forward_def requests_attempt requests_after_loop Let_def
      ATB_loop_schedule split: sum.splits)

lemma ATB_forward_returns:
  "exec (Matmul_ATB_2p5D_forward env ctx A B d os r c dep rm cm dpr ppr pps tps) ans n = Inr x \<Longrightarrow>
   length (requests (Matmul_ATB_2p5D_forward env ctx A B d os r c dep rm cm dpr ppr pps tps) ans n)
     = 2 * length (py_range d)"
  by (auto simp: Matmul_ATB_2p5D_forward_def requests_attempt exec_attempt requests_after_loop
      Let_def split: sum.splits if_splits dest!: exec_after_loop ATB_loop_returns)

lemma AB_forward_schedule:
  "map collective_of
     (requests (Matmul_AB_2p5D_forward env ctx A B d os r c dep rm cm dpr ppr pps tps) ans n) =
   take (length (requests (Matmul_AB_2p5D_forward env ctx A B d os r c dep rm cm dpr ppr pps tps)
                   ans n)) [Gather rm, Gather cm]"
  by (simp add: Matmul_AB_2p5D_forward_def requests_attempt Let_def split: sum.splits)

lemma AB_forward_returns:
  "exec (Matmul_AB_2p5D_forward env ctx A B d os r c dep rm cm dpr ppr pps tps) ans n = Inr x \<Longrightarrow>
   length (requests (Matmul_AB_2p5D_forward env ctx A B d os r c dep rm cm dpr ppr pps tps) ans n)
     = 2"
  by (auto simp: Matmul_AB_2p5D_forward_def requests_attempt exec_attempt Let_def
      split: sum.splits if_splits)

lemma Add_Bias_forward_schedule:
  "map collective_of
     (requests (Add_Bias_2p5D_forward input bias osp d r c dep cm skip dpr ppr pps tps) ans n) =
   take (length (requests (Add_Bias_2p5D_forward input bias osp d r c dep cm skip dpr ppr pps tps)
                   ans n)) [Bcast (grid_address c dep d dpr ppr pps tps) cm]"
  by (simp add: Add_Bias_2p5D_forward_def requests_attempt Let_def grid_address_def
      split: sum.splits)

lemma Add_Bias_forward_returns:
  "exec (Add_Bias_2p5D_forward input bias osp d r c dep cm skip dpr ppr pps tps) ans n = Inr x \<Longrightarrow>
   length (requests (Add_Bias_2p5D_forward input bias osp d r c dep cm skip dpr ppr pps tps) ans n)
     = 1"
  by (auto simp: Add_Bias_2p5D_forward_def requests_attempt exec_attempt Let_def
      split: sum.splits if_splits)

lemma Add_Bias_backward_requests:
  "requests (Add_Bias_2p5D_backward ctx g) ans n =
     [Req_reduce (if bias_bias ctx then g else sum_leading g)
        (grid_address (bias_col_rank ctx) (bias_dep_rank ctx) (bias_tesseract_dim ctx)
           (bias_data_parallel_rank ctx) (bias_pipeline_parallel_rank ctx)
           (bias_pipeline_parallel_size ctx) (bias_tensor_parallel_size ctx))
        (bias_col_parallel_mode ctx)]"
  by (simp add: Add_Bias_2p5D_backward_def Let_def grid_address_def)

lemma Add_Bias_forward_saves:
  "exec (Add_Bias_2p5D_forward input bias osp d r c dep cm skip dpr ppr pps tps) ans n = Inr (out, ctx)
   \<Longrightarrow> ctx = \<lparr>bias_row_rank = r, bias_col_rank = c, bias_dep_rank = dep,
                  bias_tesseract_dim = d, bias_col_parallel_mode = cm, bias_bias = skip,
                  bias_data_parallel_rank = dpr, bias_pipeline_parallel_rank = ppr,
                  bias_pipeline_parallel_size = pps, bias_tensor_parallel_size = tps\<rparr>"
  by (auto simp: Add_Bias_2p5D_forward_def exec_attempt Let_def split: sum.splits if_splits)

lemma Add_Bias_backward_input_grad:
  "\<not> bias_bias ctx \<Longrightarrow>
   \<exists>grad_bias. exec (Add_Bias_2p5D_backward ctx g) ans n =
     Inr [Some g, Some grad_bias, None, None, None, None, None, None, None, None, None,
          None, None, None, None, None, None]"
  by (simp add: Add_Bias_2p5D_backward_def Let_def)

lemma sum_leading_column_sum: "2 \<le> length (shape t) \<Longrightarrow> sum_leading t = column_sum t"
  by (simp add: sum_leading_def column_sum_def Let_def)

subsection \<open>The tuples the backwards return\<close>









lemma arity_contract_slots: "arity_contract ps gs \<longleftrightarrow> slots_contract ps [] 0 gs"
  by (auto simp: arity_contract_def slots_contract_def list_all_iff)

subsection \<open>One round of the grid\<close>

lemma those_map_Some:
  "(\<And>x. x \<in> set xs \<Longrightarrow> f x = Some (h x)) \<Longrightarrow> those (map f xs) = Some (map h xs)"
  by (induction xs) simp_all

lemma find_upt_unique:
  assumes "j < d" "Q (f j)" "\<And>q. q < d \<Longrightarrow> Q (f q) \<Longrightarrow> q = j"
  shows "find Q (map f [0..<d]) = Some (f j)"
proof -
  have "\<exists>i<length (map f [0..<d]). Q (map f [0..<d] ! i) \<and> f j = map f [0..<d] ! i
          \<and> (\<forall>q<i. \<not> Q (map f [0..<d] ! q))"
  proof (intro exI [of _ j] conjI allI impI)
    show "j < length (map f [0..<d])" using assms(1) by simp
    show "Q (map f [0..<d] ! j)" using assms(1,2) by simp
    show "f j = map f [0..<d] ! j" using assms(1) by simp
    fix q assume "q < j"
    then show "\<not> Q (map f [0..<d] ! q)" using assms(1) assms(3) [of q] by auto
  qed
  then show ?thesis by (simp only: find_Some_iff)
qed

lemma global_rank_member_inj:
  assumes "0 < grid_tesseract_dim G" "snd rc < grid_tesseract_dim G"
    and "q < grid_tesseract_dim G" "q' < grid_tesseract_dim G"
    and "global_rank G (member g rc q) = global_rank G (member g rc q')"
  shows "q = q'"
proof (cases g)
  case PARALLEL_2P5D_ROW
  with assms(5) show ?thesis
    by (cases rc) (simp add: global_rank_def member_def)
next
  case PARALLEL_2P5D_COL
  with assms(5) have "int q * int (grid_tesseract_dim G) = int q' * int (grid_tesseract_dim G)"
    by (cases rc) (simp add: global_rank_def member_def)
  with assms(1) show ?thesis by simp
qed

lemma member_local_rank: "member g rc (local_rank g rc) = rc"
  by (cases rc; cases g) (simp_all add: member_def local_rank_def)

lemma step_All_gather:
  assumes P: "P rc = All_gather l t g k"
    and members: "\<And>q. q < grid_tesseract_dim G \<Longrightarrow>
                    \<exists>l' k'. P (member g rc q) = All_gather l' (T q) g k'"
    and len: "length l = grid_tesseract_dim G"
    and shl: "\<And>x. x \<in> set l \<Longrightarrow> shape x = shape t"
    and shT: "\<And>q. q < grid_tesseract_dim G \<Longrightarrow> shape (T q) = shape t"
  shows "step G residue P rc = k (map T [0..<grid_tesseract_dim G])"
proof -
  have "those (map (\<lambda>m. gather_arg g (P m)) (group_of G g rc))
          = Some (map T [0..<grid_tesseract_dim G])"
    unfolding group_of_def map_map comp_def
    by (rule those_map_Some) (use members in force)
  moreover have "list_all (\<lambda>x. shape x = shape t) (l @ map T [0..<grid_tesseract_dim G])"
    using shl shT by (auto simp: list_all_iff)
  ultimately show ?thesis
    using P len by (simp add: step_def del: list_all_append)
qed

lemma step_Broadcast:
  assumes P: "P rc = Broadcast t src g k"
    and members: "\<And>q. q < grid_tesseract_dim G \<Longrightarrow>
                    \<exists>k'. P (member g rc q) = Broadcast (T q) src g k'"
    and j: "j < grid_tesseract_dim G" "global_rank G (member g rc j) = src"
    and rc: "snd rc < grid_tesseract_dim G"
    and shT: "\<And>q. q < grid_tesseract_dim G \<Longrightarrow> shape (T q) = shape t"
  shows "step G residue P rc = k (T j)"
proof -
  have 1: "those (map (\<lambda>m. broadcast_arg g src (P m)) (group_of G g rc))
          = Some (map T [0..<grid_tesseract_dim G])"
    unfolding group_of_def map_map comp_def
    by (rule those_map_Some) (use members in force)
  have 2: "find (\<lambda>m. global_rank G m = src) (group_of G g rc) = Some (member g rc j)"
    unfolding group_of_def
  proof (rule find_upt_unique [OF j(1)])
    show "global_rank G (member g rc j) = src" by (rule j(2))
    fix q assume "q < grid_tesseract_dim G" "global_rank G (member g rc q) = src"
    then show "q = j"
      using global_rank_member_inj [of G rc q j g] j rc by simp
  qed
  have 3: "broadcast_arg g src (P (member g rc j)) = Some (T j)"
    using members [OF j(1)] by force
  have 4: "list_all (\<lambda>y. shape y = shape t) (map T [0..<grid_tesseract_dim G])"
    using shT by (auto simp: list_all_iff)
  show ?thesis
    using P by (simp add: step_def 1 2 3 4)
qed

lemma step_Reduce:
  assumes P: "P rc = Reduce t dst g k"
    and members: "\<And>q. q < grid_tesseract_dim G \<Longrightarrow>
                    \<exists>k'. P (member g rc q) = Reduce (T q) dst g k'"
    and j: "j < grid_tesseract_dim G" "global_rank G (member g rc j) = dst"
    and shT: "\<And>q. q < grid_tesseract_dim G \<Longrightarrow> shape (T q) = shape t"
  shows "step G residue P rc =
           k (if global_rank G rc = dst then tensor_sum (map T [0..<grid_tesseract_dim G])
              else Tensor (shape t) (residue rc (map T [0..<grid_tesseract_dim G])))"
proof -
  have 1: "those (map (\<lambda>m. reduce_arg g dst (P m)) (group_of G g rc))
          = Some (map T [0..<grid_tesseract_dim G])"
    unfolding group_of_def map_map comp_def
    by (rule those_map_Some) (use members in force)
  have 2: "list_ex (\<lambda>m. global_rank G m = dst) (group_of G g rc)"
    using j by (auto simp: list_ex_iff group_of_def)
  have 4: "list_all (\<lambda>y. shape y = shape t) (map T [0..<grid_tesseract_dim G])"
    using shT by (auto simp: list_all_iff)
  show ?thesis
    using P by (simp add: step_def 1 2 4)
qed

lemma step_All_reduce:
  assumes P: "P rc = All_reduce t g k"
    and members: "\<And>q. q < grid_tesseract_dim G \<Longrightarrow>
                    \<exists>k'. P (member g rc q) = All_reduce (T q) g k'"
    and shT: "\<And>q. q < grid_tesseract_dim G \<Longrightarrow> shape (T q) = shape t"
  shows "step G residue P rc = k (tensor_sum (map T [0..<grid_tesseract_dim G]))"
proof -
  have 1: "those (map (\<lambda>m. all_reduce_arg g (P m)) (group_of G g rc))
          = Some (map T [0..<grid_tesseract_dim G])"
    unfolding group_of_def map_map comp_def
    by (rule those_map_Some) (use members in force)
  have 4: "list_all (\<lambda>y. shape y = shape t) (map T [0..<grid_tesseract_dim G])"
    using shT by (auto simp: list_all_iff)
  show ?thesis
    using P by (simp add: step_def 1 4)
qed

lemma step_done [simp]:
  "P rc = Return x \<Longrightarrow> step G residue P rc = Return x"
  "P rc = Raise e \<Longrightarrow> step G residue P rc = Raise e"
  by (simp_all add: step_def)

lemma run_add: "run G residue (a + b) P = run G residue b (run G residue a P)"
  by (induction a arbitrary: P) simp_all

lemma run_2: "run G residue 2 P = step G residue (step G residue P)"
  by (simp add: numeral_2_eq_2)

lemma run_1: "run G residue (Suc 0) P = step G residue P"
  by simp

subsection \<open>\<^verbatim>\<open>Add_Bias_2p5D\<close> on the grid\<close>

lemma Add_Bias_forward_form:
  "0 \<le> osp \<Longrightarrow>
   Add_Bias_2p5D_forward input bias osp d r c dep cm skip dpr ppr pps tps =
     Broadcast (if r = 0 then bias else zeros [nat osp])
       (c + dep * d\<^sup>2 + dpr * pps * tps + ppr * tps) cm
       (\<lambda>bias_temp.
          if skip then
            Return (bias_temp,
              \<lparr>bias_row_rank = r, bias_col_rank = c, bias_dep_rank = dep,
               bias_tesseract_dim = d, bias_col_parallel_mode = cm, bias_bias = skip,
               bias_data_parallel_rank = dpr, bias_pipeline_parallel_rank = ppr,
               bias_pipeline_parallel_size = pps, bias_tensor_parallel_size = tps\<rparr>)
          else attempt (pointwise plus input bias_temp) (\<lambda>output.
            Return (output,
              \<lparr>bias_row_rank = r, bias_col_rank = c, bias_dep_rank = dep,
               bias_tesseract_dim = d, bias_col_parallel_mode = cm, bias_bias = skip,
               bias_data_parallel_rank = dpr, bias_pipeline_parallel_rank = ppr,
               bias_pipeline_parallel_size = pps, bias_tensor_parallel_size = tps\<rparr>)))"
  by (simp add: Add_Bias_2p5D_forward_def Let_def)

lemma global_rank_row0:
  "global_rank G (0, c) =
     int c + grid_dep_rank G * (int (grid_tesseract_dim G))\<^sup>2
       + grid_data_parallel_rank G * grid_pipeline_parallel_size G * grid_tensor_parallel_size G
       + grid_pipeline_parallel_rank G * grid_tensor_parallel_size G"
  by (simp add: global_rank_def)

lemma member_COL [simp]: "member PARALLEL_2P5D_COL (r, c) q = (q, c)"
  by (simp add: member_def)

lemma member_ROW [simp]: "member PARALLEL_2P5D_ROW (r, c) q = (r, q)"
  by (simp add: member_def)

lemma bias_forward_grid:
  assumes rc: "r < grid_tesseract_dim G" "c < grid_tesseract_dim G"
    and osp: "0 \<le> osp" "shape (bias (0, c)) = [nat osp]"
  shows "step G residue
           (\<lambda>(r', c'). Add_Bias_2p5D_forward (input (r', c')) (bias (r', c')) osp
               (int (grid_tesseract_dim G)) (int r') (int c') (grid_dep_rank G)
               PARALLEL_2P5D_COL skip (grid_data_parallel_rank G)
               (grid_pipeline_parallel_rank G) (grid_pipeline_parallel_size G)
               (grid_tensor_parallel_size G)) (r, c) =
         (let ctx = \<lparr>bias_row_rank = int r, bias_col_rank = int c,
                     bias_dep_rank = grid_dep_rank G,
                     bias_tesseract_dim = int (grid_tesseract_dim G),
                     bias_col_parallel_mode = PARALLEL_2P5D_COL, bias_bias = skip,
                     bias_data_parallel_rank = grid_data_parallel_rank G,
                     bias_pipeline_parallel_rank = grid_pipeline_parallel_rank G,
                     bias_pipeline_parallel_size = grid_pipeline_parallel_size G,
                     bias_tensor_parallel_size = grid_tensor_parallel_size G\<rparr>
          in if skip then Return (bias (0, c), ctx)
             else attempt (pointwise plus (input (r, c)) (bias (0, c))) (\<lambda>output.
                  Return (output, ctx)))"
proof -
  let ?P = "\<lambda>(r', c'). Add_Bias_2p5D_forward (input (r', c')) (bias (r', c')) osp
               (int (grid_tesseract_dim G)) (int r') (int c') (grid_dep_rank G)
               PARALLEL_2P5D_COL skip (grid_data_parallel_rank G)
               (grid_pipeline_parallel_rank G) (grid_pipeline_parallel_size G)
               (grid_tensor_parallel_size G)"
  let ?T = "\<lambda>q::nat. if q = 0 then bias (0, c) else zeros [nat osp]"
  have form: "\<And>q. \<exists>k'. ?P (q, c) = Broadcast (?T q) (global_rank G (0, c)) PARALLEL_2P5D_COL k'"
    by (auto simp: Add_Bias_forward_form [OF osp(1)] global_rank_row0)
  have sh: "\<And>q. shape (?T q) = shape (?T r)"
    using osp(2) by (simp add: zeros_def)
  let ?ctx = "\<lparr>bias_row_rank = int r, bias_col_rank = int c, bias_dep_rank = grid_dep_rank G,
               bias_tesseract_dim = int (grid_tesseract_dim G),
               bias_col_parallel_mode = PARALLEL_2P5D_COL, bias_bias = skip,
               bias_data_parallel_rank = grid_data_parallel_rank G,
               bias_pipeline_parallel_rank = grid_pipeline_parallel_rank G,
               bias_pipeline_parallel_size = grid_pipeline_parallel_size G,
               bias_tensor_parallel_size = grid_tensor_parallel_size G\<rparr>"
  let ?k = "\<lambda>bias_temp.
          if skip then Return (bias_temp, ?ctx)
          else attempt (pointwise plus (input (r, c)) bias_temp) (\<lambda>output.
            Return (output, ?ctx))"
  have "step G residue ?P (r, c) = ?k (?T 0)"
  proof (rule step_Broadcast [where T = ?T and j = 0 and g = PARALLEL_2P5D_COL
        and src = "global_rank G (0, c)" and t = "?T r" and k = ?k and G = G
        and residue = residue and P = ?P and rc = "(r, c)"])
    show "?P (r, c) = Broadcast (?T r) (global_rank G (0, c)) PARALLEL_2P5D_COL ?k"
      by (auto simp: Add_Bias_forward_form [OF osp(1)] global_rank_row0)
    show "\<And>q. q < grid_tesseract_dim G \<Longrightarrow>
        \<exists>k'. ?P (member PARALLEL_2P5D_COL (r, c) q)
           = Broadcast (?T q) (global_rank G (0, c)) PARALLEL_2P5D_COL k'"
      using form by simp
    show "0 < grid_tesseract_dim G" using rc by simp
    show "global_rank G (member PARALLEL_2P5D_COL (r, c) 0) = global_rank G (0, c)" by simp
    show "snd (r, c) < grid_tesseract_dim G" using rc by simp
    show "\<And>q. q < grid_tesseract_dim G \<Longrightarrow> shape (?T q) = shape (?T r)" by (rule sh)
  qed
  then show ?thesis by (simp add: Let_def)
qed


lemma Add_Bias_backward_form:
  "Add_Bias_2p5D_backward ctx g =
     Reduce (if bias_bias ctx then g else sum_leading g)
       (bias_col_rank ctx + bias_dep_rank ctx * (bias_tesseract_dim ctx)\<^sup>2
          + bias_data_parallel_rank ctx * bias_pipeline_parallel_size ctx
              * bias_tensor_parallel_size ctx
          + bias_pipeline_parallel_rank ctx * bias_tensor_parallel_size ctx)
       (bias_col_parallel_mode ctx)
       (\<lambda>x. Return ((if bias_bias ctx then None else Some g)
                    # Some (if bias_row_rank ctx = 0 then x else zeros_like x)
                    # replicate (if bias_bias ctx then 14 else 15) None))"
  by (auto simp: Add_Bias_2p5D_backward_def Let_def numeral_eq_Suc fun_eq_iff)

lemma global_rank_eq_row0:
  assumes "c < grid_tesseract_dim G"
  shows "global_rank G (r, c) = global_rank G (0, c) \<longleftrightarrow> r = 0"
  using assms by (auto simp: global_rank_def)

lemma bias_backward_grid:
  fixes grad :: "nat \<times> nat \<Rightarrow> 'a::semiring_0 tensor"
  assumes rc: "r < grid_tesseract_dim G" "c < grid_tesseract_dim G"
    and sh: "\<And>q. q < grid_tesseract_dim G \<Longrightarrow> shape (grad (q, c)) = shape (grad (r, c))"
  shows "step G residue
           (\<lambda>(r', c'). Add_Bias_2p5D_backward
               \<lparr>bias_row_rank = int r', bias_col_rank = int c',
                bias_dep_rank = grid_dep_rank G,
                bias_tesseract_dim = int (grid_tesseract_dim G),
                bias_col_parallel_mode = PARALLEL_2P5D_COL, bias_bias = skip,
                bias_data_parallel_rank = grid_data_parallel_rank G,
                bias_pipeline_parallel_rank = grid_pipeline_parallel_rank G,
                bias_pipeline_parallel_size = grid_pipeline_parallel_size G,
                bias_tensor_parallel_size = grid_tensor_parallel_size G\<rparr>
               (grad (r', c'))) (r, c) =
         Return ((if skip then None else Some (grad (r, c)))
           # Some (if r = 0
                   then tensor_sum (map (\<lambda>q. if skip then grad (q, c) else sum_leading (grad (q, c)))
                          [0..<grid_tesseract_dim G])
                   else zeros (shape (if skip then grad (r, c) else sum_leading (grad (r, c)))))
           # replicate (if skip then 14 else 15) None)"
proof -
  let ?ctx = "\<lambda>r' c'. \<lparr>bias_row_rank = int r', bias_col_rank = int c',
                bias_dep_rank = grid_dep_rank G,
                bias_tesseract_dim = int (grid_tesseract_dim G),
                bias_col_parallel_mode = PARALLEL_2P5D_COL, bias_bias = skip,
                bias_data_parallel_rank = grid_data_parallel_rank G,
                bias_pipeline_parallel_rank = grid_pipeline_parallel_rank G,
                bias_pipeline_parallel_size = grid_pipeline_parallel_size G,
                bias_tensor_parallel_size = grid_tensor_parallel_size G\<rparr>"
  let ?P = "\<lambda>(r', c'). Add_Bias_2p5D_backward (?ctx r' c') (grad (r', c'))"
  let ?T = "\<lambda>q::nat. if skip then grad (q, c) else sum_leading (grad (q, c))"
  let ?k = "\<lambda>x. Return ((if skip then None else Some (grad (r, c)))
                    # Some (if int r = 0 then x else zeros_like x)
                    # replicate (if skip then 14 else 15) None)"
  have shT: "\<And>q. q < grid_tesseract_dim G \<Longrightarrow> shape (?T q) = shape (?T r)"
    using sh by (simp add: sum_leading_def Let_def)
  have "step G residue ?P (r, c) =
          ?k (if global_rank G (r, c) = global_rank G (0, c)
              then tensor_sum (map ?T [0..<grid_tesseract_dim G])
              else Tensor (shape (?T r)) (residue (r, c) (map ?T [0..<grid_tesseract_dim G])))"
  proof (rule step_Reduce [where T = ?T and j = 0 and g = PARALLEL_2P5D_COL
        and dst = "global_rank G (0, c)" and t = "?T r" and k = ?k])
    show "?P (r, c) = Reduce (?T r) (global_rank G (0, c)) PARALLEL_2P5D_COL ?k"
      by (simp add: Add_Bias_backward_form global_rank_row0)
    show "\<And>q. q < grid_tesseract_dim G \<Longrightarrow>
        \<exists>k'. ?P (member PARALLEL_2P5D_COL (r, c) q)
           = Reduce (?T q) (global_rank G (0, c)) PARALLEL_2P5D_COL k'"
      by (simp add: Add_Bias_backward_form global_rank_row0)
    show "0 < grid_tesseract_dim G" using rc by simp
    show "global_rank G (member PARALLEL_2P5D_COL (r, c) 0) = global_rank G (0, c)" by simp
    show "\<And>q. q < grid_tesseract_dim G \<Longrightarrow> shape (?T q) = shape (?T r)" by (rule shT)
  qed
  then show ?thesis
    using rc by (simp add: global_rank_eq_row0 zeros_like_def)
qed

subsection \<open>The elements of pointwise operations and sums\<close>

lemma broadcast_shapes_same: "broadcast_shapes S S = Some S"
  by (induction S) simp_all

lemma broadcast_offset_same: "p < prod_list S \<Longrightarrow> broadcast_offset S S p = p"
proof (induction S arbitrary: p)
  case Nil
  then show ?case by simp
next
  case (Cons n S)
  from Cons.prems have "p < prod_list S * n" by (simp add: mult.commute)
  then have "p div n < prod_list S"
    by (simp add: less_mult_imp_div_less)
  then have "broadcast_offset S S (p div n) = p div n"
    by (rule Cons.IH)
  then show ?case by simp
qed

lemma pointwise_same:
  assumes "shape a = shape b"
  shows "pointwise f a b =
           Inr (Tensor (shape a) (map (\<lambda>p. f (data a ! p) (data b ! p)) [0..<prod_list (shape a)]))"
proof -
  have "map (\<lambda>p. f (data a ! broadcast_offset (rev (shape b)) (rev (shape b)) p)
                   (data b ! broadcast_offset (rev (shape b)) (rev (shape b)) p))
          [0..<prod_list (rev (shape b))]
        = map (\<lambda>p. f (data a ! p) (data b ! p)) [0..<prod_list (rev (shape b))]"
    by (rule map_cong) (simp_all add: broadcast_offset_same)
  then show ?thesis
    using assms by (simp add: pointwise_def broadcast_shapes_same)
qed

lemma pointwise_keepdim:
  assumes "shape a = s @ [h]" "shape b = s @ [1]"
  shows "pointwise f a b =
           Inr (Tensor (s @ [h])
             (map (\<lambda>p. f (data a ! p) (data b ! (p div h))) [0..<prod_list s * h]))"
proof -
  have off: "\<And>p. p < prod_list s * h \<Longrightarrow>
      broadcast_offset (h # rev s) (h # rev s) p = p
      \<and> broadcast_offset (h # rev s) (Suc 0 # rev s) p = p div h"
  proof -
    fix p assume p: "p < prod_list s * h"
    then have "p div h < prod_list (rev s)"
      by (simp add: less_mult_imp_div_less)
    then have "broadcast_offset (rev s) (rev s) (p div h) = p div h"
      by (rule broadcast_offset_same)
    then show "broadcast_offset (h # rev s) (h # rev s) p = p
      \<and> broadcast_offset (h # rev s) (Suc 0 # rev s) p = p div h"
      by simp
  qed
  have "map (\<lambda>p. f (data a ! broadcast_offset (h # rev s) (h # rev s) p)
                   (data b ! broadcast_offset (h # rev s) (Suc 0 # rev s) p))
          [0..<prod_list s * h]
        = map (\<lambda>p. f (data a ! p) (data b ! (p div h))) [0..<prod_list s * h]"
  proof (rule map_cong)
    show "[0..<prod_list s * h] = [0..<prod_list s * h]" ..
    fix p assume "p \<in> set [0..<prod_list s * h]"
    then have "p < prod_list s * h" by simp
    from off [OF this]
    show "f (data a ! broadcast_offset (h # rev s) (h # rev s) p)
            (data b ! broadcast_offset (h # rev s) (Suc 0 # rev s) p)
          = f (data a ! p) (data b ! (p div h))"
      by (simp only:)
  qed
  moreover have "broadcast_shapes (h # rev s) (Suc 0 # rev s) = Some (h # rev s)"
    by (simp add: broadcast_shapes_same)
  ultimately show ?thesis
    using assms by (simp add: pointwise_def mult.commute del: broadcast_offset.simps
        broadcast_shapes.simps)
qed

lemma sum_last_keepdim_rows:
  "shape t = s @ [h] \<Longrightarrow>
   sum_last_keepdim t =
     Tensor (s @ [1]) (map (\<lambda>p. \<Sum>j\<leftarrow>[0..<h]. data t ! (p * h + j)) [0..<prod_list s])"
  by (simp add: sum_last_keepdim_def)

lemma tensor_sum_upt:
  assumes "0 < d"
  shows "tensor_sum (map T [0..<d]) =
           Tensor (shape (T 0)) (map (\<lambda>p. \<Sum>q\<leftarrow>[0..<d]. data (T q) ! p)
             [0..<prod_list (shape (T 0))])"
proof -
  have "hd (map T [0..<d]) = T 0"
    using assms by (simp add: hd_map upt_conv_Cons)
  then show ?thesis
    by (simp add: tensor_sum_def comp_def)
qed

lemma div_scalar_nonzero:
  "n \<noteq> 0 \<Longrightarrow> div_scalar t n = Inr (Tensor (shape t) (map (\<lambda>v. v / of_int n) (data t)))"
  by (simp add: div_scalar_def)


lemma prod_list_snoc: "prod_list (s @ [h]) = prod_list s * h"
  by simp

lemma pointwise_same_entries:
  assumes "shape a = shape b"
  obtains r where "pointwise f a b = Inr r" "shape r = shape a"
    "\<And>p. p < prod_list (shape a) \<Longrightarrow> data r ! p = f (data a ! p) (data b ! p)"
  using pointwise_same [OF assms, of f] by simp

lemma pointwise_keepdim_entries:
  assumes "shape a = s @ [h]" "shape b = s @ [1]"
  obtains r where "pointwise f a b = Inr r" "shape r = s @ [h]"
    "\<And>p. p < prod_list s * h \<Longrightarrow> data r ! p = f (data a ! p) (data b ! (p div h))"
  using pointwise_keepdim [OF assms, of f] by simp

lemma pointwise_inplace_same_entries:
  assumes "shape a = shape b"
  obtains r where "pointwise_inplace f a b = Inr r" "shape r = shape a"
    "\<And>p. p < prod_list (shape a) \<Longrightarrow> data r ! p = f (data a ! p) (data b ! p)"
  using pointwise_same [OF assms, of f] by (simp add: pointwise_inplace_def)

lemma pointwise_inplace_keepdim_entries:
  assumes "shape a = s @ [h]" "shape b = s @ [1]"
  obtains r where "pointwise_inplace f a b = Inr r" "shape r = s @ [h]"
    "\<And>p. p < prod_list s * h \<Longrightarrow> data r ! p = f (data a ! p) (data b ! (p div h))"
  using pointwise_keepdim [OF assms, of f] assms(1) by (simp add: pointwise_inplace_def)

lemma sum_last_keepdim_entries:
  assumes "shape t = s @ [h]"
  shows "shape (sum_last_keepdim t) = s @ [1]"
    and "length (data (sum_last_keepdim t)) = prod_list s"
    and "\<And>p. p < prod_list s \<Longrightarrow>
           data (sum_last_keepdim t) ! p = (\<Sum>j\<leftarrow>[0..<h]. data t ! (p * h + j))"
  using assms by (simp_all add: sum_last_keepdim_rows)

lemma tensor_sum_entries:
  assumes "0 < d" "\<And>q. q < d \<Longrightarrow> shape (T q) = sh"
  shows "shape (tensor_sum (map T [0..<d])) = sh"
    and "length (data (tensor_sum (map T [0..<d]))) = prod_list sh"
    and "\<And>p. p < prod_list sh \<Longrightarrow>
           data (tensor_sum (map T [0..<d])) ! p = (\<Sum>q\<leftarrow>[0..<d]. data (T q) ! p)"
  using assms by (simp_all add: tensor_sum_upt)

lemma div_scalar_entries:
  assumes "n \<noteq> 0"
  obtains r where "div_scalar t n = Inr r" "shape r = shape t"
    "\<And>p. p < length (data t) \<Longrightarrow> data r ! p = data t ! p / of_int n"
  using assms by (simp add: div_scalar_nonzero)

lemma sum_list_upt_cong:
  "(\<And>i. i < n \<Longrightarrow> f i = g i) \<Longrightarrow> (\<Sum>i\<leftarrow>[0..<n]. f i) = (\<Sum>i\<leftarrow>[0..<n]. g i)"
  by (rule arg_cong [where f = sum_list]) (rule map_cong, simp_all)

lemma index_split:
  assumes "j < (h::nat)"
  shows "(p * h + j) div h = p" "(p * h + j) mod h = j"
  using assms by simp_all

lemma index_bound:
  assumes "p < (m::nat)" "j < h"
  shows "p * h + j < m * h"
proof -
  have "p * h + j < p * h + h" using assms(2) by simp
  also have "\<dots> = Suc p * h" by simp
  also have "\<dots> \<le> m * h" using assms(1) by (intro mult_le_mono1) simp
  finally show ?thesis .
qed

subsection \<open>\<^verbatim>\<open>_LayerNorm_2p5D\<close> on the grid\<close>

lemma LayerNorm_forward_entries:
  fixes input :: "'a::field tensor"
  assumes "shape input = s @ [h]" "shape E_x = s @ [1]" "shape Var_x = s @ [1]"
  obtains out where
    "LayerNorm_2p5D_forward input E_x Var_x hidden_size rm =
       Return (out, \<lparr>ln_hidden_size = hidden_size, ln_saved_tensors = (out, Var_x),
                        ln_row_parallel_mode = rm\<rparr>)"
    "shape out = s @ [h]"
    "\<And>p j. p < prod_list s \<Longrightarrow> j < h \<Longrightarrow>
       data out ! (p * h + j) = (data input ! (p * h + j) - data E_x ! p) * data Var_x ! p"
proof -
  obtain y where y: "pointwise minus input E_x = Inr y" "shape y = s @ [h]"
    "\<And>p. p < prod_list s * h \<Longrightarrow> data y ! p = data input ! p - data E_x ! (p div h)"
    using pointwise_keepdim_entries [OF assms(1,2), of minus] by blast
  obtain z where z: "pointwise times y Var_x = Inr z" "shape z = s @ [h]"
    "\<And>p. p < prod_list s * h \<Longrightarrow> data z ! p = data y ! p * data Var_x ! (p div h)"
    using pointwise_keepdim_entries [OF y(2) assms(3), of times] by blast
  show thesis
  proof (rule that [of z])
    show "LayerNorm_2p5D_forward input E_x Var_x hidden_size rm =
       Return (z, \<lparr>ln_hidden_size = hidden_size, ln_saved_tensors = (z, Var_x),
                        ln_row_parallel_mode = rm\<rparr>)"
      by (simp add: LayerNorm_2p5D_forward_def y(1) z(1))
    show "shape z = s @ [h]" by (rule z(2))
    fix p j assume pj: "p < prod_list s" "j < h"
    then have b: "p * h + j < prod_list s * h" by (rule index_bound)
    show "data z ! (p * h + j) = (data input ! (p * h + j) - data E_x ! p) * data Var_x ! p"
      using z(3) [OF b] y(3) [OF b] pj(2) by simp
  qed
qed

lemma LayerNorm_backward_form:
  "LayerNorm_2p5D_backward
     \<lparr>ln_hidden_size = H, ln_saved_tensors = (x, Var_x), ln_row_parallel_mode = rm\<rparr> g =
   All_reduce (sum_last_keepdim g) rm (\<lambda>s1.
     attempt (div_scalar s1 H) (\<lambda>s1.
     attempt (pointwise times g x) (\<lambda>gx.
     All_reduce (sum_last_keepdim gx) rm (\<lambda>s2.
       attempt (div_scalar s2 H) (\<lambda>s2.
       attempt (pointwise times x s2) (\<lambda>xm.
       attempt (pointwise_inplace minus g xm) (\<lambda>g1.
       attempt (pointwise_inplace minus g1 s1) (\<lambda>g2.
       attempt (pointwise_inplace times g2 Var_x) (\<lambda>g3.
       Return [Some g3, None, None, None, None, None, None])))))))))"
  by (simp add: LayerNorm_2p5D_backward_def Let_def)


lemma layernorm_backward_grid:
  fixes g x v :: "nat \<times> nat \<Rightarrow> 'a::field tensor"
  assumes rc: "r < d" "c < d" and d: "d = grid_tesseract_dim G" and H: "H \<noteq> 0"
    and shg: "\<And>q. q < d \<Longrightarrow> shape (g (r, q)) = s @ [h]"
    and shx: "\<And>q. q < d \<Longrightarrow> shape (x (r, q)) = s @ [h]"
    and shv: "shape (v (r, c)) = s @ [1]"
    and ctx: "\<And>q. q < d \<Longrightarrow> ctx (r, q) =
                \<lparr>ln_hidden_size = H, ln_saved_tensors = (x (r, q), v (r, q)),
                 ln_row_parallel_mode = PARALLEL_2P5D_ROW\<rparr>"
  obtains gin where
    "run G residue 2 (LayerNorm_backward_on_grid ctx g) (r, c)
       = Return [Some gin, None, None, None, None, None, None]"
    "shape gin = s @ [h]"
    "\<And>p j. p < prod_list s \<Longrightarrow> j < h \<Longrightarrow>
       data gin ! (p * h + j) =
         ((data (g (r, c)) ! (p * h + j)
            - data (x (r, c)) ! (p * h + j)
              * ((\<Sum>q\<leftarrow>[0..<d]. \<Sum>j'\<leftarrow>[0..<h].
                    data (g (r, q)) ! (p * h + j') * data (x (r, q)) ! (p * h + j')) / of_int H))
          - (\<Sum>q\<leftarrow>[0..<d]. \<Sum>j'\<leftarrow>[0..<h]. data (g (r, q)) ! (p * h + j')) / of_int H)
         * data (v (r, c)) ! p"
proof -
  let ?P = "LayerNorm_backward_on_grid ctx g"
  let ?ROW = PARALLEL_2P5D_ROW
  let ?S1 = "\<lambda>q. sum_last_keepdim (g (r, q))"
  let ?K2 = "\<lambda>q s1 s2.
       attempt (div_scalar s2 H) (\<lambda>s2.
       attempt (pointwise times (x (r, q)) s2) (\<lambda>xm.
       attempt (pointwise_inplace minus (g (r, q)) xm) (\<lambda>g1.
       attempt (pointwise_inplace minus g1 s1) (\<lambda>g2.
       attempt (pointwise_inplace times g2 (v (r, q))) (\<lambda>g3.
       Return [Some g3, None, None, None, None, None, None])))))"
  let ?K1 = "\<lambda>q s1.
     attempt (div_scalar s1 H) (\<lambda>s1.
     attempt (pointwise times (g (r, q)) (x (r, q))) (\<lambda>gx.
     All_reduce (sum_last_keepdim gx) ?ROW (?K2 q s1)))"
  have dpos: "0 < d" using rc by simp
  have form: "?P (r, q) = All_reduce (?S1 q) ?ROW (?K1 q)" if "q < d" for q
    using ctx [OF that] by (simp add: LayerNorm_backward_on_grid_def LayerNorm_backward_form)
  \<comment> \<open>the first all-reduce\<close>
  define a where "a = tensor_sum (map ?S1 [0..<d])"
  have shS1: "shape (?S1 q) = s @ [1]" if "q < d" for q
    using sum_last_keepdim_entries(1) [OF shg [OF that]] .
  have a_shape: "shape a = s @ [1]"
    unfolding a_def by (rule tensor_sum_entries(1) [OF dpos shS1])
  have a_len: "length (data a) = prod_list s"
    unfolding a_def using tensor_sum_entries(2) [OF dpos shS1, of "\<lambda>q. q"] by simp
  have a_entry: "data a ! p = (\<Sum>q\<leftarrow>[0..<d]. \<Sum>j\<leftarrow>[0..<h]. data (g (r, q)) ! (p * h + j))"
    if "p < prod_list s" for p
  proof -
    have "data a ! p = (\<Sum>q\<leftarrow>[0..<d]. data (?S1 q) ! p)"
      unfolding a_def using tensor_sum_entries(3) [OF dpos shS1, of "\<lambda>q. q" p] that by simp
    also have "\<dots> = (\<Sum>q\<leftarrow>[0..<d]. \<Sum>j\<leftarrow>[0..<h]. data (g (r, q)) ! (p * h + j))"
      by (rule sum_list_upt_cong) (rule sum_last_keepdim_entries(3) [OF shg that])
    finally show ?thesis .
  qed
  obtain a' where a': "div_scalar a H = Inr a'" "shape a' = s @ [1]"
    "\<And>p. p < prod_list s \<Longrightarrow> data a' ! p = data a ! p / of_int H"
    using div_scalar_entries [OF H, of a] a_shape a_len by metis
  define gx where "gx q = projr (pointwise times (g (r, q)) (x (r, q)))" for q
  have gx: "pointwise times (g (r, q)) (x (r, q)) = Inr (gx q)" "shape (gx q) = s @ [h]"
    "\<And>p. p < prod_list s * h \<Longrightarrow> data (gx q) ! p = data (g (r, q)) ! p * data (x (r, q)) ! p"
    if "q < d" for q
  proof -
    have e: "shape (g (r, q)) = shape (x (r, q))"
      using shg [OF that] shx [OF that] by simp
    obtain y where y: "pointwise times (g (r, q)) (x (r, q)) = Inr y" "shape y = shape (g (r, q))"
      "\<And>p. p < prod_list (shape (g (r, q))) \<Longrightarrow>
          data y ! p = data (g (r, q)) ! p * data (x (r, q)) ! p"
      using pointwise_same_entries [OF e, of times] by blast
    have "gx q = y" by (simp add: gx_def y(1))
    with y shg [OF that] show "pointwise times (g (r, q)) (x (r, q)) = Inr (gx q)"
      "shape (gx q) = s @ [h]"
      "\<And>p. p < prod_list s * h \<Longrightarrow> data (gx q) ! p = data (g (r, q)) ! p * data (x (r, q)) ! p"
      by simp_all
  qed
  let ?S2 = "\<lambda>q. sum_last_keepdim (gx q)"
  have step1: "step G residue ?P (r, q) = All_reduce (?S2 q) ?ROW (?K2 q a')" if "q < d" for q
  proof -
    have "step G residue ?P (r, q) = ?K1 q (tensor_sum (map ?S1 [0..<grid_tesseract_dim G]))"
    proof (rule step_All_reduce [where T = ?S1 and g = ?ROW and t = "?S1 q" and k = "?K1 q"])
      show "?P (r, q) = All_reduce (?S1 q) ?ROW (?K1 q)" by (rule form [OF that])
      show "\<exists>k'. ?P (member ?ROW (r, q) q') = All_reduce (?S1 q') ?ROW k'"
        if "q' < grid_tesseract_dim G" for q'
        using form [of q'] that d by simp
      show "shape (?S1 q') = shape (?S1 q)" if "q' < grid_tesseract_dim G" for q'
        using shS1 [of q'] shS1 [OF \<open>q < d\<close>] that d by simp
    qed
    then show ?thesis
      using a'(1) gx(1) [OF that] by (simp add: a_def d)
  qed
  \<comment> \<open>the second all-reduce\<close>
  define b where "b = tensor_sum (map ?S2 [0..<d])"
  have shS2: "shape (?S2 q) = s @ [1]" if "q < d" for q
    using sum_last_keepdim_entries(1) [OF gx(2) [OF that]] .
  have b_shape: "shape b = s @ [1]"
    unfolding b_def by (rule tensor_sum_entries(1) [OF dpos shS2])
  have b_len: "length (data b) = prod_list s"
    unfolding b_def using tensor_sum_entries(2) [OF dpos shS2, of "\<lambda>q. q"] by simp
  have b_entry: "data b ! p = (\<Sum>q\<leftarrow>[0..<d]. \<Sum>j\<leftarrow>[0..<h].
                    data (g (r, q)) ! (p * h + j) * data (x (r, q)) ! (p * h + j))"
    if "p < prod_list s" for p
  proof -
    have "data b ! p = (\<Sum>q\<leftarrow>[0..<d]. data (?S2 q) ! p)"
      unfolding b_def using tensor_sum_entries(3) [OF dpos shS2, of "\<lambda>q. q" p] that by simp
    also have "\<dots> = (\<Sum>q\<leftarrow>[0..<d]. \<Sum>j\<leftarrow>[0..<h]. data (gx q) ! (p * h + j))"
      by (rule sum_list_upt_cong) (rule sum_last_keepdim_entries(3) [OF gx(2) that])
    also have "\<dots> = (\<Sum>q\<leftarrow>[0..<d]. \<Sum>j\<leftarrow>[0..<h].
                    data (g (r, q)) ! (p * h + j) * data (x (r, q)) ! (p * h + j))"
      by (intro sum_list_upt_cong gx(3) index_bound that)
    finally show ?thesis .
  qed
  have step2: "step G residue (step G residue ?P) (r, c) = ?K2 c a' b"
  proof -
    have "step G residue (step G residue ?P) (r, c)
            = ?K2 c a' (tensor_sum (map ?S2 [0..<grid_tesseract_dim G]))"
    proof (rule step_All_reduce [where T = ?S2 and g = ?ROW and t = "?S2 c" and k = "?K2 c a'"])
      show "step G residue ?P (r, c) = All_reduce (?S2 c) ?ROW (?K2 c a')"
        by (rule step1 [OF rc(2)])
      show "\<exists>k'. step G residue ?P (member ?ROW (r, c) q') = All_reduce (?S2 q') ?ROW k'"
        if "q' < grid_tesseract_dim G" for q'
        using step1 [of q'] that d by simp
      show "shape (?S2 q') = shape (?S2 c)" if "q' < grid_tesseract_dim G" for q'
        using shS2 [of q'] shS2 [OF rc(2)] that d by simp
    qed
    then show ?thesis by (simp add: b_def d)
  qed
  \<comment> \<open>the rest runs on the rank alone\<close>
  obtain b' where b': "div_scalar b H = Inr b'" "shape b' = s @ [1]"
    "\<And>p. p < prod_list s \<Longrightarrow> data b' ! p = data b ! p / of_int H"
    using div_scalar_entries [OF H, of b] b_shape b_len by metis
  obtain xm where xm: "pointwise times (x (r, c)) b' = Inr xm" "shape xm = s @ [h]"
    "\<And>p. p < prod_list s * h \<Longrightarrow> data xm ! p = data (x (r, c)) ! p * data b' ! (p div h)"
    using pointwise_keepdim_entries [OF shx [OF rc(2)] b'(2), of times] by blast
  have e1: "shape (g (r, c)) = shape xm"
    using shg [OF rc(2)] xm(2) by simp
  obtain g1 where g1: "pointwise_inplace minus (g (r, c)) xm = Inr g1" "shape g1 = s @ [h]"
    "\<And>p. p < prod_list s * h \<Longrightarrow> data g1 ! p = data (g (r, c)) ! p - data xm ! p"
    using pointwise_inplace_same_entries [OF e1, of minus] shg [OF rc(2)]
    by (metis prod_list_snoc)
  obtain g2 where g2: "pointwise_inplace minus g1 a' = Inr g2" "shape g2 = s @ [h]"
    "\<And>p. p < prod_list s * h \<Longrightarrow> data g2 ! p = data g1 ! p - data a' ! (p div h)"
    using pointwise_inplace_keepdim_entries [OF g1(2) a'(2), of minus] by blast
  obtain g3 where g3: "pointwise_inplace times g2 (v (r, c)) = Inr g3" "shape g3 = s @ [h]"
    "\<And>p. p < prod_list s * h \<Longrightarrow> data g3 ! p = data g2 ! p * data (v (r, c)) ! (p div h)"
    using pointwise_inplace_keepdim_entries [OF g2(2) shv, of times] by blast
  show thesis
  proof (rule that [of g3])
    show "run G residue 2 ?P (r, c) = Return [Some g3, None, None, None, None, None, None]"
      by (simp add: run_2 step2 b'(1) xm(1) g1(1) g2(1) g3(1))
    show "shape g3 = s @ [h]" by (rule g3(2))
    fix p j assume pj: "p < prod_list s" "j < h"
    then have bd: "p * h + j < prod_list s * h" by (rule index_bound)
    have dv: "(p * h + j) div h = p" using pj(2) by simp
    show "data g3 ! (p * h + j) =
         ((data (g (r, c)) ! (p * h + j)
            - data (x (r, c)) ! (p * h + j)
              * ((\<Sum>q\<leftarrow>[0..<d]. \<Sum>j'\<leftarrow>[0..<h].
                    data (g (r, q)) ! (p * h + j') * data (x (r, q)) ! (p * h + j')) / of_int H))
          - (\<Sum>q\<leftarrow>[0..<d]. \<Sum>j'\<leftarrow>[0..<h]. data (g (r, q)) ! (p * h + j')) / of_int H)
         * data (v (r, c)) ! p"
      by (simp only: g3(3) [OF bd] g2(3) [OF bd] g1(3) [OF bd] xm(3) [OF bd] dv
          a'(3) [OF pj(1)] b'(3) [OF pj(1)] a_entry [OF pj(1)] b_entry [OF pj(1)])
  qed
qed

section \<open>The tiled products\<close>

subsection \<open>Entries of a product, and the accumulated sum\<close>

lemma matmul_2d:
  assumes "shape a = [m, k]" "shape b = [k, n]"
  shows "matmul a b =
           Inr (Tensor [m, n]
             (map (\<lambda>p. \<Sum>l\<leftarrow>[0..<k]. data a ! ((p div n) * k + l) * data b ! (l * n + p mod n))
                [0..<m * n]))"
  using assms by (simp add: matmul_def)

lemma matmul_entries:
  assumes "shape a = [m, k]" "shape b = [k, n]"
  obtains P where "matmul a b = Inr P" "shape P = [m, n]" "length (data P) = m * n"
    "\<And>i j. i < m \<Longrightarrow> j < n \<Longrightarrow>
       data P ! (i * n + j) = (\<Sum>l\<leftarrow>[0..<k]. data a ! (i * k + l) * data b ! (l * n + j))"
proof -
  let ?P = "Tensor [m, n]
             (map (\<lambda>p. \<Sum>l\<leftarrow>[0..<k]. data a ! ((p div n) * k + l) * data b ! (l * n + p mod n))
                [0..<m * n])"
  show thesis
  proof (rule that [of ?P])
    show "matmul a b = Inr ?P" by (rule matmul_2d [OF assms])
    show "shape ?P = [m, n]" by simp
    show "length (data ?P) = m * n" by simp
    fix i j assume ij: "i < m" "j < n"
    then have "i * n + j < m * n" by (rule index_bound)
    then show "data ?P ! (i * n + j)
        = (\<Sum>l\<leftarrow>[0..<k]. data a ! (i * k + l) * data b ! (l * n + j))"
      using ij(2) by simp
  qed
qed

lemma transpose01_entries:
  assumes "shape t = [m, n]"
  obtains T where "transpose01 t = Inr T" "shape T = [n, m]"
    "\<And>i j. i < n \<Longrightarrow> j < m \<Longrightarrow> data T ! (i * m + j) = data t ! (j * n + i)"
proof -
  let ?T = "Tensor [n, m] (map (\<lambda>p. data t ! ((p mod m) * n + p div m)) [0..<n * m])"
  show thesis
  proof (rule that [of ?T])
    show "transpose01 t = Inr ?T" using assms by (simp add: transpose01_def)
    show "shape ?T = [n, m]" by simp
    fix i j assume ij: "i < n" "j < m"
    then have "i * m + j < n * m" by (rule index_bound)
    then show "data ?T ! (i * m + j) = data t ! (j * n + i)"
      using ij(2) by simp
  qed
qed

lemma addmm_2d:
  assumes "matmul a b = Inr P" "shape P = [m, n]" "shape C = [m, n]"
  shows "addmm C a b = Inr (Tensor [m, n] (map (\<lambda>p. data C ! p + data P ! p) [0..<m * n]))"
  using assms by (simp add: addmm_def)

lemma map_nth_upt: "length xs = n \<Longrightarrow> map (\<lambda>p. xs ! p) [0..<n] = xs"
  by (auto simp: list_eq_iff_nth_eq)

lemma accumulate_tiles_sum:
  fixes C :: "'a::semiring_0 tensor"
  assumes js: "\<And>q. q \<in> set js \<Longrightarrow> q < length A_list \<and> q < length B_list"
    and mm: "\<And>q. q \<in> set js \<Longrightarrow> matmul (A_list ! q) (B_list ! q) = Inr (M q) \<and> shape (M q) = [m, n]"
    and C: "shape C = [m, n]" "length (data C) = m * n"
  shows "accumulate_tiles (\<lambda>i. i) (\<lambda>i. i) A_list B_list C (map int js) =
           Inr (Tensor [m, n] (map (\<lambda>p. data C ! p + (\<Sum>q\<leftarrow>js. data (M q) ! p)) [0..<m * n]))"
  using js mm C
proof (induction js arbitrary: C)
  case Nil
  have "Tensor [m, n] (map (\<lambda>p. data C ! p) [0..<m * n]) = C"
    using Nil.prems(3,4) by (cases C) (simp add: map_nth_upt)
  then show ?case by simp
next
  case (Cons q js)
  let ?C' = "Tensor [m, n] (map (\<lambda>p. data C ! p + data (M q) ! p) [0..<m * n])"
  have q: "q < length A_list" "q < length B_list"
    using Cons.prems(1) [of q] by simp_all
  have mq: "matmul (A_list ! q) (B_list ! q) = Inr (M q)" "shape (M q) = [m, n]"
    using Cons.prems(2) [of q] by simp_all
  have 1: "addmm C (A_list ! q) (B_list ! q) = Inr ?C'"
    by (rule addmm_2d [OF mq Cons.prems(3)])
  have 2: "accumulate_tiles (\<lambda>i. i) (\<lambda>i. i) A_list B_list ?C' (map int js) =
           Inr (Tensor [m, n] (map (\<lambda>p. data ?C' ! p + (\<Sum>q\<leftarrow>js. data (M q) ! p)) [0..<m * n]))"
    by (rule Cons.IH) (use Cons.prems(1,2) in simp_all)
  have 3: "map (\<lambda>p. data ?C' ! p + (\<Sum>q\<leftarrow>js. data (M q) ! p)) [0..<m * n]
         = map (\<lambda>p. data C ! p + (data (M q) ! p + (\<Sum>q\<leftarrow>js. data (M q) ! p))) [0..<m * n]"
    by (rule map_cong) (simp_all add: add.assoc)
  have "accumulate_tiles (\<lambda>i. i) (\<lambda>i. i) A_list B_list C (map int (q # js))
      = accumulate_tiles (\<lambda>i. i) (\<lambda>i. i) A_list B_list ?C' (map int js)"
    using q by (simp add: py_index_nat 1)
  also note 2
  finally show ?case
    using 3 by simp
qed

lemma sum_list_blocks:
  fixes F :: "nat \<Rightarrow> nat \<Rightarrow> 'a::comm_monoid_add"
  shows "(\<Sum>L\<leftarrow>[0..<d * k]. F (L div k) (L mod k)) = (\<Sum>q\<leftarrow>[0..<d]. \<Sum>l\<leftarrow>[0..<k]. F q l)"
proof (induction d)
  case 0
  show ?case by simp
next
  case (Suc d)
  have "Suc d * k = d * k + k" by simp
  then have split: "[0..<Suc d * k] = [0..<d * k] @ [d * k..<k + d * k]"
    by (simp only: upt_add_eq_append [OF le0] add.commute [of k])
  have "map (\<lambda>L. F (L div k) (L mod k)) [d * k..<k + d * k]
        = map (\<lambda>l. F ((l + d * k) div k) ((l + d * k) mod k)) [0..<k]"
    by (simp only: map_add_upt [of "d * k" k, symmetric] map_map o_def)
  also have "\<dots> = map (\<lambda>l. F d l) [0..<k]"
    by (rule map_cong) simp_all
  finally have blk: "map (\<lambda>L. F (L div k) (L mod k)) [d * k..<k + d * k] = map (\<lambda>l. F d l) [0..<k]" .
  have "(\<Sum>L\<leftarrow>[0..<Suc d * k]. F (L div k) (L mod k))
      = (\<Sum>L\<leftarrow>[0..<d * k]. F (L div k) (L mod k)) + (\<Sum>l\<leftarrow>[0..<k]. F d l)"
    by (simp only: split map_append sum_list.append blk)
  also have "\<dots> = (\<Sum>q\<leftarrow>[0..<d]. \<Sum>l\<leftarrow>[0..<k]. F q l) + (\<Sum>l\<leftarrow>[0..<k]. F d l)"
    by (simp only: Suc.IH)
  also have "\<dots> = (\<Sum>q\<leftarrow>[0..<Suc d]. \<Sum>l\<leftarrow>[0..<k]. F q l)"
    by simp
  finally show ?case .
qed

subsection \<open>\<^verbatim>\<open>Matmul_AB_2p5D.forward\<close> on the grid: two all-gathers, then the local loop\<close>

lemma reshape_2d: "shape t = [m, k] \<Longrightarrow> 0 < k \<Longrightarrow> reshape t [- 1, int k] = Inr t"
  using reshape_rows [of t k] by (cases t) simp

lemma reshape_out: "shape t = [m, n] \<Longrightarrow> reshape t [int m, int n] = Inr t"
  using reshape_known [of "[m, n]" t] by (cases t) simp

lemma AB_forward_form:
  assumes "shape A = [m, k]" "shape B = [k, n]" "0 < k" "0 < n"
  shows "Matmul_AB_2p5D_forward env ctx A B d out_shape r c dep rm cm dpr ppr pps tps =
           All_gather
             (py_insert (replicate (nat (get_world_size env rm - 1)) (empty_like (uninitialized env) A))
                (get_local_rank env rm) A) A rm (\<lambda>A_list.
           All_gather
             (py_insert (replicate (nat (get_world_size env cm - 1)) (empty_like (uninitialized env) B))
                (get_local_rank env cm) B) B cm (\<lambda>B_list.
           attempt (AB_loop d r c A_list B_list (zeros [m, n]) (py_range d)) (\<lambda>C.
           attempt (reshape C out_shape) (\<lambda>out.
           Return (out, save_ctx ctx (A, B) d r c dep rm cm [m, k] [k, n] dpr ppr pps tps)))))"
  using assms
  by (simp add: Matmul_AB_2p5D_forward_def py_index_last py_index_penultimate py_index_first
      reshape_2d)

lemma length_py_insert: "length (py_insert xs i x) = Suc (length xs)"
  by (simp add: py_insert_def Let_def)

lemma set_py_insert: "set (py_insert xs i x) = insert x (set xs)"
proof -
  have "set (take j xs) \<union> set (drop j xs) = set xs" for j
    by (metis append_take_drop_id set_append)
  then show ?thesis
    by (auto simp: py_insert_def Let_def)
qed

lemma AB_loop_sum:
  fixes A_row B_col :: "nat \<Rightarrow> 'a::semiring_0 tensor"
  assumes A: "\<And>q. q < d \<Longrightarrow> shape (A_row q) = [m, k]"
    and B: "\<And>q. q < d \<Longrightarrow> shape (B_col q) = [k, n]"
  obtains C where
    "AB_loop (int d) r c (map A_row [0..<d]) (map B_col [0..<d]) (zeros [m, n]) (py_range (int d)) = Inr C"
    "shape C = [m, n]"
    "\<And>i j. i < m \<Longrightarrow> j < n \<Longrightarrow>
       data C ! (i * n + j) =
         (\<Sum>q\<leftarrow>[0..<d]. \<Sum>l\<leftarrow>[0..<k]. data (A_row q) ! (i * k + l) * data (B_col q) ! (l * n + j))"
proof -
  let ?M = "\<lambda>q. Tensor [m, n]
             (map (\<lambda>p. \<Sum>l\<leftarrow>[0..<k]. data (A_row q) ! ((p div n) * k + l) * data (B_col q) ! (l * n + p mod n))
                [0..<m * n])"
  let ?C = "Tensor [m, n] (map (\<lambda>p. data (zeros [m, n] :: 'a tensor) ! p + (\<Sum>q\<leftarrow>[0..<d]. data (?M q) ! p)) [0..<m * n])"
  have 1: "AB_loop (int d) r c (map A_row [0..<d]) (map B_col [0..<d]) (zeros [m, n]) (py_range (int d))
      = accumulate_tiles (\<lambda>i. i) (\<lambda>i. i) (map A_row [0..<d]) (map B_col [0..<d]) (zeros [m, n]) (py_range (int d))"
    by (rule AB_loop_accumulates) (rule py_range_bounds)
  have 2: "accumulate_tiles (\<lambda>i. i) (\<lambda>i. i) (map A_row [0..<d]) (map B_col [0..<d]) (zeros [m, n]) (map int [0..<d])
      = Inr ?C"
  proof (rule accumulate_tiles_sum)
    fix q assume "q \<in> set [0..<d]"
    then have q: "q < d" by simp
    then show "q < length (map A_row [0..<d]) \<and> q < length (map B_col [0..<d])" by simp
    show "matmul (map A_row [0..<d] ! q) (map B_col [0..<d] ! q) = Inr (?M q) \<and> shape (?M q) = [m, n]"
      using q matmul_2d [OF A [OF q] B [OF q]] by simp
  next
    show "shape (zeros [m, n] :: 'a tensor) = [m, n]" by (simp add: zeros_def)
    show "length (data (zeros [m, n] :: 'a tensor)) = m * n" by (simp add: zeros_def)
  qed
  show thesis
  proof (rule that [of ?C])
    show "AB_loop (int d) r c (map A_row [0..<d]) (map B_col [0..<d]) (zeros [m, n]) (py_range (int d)) = Inr ?C"
      using 1 2 by (simp add: py_range_def)
    show "shape ?C = [m, n]" by simp
    fix i j assume ij: "i < m" "j < n"
    then have p: "i * n + j < m * n" by (rule index_bound)
    have "data ?C ! (i * n + j) = (\<Sum>q\<leftarrow>[0..<d]. data (?M q) ! (i * n + j))"
      using p by (simp add: zeros_def)
    also have "\<dots> = (\<Sum>q\<leftarrow>[0..<d]. \<Sum>l\<leftarrow>[0..<k]. data (A_row q) ! (i * k + l) * data (B_col q) ! (l * n + j))"
      using p ij(2) by simp
    finally show "data ?C ! (i * n + j) =
         (\<Sum>q\<leftarrow>[0..<d]. \<Sum>l\<leftarrow>[0..<k]. data (A_row q) ! (i * k + l) * data (B_col q) ! (l * n + j))" .
  qed
qed

lemma AB_on_grid:
  fixes A B :: "nat \<times> nat \<Rightarrow> 'a::semiring_0 tensor"
  assumes shA: "\<And>r c. r < grid_tesseract_dim G \<Longrightarrow> c < grid_tesseract_dim G \<Longrightarrow> shape (A (r, c)) = [m, k]"
    and shB: "\<And>r c. r < grid_tesseract_dim G \<Longrightarrow> c < grid_tesseract_dim G \<Longrightarrow> shape (B (r, c)) = [k, n]"
    and pos: "0 < k" "0 < n"
    and rc: "r < grid_tesseract_dim G" "c < grid_tesseract_dim G"
  obtains C cx where
    "run G residue 2 (matmul_on_grid Matmul_AB_2p5D_forward G junk ctx A B [int m, int n]) (r, c)
       = Return (C, cx)"
    "shape C = [m, n]"
    "\<And>i j. i < m \<Longrightarrow> j < n \<Longrightarrow>
       data C ! (i * n + j) =
         (\<Sum>q\<leftarrow>[0..<grid_tesseract_dim G]. \<Sum>l\<leftarrow>[0..<k].
            data (A (r, q)) ! (i * k + l) * data (B (q, c)) ! (l * n + j))"
proof -
  let ?d = "grid_tesseract_dim G"
  let ?P = "matmul_on_grid Matmul_AB_2p5D_forward G junk ctx A B [int m, int n]"
  let ?cx = "\<lambda>r c. save_ctx ctx (A (r, c), B (r, c)) (int ?d) (int r) (int c) (grid_dep_rank G)
               PARALLEL_2P5D_ROW PARALLEL_2P5D_COL [m, k] [k, n]
               (grid_data_parallel_rank G) (grid_pipeline_parallel_rank G)
               (grid_pipeline_parallel_size G) (grid_tensor_parallel_size G)"
  let ?LA = "\<lambda>r c. py_insert (replicate (nat (int ?d - 1)) (empty_like junk (A (r, c))))
               (int (local_rank PARALLEL_2P5D_ROW (r, c))) (A (r, c))"
  let ?LB = "\<lambda>r c. py_insert (replicate (nat (int ?d - 1)) (empty_like junk (B (r, c))))
               (int (local_rank PARALLEL_2P5D_COL (r, c))) (B (r, c))"
  let ?k2 = "\<lambda>r c A_list B_list.
           attempt (AB_loop (int ?d) (int r) (int c) A_list B_list (zeros [m, n]) (py_range (int ?d))) (\<lambda>C.
           attempt (reshape C [int m, int n]) (\<lambda>out. Return (out, ?cx r c)))"
  let ?k1 = "\<lambda>r c A_list. All_gather (?LB r c) (B (r, c)) PARALLEL_2P5D_COL (?k2 r c A_list)"
  have P0: "?P (r', c') = All_gather (?LA r' c') (A (r', c')) PARALLEL_2P5D_ROW (?k1 r' c')"
    if "r' < ?d" "c' < ?d" for r' c'
    by (simp add: matmul_on_grid_def rank_env_def
        AB_forward_form [OF shA [OF that] shB [OF that] pos])
  have dpos: "0 < ?d" using rc by simp
  have lenA: "length (?LA r' c') = ?d" for r' c'
    using dpos by (simp add: length_py_insert)
  have lenB: "length (?LB r' c') = ?d" for r' c'
    using dpos by (simp add: length_py_insert)
  let ?row = "\<lambda>r. map (\<lambda>q. A (r, q)) [0..<?d]"
  let ?col = "\<lambda>c. map (\<lambda>q. B (q, c)) [0..<?d]"
  have 1: "step G residue ?P (r', c') = ?k1 r' c' (?row r')" if r': "r' < ?d" "c' < ?d" for r' c'
  proof (rule step_All_gather [where T = "\<lambda>q. A (r', q)" and l = "?LA r' c'"
        and t = "A (r', c')" and g = PARALLEL_2P5D_ROW and k = "?k1 r' c'"])
    show "?P (r', c') = All_gather (?LA r' c') (A (r', c')) PARALLEL_2P5D_ROW (?k1 r' c')"
      by (rule P0 [OF r'])
    show "\<exists>l' k'. ?P (member PARALLEL_2P5D_ROW (r', c') q) = All_gather l' (A (r', q)) PARALLEL_2P5D_ROW k'"
      if "q < ?d" for q
      using P0 [OF r'(1) that] by (simp only: member_ROW) blast
    show "length (?LA r' c') = ?d" by (rule lenA)
    show "shape x = shape (A (r', c'))" if "x \<in> set (?LA r' c')" for x
      using that by (auto simp: set_py_insert empty_like_def empty_def)
    show "shape (A (r', q)) = shape (A (r', c'))" if "q < ?d" for q
      using shA [OF r'(1) that] shA [OF r'] by simp
  qed
  have 2: "step G residue (step G residue ?P) (r, c) = ?k2 r c (?row r) (?col c)"
  proof (rule step_All_gather [where T = "\<lambda>q. B (q, c)" and l = "?LB r c"
        and t = "B (r, c)" and g = PARALLEL_2P5D_COL and k = "?k2 r c (?row r)"])
    show "step G residue ?P (r, c) = All_gather (?LB r c) (B (r, c)) PARALLEL_2P5D_COL (?k2 r c (?row r))"
      by (rule 1 [OF rc])
    show "\<exists>l' k'. step G residue ?P (member PARALLEL_2P5D_COL (r, c) q)
            = All_gather l' (B (q, c)) PARALLEL_2P5D_COL k'"
      if "q < ?d" for q
      using 1 [OF that rc(2)] by (simp only: member_COL) blast
    show "length (?LB r c) = ?d" by (rule lenB)
    show "shape x = shape (B (r, c))" if "x \<in> set (?LB r c)" for x
      using that by (auto simp: set_py_insert empty_like_def empty_def)
    show "shape (B (q, c)) = shape (B (r, c))" if "q < ?d" for q
      using shB [OF that rc(2)] shB [OF rc] by simp
  qed
  obtain C where C: "AB_loop (int ?d) (int r) (int c) (?row r) (?col c) (zeros [m, n]) (py_range (int ?d)) = Inr C"
    "shape C = [m, n]"
    "\<And>i j. i < m \<Longrightarrow> j < n \<Longrightarrow>
       data C ! (i * n + j) =
         (\<Sum>q\<leftarrow>[0..<?d]. \<Sum>l\<leftarrow>[0..<k]. data (A (r, q)) ! (i * k + l) * data (B (q, c)) ! (l * n + j))"
  proof (rule AB_loop_sum [where A_row = "\<lambda>q. A (r, q)" and B_col = "\<lambda>q. B (q, c)"
        and d = "?d" and m = m and k = k and n = n and r = "int r" and c = "int c"])
    show "shape (A (r, q)) = [m, k]" if "q < ?d" for q by (rule shA [OF rc(1) that])
    show "shape (B (q, c)) = [k, n]" if "q < ?d" for q by (rule shB [OF that rc(2)])
  qed blast
  show thesis
  proof (rule that [of C "?cx r c"])
    show "run G residue 2 ?P (r, c) = Return (C, ?cx r c)"
      by (simp only: run_2 2) (simp add: C(1) reshape_out [OF C(2)])
    show "shape C = [m, n]" by (rule C(2))
    show "data C ! (i * n + j) =
         (\<Sum>q\<leftarrow>[0..<?d]. \<Sum>l\<leftarrow>[0..<k]. data (A (r, q)) ! (i * k + l) * data (B (q, c)) ! (l * n + j))"
      if "i < m" "j < n" for i j
      by (rule C(3) [OF that])
  qed
qed

subsection \<open>The dense product, block by block\<close>

lemma assemble_entry:
  assumes "I < d * m" "J < d * n"
  shows "data (assemble d m n T) ! (I * (d * n) + J)
           = data (T (I div m, J div n)) ! ((I mod m) * n + J mod n)"
proof -
  have "I * (d * n) + J < d * m * (d * n)"
    using assms by (rule index_bound)
  then show ?thesis
    using assms(2) by (simp add: assemble_def index_split [OF assms(2)])
qed

lemma shape_assemble: "shape (assemble d m n T) = [d * m, d * n]"
  by (simp add: assemble_def)

lemma div_mod_bounds:
  assumes "I < d * (m::nat)"
  shows "I div m < d" "I mod m < m"
proof -
  from assms have "0 < m" by (cases m) simp_all
  then show "I mod m < m" by simp
  from assms show "I div m < d"
    by (simp add: less_mult_imp_div_less)
qed

lemma assembled_product:
  fixes fa fb :: "nat \<Rightarrow> nat \<Rightarrow> nat \<Rightarrow> nat \<Rightarrow> 'a::semiring_0"
  assumes tiles: "\<And>r c i j. r < d \<Longrightarrow> c < d \<Longrightarrow> i < m \<Longrightarrow> j < n \<Longrightarrow>
      data (C (r, c)) ! (i * n + j) = (\<Sum>q\<leftarrow>[0..<d]. \<Sum>l\<leftarrow>[0..<k]. fa r q i l * fb q c l j)"
    and X: "shape X = [d * m, d * k]"
      "\<And>I L. I < d * m \<Longrightarrow> L < d * k \<Longrightarrow>
         data X ! (I * (d * k) + L) = fa (I div m) (L div k) (I mod m) (L mod k)"
    and Y: "shape Y = [d * k, d * n]"
      "\<And>L J. L < d * k \<Longrightarrow> J < d * n \<Longrightarrow>
         data Y ! (L * (d * n) + J) = fb (L div k) (J div n) (L mod k) (J mod n)"
  shows "matmul X Y = Inr (assemble d m n C)"
proof -
  have "(\<Sum>L\<leftarrow>[0..<d * k]. data X ! ((p div (d * n)) * (d * k) + L) * data Y ! (L * (d * n) + p mod (d * n)))
        = data (C ((p div (d * n)) div m, (p mod (d * n)) div n))
            ! (((p div (d * n)) mod m) * n + (p mod (d * n)) mod n)"
    if p: "p < d * m * (d * n)" for p
  proof -
    let ?I = "p div (d * n)" and ?J = "p mod (d * n)"
    from p have "0 < d * n" by (cases "d * n") simp_all
    then have J: "?J < d * n" by simp
    from p have I: "?I < d * m"
      by (simp add: less_mult_imp_div_less)
    note Ib = div_mod_bounds [OF I] and Jb = div_mod_bounds [OF J]
    have "(\<Sum>L\<leftarrow>[0..<d * k]. data X ! (?I * (d * k) + L) * data Y ! (L * (d * n) + ?J))
        = (\<Sum>L\<leftarrow>[0..<d * k]. fa (?I div m) (L div k) (?I mod m) (L mod k)
                                * fb (L div k) (?J div n) (L mod k) (?J mod n))"
      by (rule sum_list_upt_cong) (simp only: X(2) [OF I] Y(2) [OF _ J])
    also have "\<dots> = (\<Sum>q\<leftarrow>[0..<d]. \<Sum>l\<leftarrow>[0..<k]. fa (?I div m) q (?I mod m) l * fb q (?J div n) l (?J mod n))"
      by (rule sum_list_blocks [where F = "\<lambda>q l. fa (?I div m) q (?I mod m) l * fb q (?J div n) l (?J mod n)"])
    also have "\<dots> = data (C (?I div m, ?J div n)) ! ((?I mod m) * n + ?J mod n)"
      by (rule tiles [OF Ib(1) Jb(1) Ib(2) Jb(2), symmetric])
    finally show ?thesis .
  qed
  then have "map (\<lambda>p. \<Sum>L\<leftarrow>[0..<d * k]. data X ! ((p div (d * n)) * (d * k) + L) * data Y ! (L * (d * n) + p mod (d * n)))
               [0..<d * m * (d * n)]
           = map (\<lambda>p. data (C ((p div (d * n)) div m, (p mod (d * n)) div n))
                   ! (((p div (d * n)) mod m) * n + (p mod (d * n)) mod n)) [0..<d * m * (d * n)]"
    by (intro map_cong refl) simp
  then show ?thesis
    by (simp only: matmul_2d [OF X(1) Y(1)] assemble_def)
qed

lemma AB_assembled:
  fixes A B :: "nat \<times> nat \<Rightarrow> 'a::semiring_0 tensor"
  assumes "\<And>r c i j. r < d \<Longrightarrow> c < d \<Longrightarrow> i < m \<Longrightarrow> j < n \<Longrightarrow>
      data (C (r, c)) ! (i * n + j)
        = (\<Sum>q\<leftarrow>[0..<d]. \<Sum>l\<leftarrow>[0..<k]. data (A (r, q)) ! (i * k + l) * data (B (q, c)) ! (l * n + j))"
  shows "matmul (assemble d m k A) (assemble d k n B) = Inr (assemble d m n C)"
proof (rule assembled_product [where fa = "\<lambda>r q i l. data (A (r, q)) ! (i * k + l)"
      and fb = "\<lambda>q c l j. data (B (q, c)) ! (l * n + j)" and k = k])
  show "data (C (r, c)) ! (i * n + j)
        = (\<Sum>q\<leftarrow>[0..<d]. \<Sum>l\<leftarrow>[0..<k]. data (A (r, q)) ! (i * k + l) * data (B (q, c)) ! (l * n + j))"
    if "r < d" "c < d" "i < m" "j < n" for r c i j
    by (rule assms [OF that])
  show "shape (assemble d m k A) = [d * m, d * k]" by (rule shape_assemble)
  show "shape (assemble d k n B) = [d * k, d * n]" by (rule shape_assemble)
  show "data (assemble d m k A) ! (I * (d * k) + L)
          = data (A (I div m, L div k)) ! ((I mod m) * k + L mod k)"
    if "I < d * m" "L < d * k" for I L
    by (rule assemble_entry [OF that])
  show "data (assemble d k n B) ! (L * (d * n) + J)
          = data (B (L div k, J div n)) ! ((L mod k) * n + J mod n)"
    if "L < d * k" "J < d * n" for L J
    by (rule assemble_entry [OF that])
qed

lemma ABT_assembled:
  fixes A B :: "nat \<times> nat \<Rightarrow> 'a::semiring_0 tensor"
  assumes "\<And>r c i j. r < d \<Longrightarrow> c < d \<Longrightarrow> i < m \<Longrightarrow> j < n \<Longrightarrow>
      data (C (r, c)) ! (i * n + j)
        = (\<Sum>q\<leftarrow>[0..<d]. \<Sum>l\<leftarrow>[0..<k]. data (A (r, q)) ! (i * k + l) * data (B (c, q)) ! (j * k + l))"
  shows "\<exists>BT. transpose01 (assemble d n k B) = Inr BT
              \<and> matmul (assemble d m k A) BT = Inr (assemble d m n C)"
proof -
  obtain BT where BT: "transpose01 (assemble d n k B) = Inr BT" "shape BT = [d * k, d * n]"
    "\<And>L J. L < d * k \<Longrightarrow> J < d * n \<Longrightarrow>
       data BT ! (L * (d * n) + J) = data (assemble d n k B) ! (J * (d * k) + L)"
    by (rule transpose01_entries [OF shape_assemble [of d n k B]]) blast
  have "matmul (assemble d m k A) BT = Inr (assemble d m n C)"
  proof (rule assembled_product [where fa = "\<lambda>r q i l. data (A (r, q)) ! (i * k + l)"
      and fb = "\<lambda>q c l j. data (B (c, q)) ! (j * k + l)" and k = k])
    show "data (C (r, c)) ! (i * n + j)
        = (\<Sum>q\<leftarrow>[0..<d]. \<Sum>l\<leftarrow>[0..<k]. data (A (r, q)) ! (i * k + l) * data (B (c, q)) ! (j * k + l))"
      if "r < d" "c < d" "i < m" "j < n" for r c i j
      by (rule assms [OF that])
    show "shape (assemble d m k A) = [d * m, d * k]" by (rule shape_assemble)
    show "shape BT = [d * k, d * n]" by (rule BT(2))
    show "data (assemble d m k A) ! (I * (d * k) + L)
          = data (A (I div m, L div k)) ! ((I mod m) * k + L mod k)"
      if "I < d * m" "L < d * k" for I L
      by (rule assemble_entry [OF that])
    show "data BT ! (L * (d * n) + J)
          = data (B (J div n, L div k)) ! ((J mod n) * k + L mod k)"
      if "L < d * k" "J < d * n" for L J
      by (simp only: BT(3) [OF that] assemble_entry [OF that(2,1)])
  qed
  with BT(1) show ?thesis by blast
qed

lemma ATB_assembled:
  fixes A B :: "nat \<times> nat \<Rightarrow> 'a::semiring_0 tensor"
  assumes "\<And>r c i j. r < d \<Longrightarrow> c < d \<Longrightarrow> i < m \<Longrightarrow> j < n \<Longrightarrow>
      data (C (r, c)) ! (i * n + j)
        = (\<Sum>q\<leftarrow>[0..<d]. \<Sum>l\<leftarrow>[0..<k]. data (A (q, r)) ! (l * m + i) * data (B (q, c)) ! (l * n + j))"
  shows "\<exists>AT. transpose01 (assemble d k m A) = Inr AT
              \<and> matmul AT (assemble d k n B) = Inr (assemble d m n C)"
proof -
  obtain AT where AT: "transpose01 (assemble d k m A) = Inr AT" "shape AT = [d * m, d * k]"
    "\<And>I L. I < d * m \<Longrightarrow> L < d * k \<Longrightarrow>
       data AT ! (I * (d * k) + L) = data (assemble d k m A) ! (L * (d * m) + I)"
    by (rule transpose01_entries [OF shape_assemble [of d k m A]]) blast
  have "matmul AT (assemble d k n B) = Inr (assemble d m n C)"
  proof (rule assembled_product [where fa = "\<lambda>r q i l. data (A (q, r)) ! (l * m + i)"
      and fb = "\<lambda>q c l j. data (B (q, c)) ! (l * n + j)" and k = k])
    show "data (C (r, c)) ! (i * n + j)
        = (\<Sum>q\<leftarrow>[0..<d]. \<Sum>l\<leftarrow>[0..<k]. data (A (q, r)) ! (l * m + i) * data (B (q, c)) ! (l * n + j))"
      if "r < d" "c < d" "i < m" "j < n" for r c i j
      by (rule assms [OF that])
    show "shape AT = [d * m, d * k]" by (rule AT(2))
    show "shape (assemble d k n B) = [d * k, d * n]" by (rule shape_assemble)
    show "data AT ! (I * (d * k) + L)
          = data (A (L div k, I div m)) ! ((L mod k) * m + I mod m)"
      if "I < d * m" "L < d * k" for I L
      by (simp only: AT(3) [OF that] assemble_entry [OF that(2,1)])
    show "data (assemble d k n B) ! (L * (d * n) + J)
          = data (B (L div k, J div n)) ! ((L mod k) * n + J mod n)"
      if "L < d * k" "J < d * n" for L J
      by (rule assemble_entry [OF that])
  qed
  with AT(1) show ?thesis by blast
qed

subsection \<open>The partial products of the two broadcast-reduce loops\<close>

lemma global_rank_same_row:
  "global_rank G (r, c) = global_rank G (r, j) \<longleftrightarrow> c = j"
  by (simp add: global_rank_def)

lemma global_rank_same_col:
  "0 < grid_tesseract_dim G \<Longrightarrow> global_rank G (r, c) = global_rank G (j, c) \<longleftrightarrow> r = j"
  by (simp add: global_rank_def)

lemma ABT_partial_entries:
  fixes A B :: "nat \<times> nat \<Rightarrow> 'a::semiring_0 tensor"
  assumes "shape (A (r, q)) = [m, k]" "shape (B (i, q)) = [n, k]"
  obtains BT where "transpose01 (B (i, q)) = Inr BT"
    and "matmul (A (r, q)) BT = Inr (ABT_partial A B i (r, q))"
    and "shape (ABT_partial A B i (r, q)) = [m, n]"
    and "\<And>a b. a < m \<Longrightarrow> b < n \<Longrightarrow>
           data (ABT_partial A B i (r, q)) ! (a * n + b)
             = (\<Sum>l\<leftarrow>[0..<k]. data (A (r, q)) ! (a * k + l) * data (B (i, q)) ! (b * k + l))"
proof -
  obtain T where T: "transpose01 (B (i, q)) = Inr T" "shape T = [k, n]"
    "\<And>l b. l < k \<Longrightarrow> b < n \<Longrightarrow> data T ! (l * n + b) = data (B (i, q)) ! (b * k + l)"
    by (rule transpose01_entries [OF assms(2)]) blast
  obtain P where P: "matmul (A (r, q)) T = Inr P" "shape P = [m, n]"
    "\<And>a b. a < m \<Longrightarrow> b < n \<Longrightarrow>
       data P ! (a * n + b) = (\<Sum>l\<leftarrow>[0..<k]. data (A (r, q)) ! (a * k + l) * data T ! (l * n + b))"
    by (rule matmul_entries [OF assms(1) T(2)]) blast
  have eq: "ABT_partial A B i (r, q) = P"
    by (simp add: ABT_partial_def T(1) P(1))
  show thesis
  proof (rule that [of T])
    show "transpose01 (B (i, q)) = Inr T" by (rule T(1))
    show "matmul (A (r, q)) T = Inr (ABT_partial A B i (r, q))"
      by (simp add: eq P(1))
    show "shape (ABT_partial A B i (r, q)) = [m, n]"
      by (simp add: eq P(2))
    fix a b assume ab: "a < m" "b < n"
    have "data P ! (a * n + b) = (\<Sum>l\<leftarrow>[0..<k]. data (A (r, q)) ! (a * k + l) * data T ! (l * n + b))"
      by (rule P(3) [OF ab])
    also have "\<dots> = (\<Sum>l\<leftarrow>[0..<k]. data (A (r, q)) ! (a * k + l) * data (B (i, q)) ! (b * k + l))"
      by (rule sum_list_upt_cong) (simp only: T(3) [OF _ ab(2)])
    finally show "data (ABT_partial A B i (r, q)) ! (a * n + b)
             = (\<Sum>l\<leftarrow>[0..<k]. data (A (r, q)) ! (a * k + l) * data (B (i, q)) ! (b * k + l))"
      by (simp only: eq)
  qed
qed

lemma ATB_partial_entries:
  fixes A B :: "nat \<times> nat \<Rightarrow> 'a::semiring_0 tensor"
  assumes "shape (A (q, i)) = [k, m]" "shape (B (q, c)) = [k, n]"
  obtains AT where "transpose01 (A (q, i)) = Inr AT"
    and "matmul AT (B (q, c)) = Inr (ATB_partial A B i (q, c))"
    and "shape (ATB_partial A B i (q, c)) = [m, n]"
    and "\<And>a b. a < m \<Longrightarrow> b < n \<Longrightarrow>
           data (ATB_partial A B i (q, c)) ! (a * n + b)
             = (\<Sum>l\<leftarrow>[0..<k]. data (A (q, i)) ! (l * m + a) * data (B (q, c)) ! (l * n + b))"
proof -
  obtain T where T: "transpose01 (A (q, i)) = Inr T" "shape T = [m, k]"
    "\<And>a l. a < m \<Longrightarrow> l < k \<Longrightarrow> data T ! (a * k + l) = data (A (q, i)) ! (l * m + a)"
    by (rule transpose01_entries [OF assms(1)]) blast
  obtain P where P: "matmul T (B (q, c)) = Inr P" "shape P = [m, n]"
    "\<And>a b. a < m \<Longrightarrow> b < n \<Longrightarrow>
       data P ! (a * n + b) = (\<Sum>l\<leftarrow>[0..<k]. data T ! (a * k + l) * data (B (q, c)) ! (l * n + b))"
    by (rule matmul_entries [OF T(2) assms(2)]) blast
  have eq: "ATB_partial A B i (q, c) = P"
    by (simp add: ATB_partial_def T(1) P(1))
  show thesis
  proof (rule that [of T])
    show "transpose01 (A (q, i)) = Inr T" by (rule T(1))
    show "matmul T (B (q, c)) = Inr (ATB_partial A B i (q, c))"
      by (simp add: eq P(1))
    show "shape (ATB_partial A B i (q, c)) = [m, n]"
      by (simp add: eq P(2))
    fix a b assume ab: "a < m" "b < n"
    have "data P ! (a * n + b) = (\<Sum>l\<leftarrow>[0..<k]. data T ! (a * k + l) * data (B (q, c)) ! (l * n + b))"
      by (rule P(3) [OF ab])
    also have "\<dots> = (\<Sum>l\<leftarrow>[0..<k]. data (A (q, i)) ! (l * m + a) * data (B (q, c)) ! (l * n + b))"
      by (rule sum_list_upt_cong) (simp only: T(3) [OF ab(1)])
    finally show "data (ATB_partial A B i (q, c)) ! (a * n + b)
             = (\<Sum>l\<leftarrow>[0..<k]. data (A (q, i)) ! (l * m + a) * data (B (q, c)) ! (l * n + b))"
      by (simp only: eq)
  qed
qed

subsection \<open>\<^verbatim>\<open>Matmul_ABT_2p5D.forward\<close> on the grid: a broadcast and a reduce per iteration\<close>

lemma ABT_iteration:
  fixes A B :: "nat \<times> nat \<Rightarrow> 'a::semiring_0 tensor"
  assumes shA: "\<And>r c. r < grid_tesseract_dim G \<Longrightarrow> c < grid_tesseract_dim G \<Longrightarrow> shape (A (r, c)) = [m, k]"
    and shB: "\<And>r c. r < grid_tesseract_dim G \<Longrightarrow> c < grid_tesseract_dim G \<Longrightarrow> shape (B (r, c)) = [n, k]"
    and j: "j < grid_tesseract_dim G"
    and P: "\<And>r c. r < grid_tesseract_dim G \<Longrightarrow> c < grid_tesseract_dim G \<Longrightarrow>
              P (r, c) = in_loop ABT_loop G A B K j C (r, c)"
    and rc: "r < grid_tesseract_dim G" "c < grid_tesseract_dim G"
  shows "step G residue (step G residue P) (r, c) =
           in_loop ABT_loop G A B K (Suc j)
             (\<lambda>(r, c). if c = j
                then tensor_sum (map (\<lambda>q. ABT_partial A B j (r, q)) [0..<grid_tesseract_dim G])
                else C (r, c)) (r, c)"
proof -
  let ?d = "grid_tesseract_dim G"
  let ?L = "\<lambda>r c. ABT_loop (int ?d) (int r) (int c) (grid_dep_rank G)
              PARALLEL_2P5D_ROW PARALLEL_2P5D_COL
              (grid_data_parallel_rank G) (grid_pipeline_parallel_rank G)
              (grid_pipeline_parallel_size G) (grid_tensor_parallel_size G)
              (A (r, c)) (B (r, c)) (map int [Suc j..<?d])"
  let ?k2 = "\<lambda>r c X. seq (?L r c (if j = c then X else C (r, c))) (K (r, c))"
  let ?k1 = "\<lambda>r c Bt.
       seq (attempt (transpose01 Bt) (\<lambda>BT.
            attempt (matmul (A (r, c)) BT) (\<lambda>Ct.
            Reduce Ct (global_rank G (r, j)) PARALLEL_2P5D_ROW (\<lambda>Ct.
            ?L r c (if j = c then Ct else C (r, c)))))) (K (r, c))"
  have P0: "P (r', c') = Broadcast (B (r', c')) (global_rank G (j, c')) PARALLEL_2P5D_COL (?k1 r' c')"
    if "r' < ?d" "c' < ?d" for r' c'
    by (simp add: P [OF that] in_loop_def upt_conv_Cons [OF j] global_rank_def)
  have 1: "step G residue P (r', c') = ?k1 r' c' (B (j, c'))"
    if r': "r' < ?d" "c' < ?d" for r' c'
  proof (rule step_Broadcast [where T = "\<lambda>q. B (q, c')" and j = j and t = "B (r', c')"
        and g = PARALLEL_2P5D_COL and src = "global_rank G (j, c')" and k = "?k1 r' c'"])
    show "P (r', c') = Broadcast (B (r', c')) (global_rank G (j, c')) PARALLEL_2P5D_COL (?k1 r' c')"
      by (rule P0 [OF r'])
    show "\<exists>k'. P (member PARALLEL_2P5D_COL (r', c') q)
            = Broadcast (B (q, c')) (global_rank G (j, c')) PARALLEL_2P5D_COL k'"
      if "q < ?d" for q
      using P0 [OF that r'(2)] by (simp only: member_COL) blast
    show "j < ?d" by (rule j)
    show "global_rank G (member PARALLEL_2P5D_COL (r', c') j) = global_rank G (j, c')"
      by (simp only: member_COL)
    show "snd (r', c') < ?d" using r'(2) by simp
    show "shape (B (q, c')) = shape (B (r', c'))" if "q < ?d" for q
      using shB [OF that r'(2)] shB [OF r'] by simp
  qed
  have P1: "step G residue P (r', c')
      = Reduce (ABT_partial A B j (r', c')) (global_rank G (r', j)) PARALLEL_2P5D_ROW (?k2 r' c')"
    if r': "r' < ?d" "c' < ?d" for r' c'
  proof -
    obtain BT where "transpose01 (B (j, c')) = Inr BT"
      "matmul (A (r', c')) BT = Inr (ABT_partial A B j (r', c'))"
      by (rule ABT_partial_entries [where A = A and B = B and r = r' and q = c' and i = j,
            OF shA [OF r'] shB [OF j r'(2)]]) blast
    then show ?thesis
      by (simp add: 1 [OF r'])
  qed
  have 2: "step G residue (step G residue P) (r, c) =
      ?k2 r c (if global_rank G (r, c) = global_rank G (r, j)
               then tensor_sum (map (\<lambda>q. ABT_partial A B j (r, q)) [0..<?d])
               else Tensor (shape (ABT_partial A B j (r, c)))
                      (residue (r, c) (map (\<lambda>q. ABT_partial A B j (r, q)) [0..<?d])))"
  proof (rule step_Reduce [where T = "\<lambda>q. ABT_partial A B j (r, q)" and j = j
        and t = "ABT_partial A B j (r, c)" and g = PARALLEL_2P5D_ROW
        and dst = "global_rank G (r, j)" and k = "?k2 r c"])
    show "step G residue P (r, c)
      = Reduce (ABT_partial A B j (r, c)) (global_rank G (r, j)) PARALLEL_2P5D_ROW (?k2 r c)"
      by (rule P1 [OF rc])
    show "\<exists>k'. step G residue P (member PARALLEL_2P5D_ROW (r, c) q)
            = Reduce (ABT_partial A B j (r, q)) (global_rank G (r, j)) PARALLEL_2P5D_ROW k'"
      if "q < ?d" for q
      using P1 [OF rc(1) that] by (simp only: member_ROW) blast
    show "j < ?d" by (rule j)
    show "global_rank G (member PARALLEL_2P5D_ROW (r, c) j) = global_rank G (r, j)"
      by (simp only: member_ROW)
    show "shape (ABT_partial A B j (r, q)) = shape (ABT_partial A B j (r, c))" if "q < ?d" for q
    proof -
      have "shape (ABT_partial A B j (r, q')) = [m, n]" if "q' < ?d" for q'
        by (rule ABT_partial_entries [where A = A and B = B and r = r and q = q' and i = j,
            OF shA [OF rc(1) that] shB [OF j that]])
      from this [OF that] this [OF rc(2)] show ?thesis by simp
    qed
  qed
  show ?thesis
    by (simp only: 2 global_rank_same_row) (auto simp: in_loop_def)
qed

lemma ABT_rounds:
  fixes A B :: "nat \<times> nat \<Rightarrow> 'a::semiring_0 tensor"
  assumes shA: "\<And>r c. r < grid_tesseract_dim G \<Longrightarrow> c < grid_tesseract_dim G \<Longrightarrow> shape (A (r, c)) = [m, k]"
    and shB: "\<And>r c. r < grid_tesseract_dim G \<Longrightarrow> c < grid_tesseract_dim G \<Longrightarrow> shape (B (r, c)) = [n, k]"
    and P: "\<And>r c. r < grid_tesseract_dim G \<Longrightarrow> c < grid_tesseract_dim G \<Longrightarrow>
              P (r, c) = in_loop ABT_loop G A B K 0 C (r, c)"
    and j: "j \<le> grid_tesseract_dim G"
    and rc: "r < grid_tesseract_dim G" "c < grid_tesseract_dim G"
  shows "run G residue (2 * j) P (r, c) =
           in_loop ABT_loop G A B K j
             (\<lambda>(r, c). if c < j
                then tensor_sum (map (\<lambda>q. ABT_partial A B c (r, q)) [0..<grid_tesseract_dim G])
                else C (r, c)) (r, c)"
  using j rc
proof (induction j arbitrary: r c)
  case 0
  then show ?case
    by (simp add: P in_loop_def)
next
  case (Suc j)
  let ?d = "grid_tesseract_dim G"
  let ?C = "\<lambda>(r, c). if c < j
                then tensor_sum (map (\<lambda>q. ABT_partial A B c (r, q)) [0..<?d])
                else C (r, c)"
  from Suc.prems have j: "j < ?d" "j \<le> ?d" by simp_all
  have "run G residue (2 * Suc j) P (r, c)
      = step G residue (step G residue (run G residue (2 * j) P)) (r, c)"
    using run_add [of G residue "2 * j" 2 P] by (simp only: run_2 mult_Suc_right add.commute [of 2])
  also have "\<dots> = in_loop ABT_loop G A B K (Suc j)
             (\<lambda>(r, c). if c = j
                then tensor_sum (map (\<lambda>q. ABT_partial A B j (r, q)) [0..<?d])
                else ?C (r, c)) (r, c)"
  proof (rule ABT_iteration [where m = m and k = k and n = n])
    show "shape (A (r, c)) = [m, k]" if "r < ?d" "c < ?d" for r c by (rule shA [OF that])
    show "shape (B (r, c)) = [n, k]" if "r < ?d" "c < ?d" for r c by (rule shB [OF that])
    show "j < ?d" by (rule j)
    show "run G residue (2 * j) P (r, c) = in_loop ABT_loop G A B K j ?C (r, c)"
      if "r < ?d" "c < ?d" for r c
      by (rule Suc.IH [OF j(2) that])
    show "r < ?d" "c < ?d" by (rule Suc.prems)+
  qed
  also have "\<dots> = in_loop ABT_loop G A B K (Suc j)
             (\<lambda>(r, c). if c < Suc j
                then tensor_sum (map (\<lambda>q. ABT_partial A B c (r, q)) [0..<?d])
                else C (r, c)) (r, c)"
    by (auto simp: in_loop_def less_Suc_eq)
  finally show ?case .
qed

lemma ABT_forward_form:
  assumes "shape A = [m, k]" "shape B = [n, k]" "0 < k"
  shows "Matmul_ABT_2p5D_forward env ctx A B d out_shape r c dep rm cm dpr ppr pps tps =
           seq (ABT_loop d r c dep rm cm dpr ppr pps tps A B (py_range d)
                  (empty (uninitialized env) [m, n])) (\<lambda>C.
           attempt (reshape C out_shape) (\<lambda>out.
           Return (out, save_ctx ctx (A, B) d r c dep rm cm [m, k] [n, k] dpr ppr pps tps)))"
  using assms
  by (simp add: Matmul_ABT_2p5D_forward_def py_index_last py_index_first reshape_2d)

lemma ABT_on_grid:
  fixes A B :: "nat \<times> nat \<Rightarrow> 'a::semiring_0 tensor"
  assumes shA: "\<And>r c. r < grid_tesseract_dim G \<Longrightarrow> c < grid_tesseract_dim G \<Longrightarrow> shape (A (r, c)) = [m, k]"
    and shB: "\<And>r c. r < grid_tesseract_dim G \<Longrightarrow> c < grid_tesseract_dim G \<Longrightarrow> shape (B (r, c)) = [n, k]"
    and pos: "0 < k"
    and rc: "r < grid_tesseract_dim G" "c < grid_tesseract_dim G"
  obtains C cx where
    "run G residue (2 * grid_tesseract_dim G)
       (matmul_on_grid Matmul_ABT_2p5D_forward G junk ctx A B [int m, int n]) (r, c)
       = Return (C, cx)"
    "shape C = [m, n]"
    "\<And>i j. i < m \<Longrightarrow> j < n \<Longrightarrow>
       data C ! (i * n + j) =
         (\<Sum>q\<leftarrow>[0..<grid_tesseract_dim G]. \<Sum>l\<leftarrow>[0..<k].
            data (A (r, q)) ! (i * k + l) * data (B (c, q)) ! (j * k + l))"
proof -
  let ?d = "grid_tesseract_dim G"
  let ?P = "matmul_on_grid Matmul_ABT_2p5D_forward G junk ctx A B [int m, int n]"
  let ?cx = "\<lambda>(r, c). save_ctx ctx (A (r, c), B (r, c)) (int ?d) (int r) (int c) (grid_dep_rank G)
               PARALLEL_2P5D_ROW PARALLEL_2P5D_COL [m, k] [n, k]
               (grid_data_parallel_rank G) (grid_pipeline_parallel_rank G)
               (grid_pipeline_parallel_size G) (grid_tensor_parallel_size G)"
  let ?K = "\<lambda>rc C. attempt (reshape C [int m, int n]) (\<lambda>out. Return (out, ?cx rc))"
  let ?E = "\<lambda>rc :: nat \<times> nat. empty junk [m, n]"
  let ?C = "tensor_sum (map (\<lambda>q. ABT_partial A B c (r, q)) [0..<?d])"
  have P0: "?P (r', c') = in_loop ABT_loop G A B ?K 0 ?E (r', c')" if "r' < ?d" "c' < ?d" for r' c'
    by (simp add: matmul_on_grid_def rank_env_def in_loop_def py_range_def
        ABT_forward_form [OF shA [OF that] shB [OF that] pos])
  have part: "shape (ABT_partial A B c (r, q)) = [m, n]"
     "\<And>a b. a < m \<Longrightarrow> b < n \<Longrightarrow>
           data (ABT_partial A B c (r, q)) ! (a * n + b)
             = (\<Sum>l\<leftarrow>[0..<k]. data (A (r, q)) ! (a * k + l) * data (B (c, q)) ! (b * k + l))"
    if "q < ?d" for q
    by (rule ABT_partial_entries [where A = A and B = B and r = r and q = q and i = c,
            OF shA [OF rc(1) that] shB [OF rc(2) that]]; blast)+
  have dpos: "0 < ?d" using rc by simp
  note sum = tensor_sum_entries [where T = "\<lambda>q. ABT_partial A B c (r, q)" and sh = "[m, n]",
      OF dpos part(1)]
  have "run G residue (2 * ?d) ?P (r, c) =
           in_loop ABT_loop G A B ?K ?d
             (\<lambda>(r, c). if c < ?d
                then tensor_sum (map (\<lambda>q. ABT_partial A B c (r, q)) [0..<?d])
                else ?E (r, c)) (r, c)"
  proof (rule ABT_rounds [where m = m and k = k and n = n])
    show "shape (A (r, c)) = [m, k]" if "r < ?d" "c < ?d" for r c by (rule shA [OF that])
    show "shape (B (r, c)) = [n, k]" if "r < ?d" "c < ?d" for r c by (rule shB [OF that])
    show "?P (r, c) = in_loop ABT_loop G A B ?K 0 ?E (r, c)" if "r < ?d" "c < ?d" for r c
      by (rule P0 [OF that])
    show "?d \<le> ?d" by simp
    show "r < ?d" "c < ?d" by (rule rc)+
  qed
  also have "\<dots> = Return (?C, ?cx (r, c))"
    using rc(2) by (simp add: in_loop_def reshape_out [OF sum(1)])
  finally have run: "run G residue (2 * ?d) ?P (r, c) = Return (?C, ?cx (r, c))" .
  show thesis
  proof (rule that [of ?C "?cx (r, c)"])
    show "run G residue (2 * ?d) ?P (r, c) = Return (?C, ?cx (r, c))" by (rule run)
    show "shape ?C = [m, n]" by (rule sum(1))
    fix i j assume ij: "i < m" "j < n"
    then have "i * n + j < m * n" by (rule index_bound)
    then have "data ?C ! (i * n + j) = (\<Sum>q\<leftarrow>[0..<?d]. data (ABT_partial A B c (r, q)) ! (i * n + j))"
      using sum(3) [of "i * n + j"] by simp
    also have "\<dots> = (\<Sum>q\<leftarrow>[0..<?d]. \<Sum>l\<leftarrow>[0..<k].
            data (A (r, q)) ! (i * k + l) * data (B (c, q)) ! (j * k + l))"
      by (rule sum_list_upt_cong) (rule part(2) [OF _ ij])
    finally show "data ?C ! (i * n + j) = (\<Sum>q\<leftarrow>[0..<?d]. \<Sum>l\<leftarrow>[0..<k].
            data (A (r, q)) ! (i * k + l) * data (B (c, q)) ! (j * k + l))" .
  qed
qed

subsection \<open>\<^verbatim>\<open>Matmul_ATB_2p5D.forward\<close> on the grid\<close>

lemma ATB_iteration:
  fixes A B :: "nat \<times> nat \<Rightarrow> 'a::semiring_0 tensor"
  assumes shA: "\<And>r c. r < grid_tesseract_dim G \<Longrightarrow> c < grid_tesseract_dim G \<Longrightarrow> shape (A (r, c)) = [k, m]"
    and shB: "\<And>r c. r < grid_tesseract_dim G \<Longrightarrow> c < grid_tesseract_dim G \<Longrightarrow> shape (B (r, c)) = [k, n]"
    and j: "j < grid_tesseract_dim G"
    and P: "\<And>r c. r < grid_tesseract_dim G \<Longrightarrow> c < grid_tesseract_dim G \<Longrightarrow>
              P (r, c) = in_loop ATB_loop G A B K j C (r, c)"
    and rc: "r < grid_tesseract_dim G" "c < grid_tesseract_dim G"
  shows "step G residue (step G residue P) (r, c) =
           in_loop ATB_loop G A B K (Suc j)
             (\<lambda>(r, c). if r = j
                then tensor_sum (map (\<lambda>q. ATB_partial A B j (q, c)) [0..<grid_tesseract_dim G])
                else C (r, c)) (r, c)"
proof -
  let ?d = "grid_tesseract_dim G"
  let ?L = "\<lambda>r c. ATB_loop (int ?d) (int r) (int c) (grid_dep_rank G)
              PARALLEL_2P5D_ROW PARALLEL_2P5D_COL
              (grid_data_parallel_rank G) (grid_pipeline_parallel_rank G)
              (grid_pipeline_parallel_size G) (grid_tensor_parallel_size G)
              (A (r, c)) (B (r, c)) (map int [Suc j..<?d])"
  let ?k2 = "\<lambda>r c X. seq (?L r c (if j = r then X else C (r, c))) (K (r, c))"
  let ?k1 = "\<lambda>r c At.
       seq (attempt (transpose01 At) (\<lambda>AT.
            attempt (matmul AT (B (r, c))) (\<lambda>Ct.
            Reduce Ct (global_rank G (j, c)) PARALLEL_2P5D_COL (\<lambda>Ct.
            ?L r c (if j = r then Ct else C (r, c)))))) (K (r, c))"
  have dpos: "0 < ?d" using rc by simp
  have P0: "P (r', c') = Broadcast (A (r', c')) (global_rank G (r', j)) PARALLEL_2P5D_ROW (?k1 r' c')"
    if "r' < ?d" "c' < ?d" for r' c'
    by (simp add: P [OF that] in_loop_def upt_conv_Cons [OF j] global_rank_def)
  have 1: "step G residue P (r', c') = ?k1 r' c' (A (r', j))"
    if r': "r' < ?d" "c' < ?d" for r' c'
  proof (rule step_Broadcast [where T = "\<lambda>q. A (r', q)" and j = j and t = "A (r', c')"
        and g = PARALLEL_2P5D_ROW and src = "global_rank G (r', j)" and k = "?k1 r' c'"])
    show "P (r', c') = Broadcast (A (r', c')) (global_rank G (r', j)) PARALLEL_2P5D_ROW (?k1 r' c')"
      by (rule P0 [OF r'])
    show "\<exists>k'. P (member PARALLEL_2P5D_ROW (r', c') q)
            = Broadcast (A (r', q)) (global_rank G (r', j)) PARALLEL_2P5D_ROW k'"
      if "q < ?d" for q
      using P0 [OF r'(1) that] by (simp only: member_ROW) blast
    show "j < ?d" by (rule j)
    show "global_rank G (member PARALLEL_2P5D_ROW (r', c') j) = global_rank G (r', j)"
      by (simp only: member_ROW)
    show "snd (r', c') < ?d" using r'(2) by simp
    show "shape (A (r', q)) = shape (A (r', c'))" if "q < ?d" for q
      using shA [OF r'(1) that] shA [OF r'] by simp
  qed
  have P1: "step G residue P (r', c')
      = Reduce (ATB_partial A B j (r', c')) (global_rank G (j, c')) PARALLEL_2P5D_COL (?k2 r' c')"
    if r': "r' < ?d" "c' < ?d" for r' c'
  proof -
    obtain AT where "transpose01 (A (r', j)) = Inr AT"
      "matmul AT (B (r', c')) = Inr (ATB_partial A B j (r', c'))"
      by (rule ATB_partial_entries [where A = A and B = B and q = r' and c = c' and i = j,
            OF shA [OF r'(1) j] shB [OF r']]) blast
    then show ?thesis
      by (simp add: 1 [OF r'])
  qed
  have 2: "step G residue (step G residue P) (r, c) =
      ?k2 r c (if global_rank G (r, c) = global_rank G (j, c)
               then tensor_sum (map (\<lambda>q. ATB_partial A B j (q, c)) [0..<?d])
               else Tensor (shape (ATB_partial A B j (r, c)))
                      (residue (r, c) (map (\<lambda>q. ATB_partial A B j (q, c)) [0..<?d])))"
  proof (rule step_Reduce [where T = "\<lambda>q. ATB_partial A B j (q, c)" and j = j
        and t = "ATB_partial A B j (r, c)" and g = PARALLEL_2P5D_COL
        and dst = "global_rank G (j, c)" and k = "?k2 r c"])
    show "step G residue P (r, c)
      = Reduce (ATB_partial A B j (r, c)) (global_rank G (j, c)) PARALLEL_2P5D_COL (?k2 r c)"
      by (rule P1 [OF rc])
    show "\<exists>k'. step G residue P (member PARALLEL_2P5D_COL (r, c) q)
            = Reduce (ATB_partial A B j (q, c)) (global_rank G (j, c)) PARALLEL_2P5D_COL k'"
      if "q < ?d" for q
      using P1 [OF that rc(2)] by (simp only: member_COL) blast
    show "j < ?d" by (rule j)
    show "global_rank G (member PARALLEL_2P5D_COL (r, c) j) = global_rank G (j, c)"
      by (simp only: member_COL)
    show "shape (ATB_partial A B j (q, c)) = shape (ATB_partial A B j (r, c))" if "q < ?d" for q
    proof -
      have "shape (ATB_partial A B j (q', c)) = [m, n]" if "q' < ?d" for q'
        by (rule ATB_partial_entries [where A = A and B = B and q = q' and c = c and i = j,
            OF shA [OF that j] shB [OF that rc(2)]])
      from this [OF that] this [OF rc(1)] show ?thesis by simp
    qed
  qed
  show ?thesis
    by (simp only: 2 global_rank_same_col [OF dpos]) (auto simp: in_loop_def)
qed

lemma ATB_rounds:
  fixes A B :: "nat \<times> nat \<Rightarrow> 'a::semiring_0 tensor"
  assumes shA: "\<And>r c. r < grid_tesseract_dim G \<Longrightarrow> c < grid_tesseract_dim G \<Longrightarrow> shape (A (r, c)) = [k, m]"
    and shB: "\<And>r c. r < grid_tesseract_dim G \<Longrightarrow> c < grid_tesseract_dim G \<Longrightarrow> shape (B (r, c)) = [k, n]"
    and P: "\<And>r c. r < grid_tesseract_dim G \<Longrightarrow> c < grid_tesseract_dim G \<Longrightarrow>
              P (r, c) = in_loop ATB_loop G A B K 0 C (r, c)"
    and j: "j \<le> grid_tesseract_dim G"
    and rc: "r < grid_tesseract_dim G" "c < grid_tesseract_dim G"
  shows "run G residue (2 * j) P (r, c) =
           in_loop ATB_loop G A B K j
             (\<lambda>(r, c). if r < j
                then tensor_sum (map (\<lambda>q. ATB_partial A B r (q, c)) [0..<grid_tesseract_dim G])
                else C (r, c)) (r, c)"
  using j rc
proof (induction j arbitrary: r c)
  case 0
  then show ?case
    by (simp add: P in_loop_def)
next
  case (Suc j)
  let ?d = "grid_tesseract_dim G"
  let ?C = "\<lambda>(r, c). if r < j
                then tensor_sum (map (\<lambda>q. ATB_partial A B r (q, c)) [0..<?d])
                else C (r, c)"
  from Suc.prems have j: "j < ?d" "j \<le> ?d" by simp_all
  have "run G residue (2 * Suc j) P (r, c)
      = step G residue (step G residue (run G residue (2 * j) P)) (r, c)"
    using run_add [of G residue "2 * j" 2 P] by (simp only: run_2 mult_Suc_right add.commute [of 2])
  also have "\<dots> = in_loop ATB_loop G A B K (Suc j)
             (\<lambda>(r, c). if r = j
                then tensor_sum (map (\<lambda>q. ATB_partial A B j (q, c)) [0..<?d])
                else ?C (r, c)) (r, c)"
  proof (rule ATB_iteration [where m = m and k = k and n = n])
    show "shape (A (r, c)) = [k, m]" if "r < ?d" "c < ?d" for r c by (rule shA [OF that])
    show "shape (B (r, c)) = [k, n]" if "r < ?d" "c < ?d" for r c by (rule shB [OF that])
    show "j < ?d" by (rule j)
    show "run G residue (2 * j) P (r, c) = in_loop ATB_loop G A B K j ?C (r, c)"
      if "r < ?d" "c < ?d" for r c
      by (rule Suc.IH [OF j(2) that])
    show "r < ?d" "c < ?d" by (rule Suc.prems)+
  qed
  also have "\<dots> = in_loop ATB_loop G A B K (Suc j)
             (\<lambda>(r, c). if r < Suc j
                then tensor_sum (map (\<lambda>q. ATB_partial A B r (q, c)) [0..<?d])
                else C (r, c)) (r, c)"
    by (auto simp: in_loop_def less_Suc_eq)
  finally show ?case .
qed

lemma ATB_forward_form:
  assumes "shape A = [k, m]" "shape B = [k, n]" "0 < m" "0 < n"
  shows "Matmul_ATB_2p5D_forward env ctx A B d out_shape r c dep rm cm dpr ppr pps tps =
           seq (ATB_loop d r c dep rm cm dpr ppr pps tps A B (py_range d)
                  (empty (uninitialized env) [m, n])) (\<lambda>C.
           attempt (reshape C out_shape) (\<lambda>out.
           Return (out, save_ctx ctx (A, B) d r c dep rm cm [k, m] [k, n] dpr ppr pps tps)))"
  using assms
  by (simp add: Matmul_ATB_2p5D_forward_def py_index_last py_index_penultimate reshape_2d)

lemma ATB_on_grid:
  fixes A B :: "nat \<times> nat \<Rightarrow> 'a::semiring_0 tensor"
  assumes shA: "\<And>r c. r < grid_tesseract_dim G \<Longrightarrow> c < grid_tesseract_dim G \<Longrightarrow> shape (A (r, c)) = [k, m]"
    and shB: "\<And>r c. r < grid_tesseract_dim G \<Longrightarrow> c < grid_tesseract_dim G \<Longrightarrow> shape (B (r, c)) = [k, n]"
    and pos: "0 < m" "0 < n"
    and rc: "r < grid_tesseract_dim G" "c < grid_tesseract_dim G"
  obtains C cx where
    "run G residue (2 * grid_tesseract_dim G)
       (matmul_on_grid Matmul_ATB_2p5D_forward G junk ctx A B [int m, int n]) (r, c)
       = Return (C, cx)"
    "shape C = [m, n]"
    "\<And>i j. i < m \<Longrightarrow> j < n \<Longrightarrow>
       data C ! (i * n + j) =
         (\<Sum>q\<leftarrow>[0..<grid_tesseract_dim G]. \<Sum>l\<leftarrow>[0..<k].
            data (A (q, r)) ! (l * m + i) * data (B (q, c)) ! (l * n + j))"
proof -
  let ?d = "grid_tesseract_dim G"
  let ?P = "matmul_on_grid Matmul_ATB_2p5D_forward G junk ctx A B [int m, int n]"
  let ?cx = "\<lambda>(r, c). save_ctx ctx (A (r, c), B (r, c)) (int ?d) (int r) (int c) (grid_dep_rank G)
               PARALLEL_2P5D_ROW PARALLEL_2P5D_COL [k, m] [k, n]
               (grid_data_parallel_rank G) (grid_pipeline_parallel_rank G)
               (grid_pipeline_parallel_size G) (grid_tensor_parallel_size G)"
  let ?K = "\<lambda>rc C. attempt (reshape C [int m, int n]) (\<lambda>out. Return (out, ?cx rc))"
  let ?E = "\<lambda>rc :: nat \<times> nat. empty junk [m, n]"
  let ?C = "tensor_sum (map (\<lambda>q. ATB_partial A B r (q, c)) [0..<?d])"
  have P0: "?P (r', c') = in_loop ATB_loop G A B ?K 0 ?E (r', c')" if "r' < ?d" "c' < ?d" for r' c'
    by (simp add: matmul_on_grid_def rank_env_def in_loop_def py_range_def
        ATB_forward_form [OF shA [OF that] shB [OF that] pos])
  have part: "shape (ATB_partial A B r (q, c)) = [m, n]"
     "\<And>a b. a < m \<Longrightarrow> b < n \<Longrightarrow>
           data (ATB_partial A B r (q, c)) ! (a * n + b)
             = (\<Sum>l\<leftarrow>[0..<k]. data (A (q, r)) ! (l * m + a) * data (B (q, c)) ! (l * n + b))"
    if "q < ?d" for q
    by (rule ATB_partial_entries [where A = A and B = B and q = q and c = c and i = r,
            OF shA [OF that rc(1)] shB [OF that rc(2)]]; blast)+
  have dpos: "0 < ?d" using rc by simp
  note sum = tensor_sum_entries [where T = "\<lambda>q. ATB_partial A B r (q, c)" and sh = "[m, n]",
      OF dpos part(1)]
  have "run G residue (2 * ?d) ?P (r, c) =
           in_loop ATB_loop G A B ?K ?d
             (\<lambda>(r, c). if r < ?d
                then tensor_sum (map (\<lambda>q. ATB_partial A B r (q, c)) [0..<?d])
                else ?E (r, c)) (r, c)"
  proof (rule ATB_rounds [where m = m and k = k and n = n])
    show "shape (A (r, c)) = [k, m]" if "r < ?d" "c < ?d" for r c by (rule shA [OF that])
    show "shape (B (r, c)) = [k, n]" if "r < ?d" "c < ?d" for r c by (rule shB [OF that])
    show "?P (r, c) = in_loop ATB_loop G A B ?K 0 ?E (r, c)" if "r < ?d" "c < ?d" for r c
      by (rule P0 [OF that])
    show "?d \<le> ?d" by simp
    show "r < ?d" "c < ?d" by (rule rc)+
  qed
  also have "\<dots> = Return (?C, ?cx (r, c))"
    using rc(1) by (simp add: in_loop_def reshape_out [OF sum(1)])
  finally have run: "run G residue (2 * ?d) ?P (r, c) = Return (?C, ?cx (r, c))" .
  show thesis
  proof (rule that [of ?C "?cx (r, c)"])
    show "run G residue (2 * ?d) ?P (r, c) = Return (?C, ?cx (r, c))" by (rule run)
    show "shape ?C = [m, n]" by (rule sum(1))
    fix i j assume ij: "i < m" "j < n"
    then have "i * n + j < m * n" by (rule index_bound)
    then have "data ?C ! (i * n + j) = (\<Sum>q\<leftarrow>[0..<?d]. data (ATB_partial A B r (q, c)) ! (i * n + j))"
      using sum(3) [of "i * n + j"] by simp
    also have "\<dots> = (\<Sum>q\<leftarrow>[0..<?d]. \<Sum>l\<leftarrow>[0..<k].
            data (A (q, r)) ! (l * m + i) * data (B (q, c)) ! (l * n + j))"
      by (rule sum_list_upt_cong) (rule part(2) [OF _ ij])
    finally show "data ?C ! (i * n + j) = (\<Sum>q\<leftarrow>[0..<?d]. \<Sum>l\<leftarrow>[0..<k].
            data (A (q, r)) ! (l * m + i) * data (B (q, c)) ! (l * n + j))" .
  qed
qed

subsection \<open>The tiling, in exact arithmetic\<close>

text \<open>
  The algebra behind the three operations, for elements of a semiring: on a slice of any
  size \<open>d = tesseract_dim > 0\<close>, with every rank holding a 2-D tile of each operand (tiles
  of one shape, of positive dimensions), all ranks return from the forward (from
  \<^verbatim>\<open>Matmul_AB_2p5D\<close> after the two all-gathers, from \<^verbatim>\<open>Matmul_ABT_2p5D\<close> and
  \<^verbatim>\<open>Matmul_ATB_2p5D\<close> after the \<open>d\<close> broadcasts and \<open>d\<close> reduces), and the tiles they return,
  assembled block by block, are the product of the assembled operands. This is a fact
  of exact arithmetic only. The code computes in float16, where every \<^verbatim>\<open>addmm\<close>,
  \<^verbatim>\<open>matmul\<close> and \<^verbatim>\<open>reduce\<close> rounds its result: there the sum accumulated tile by tile and
  the product computed at once need not agree to the last bit, and nothing is said here
  about how far apart they can be.
\<close>

lemma tiled_matmul_exact:
  fixes A B At Bt :: "nat \<times> nat \<Rightarrow> 'a::semiring_0 tensor"
  assumes pos: "0 < m" "0 < k" "0 < n"
    and shapes: "\<And>r c. r < grid_tesseract_dim G \<Longrightarrow> c < grid_tesseract_dim G \<Longrightarrow>
        shape (A (r, c)) = [m, k] \<and> shape (B (r, c)) = [k, n]
        \<and> shape (At (r, c)) = [k, m] \<and> shape (Bt (r, c)) = [n, k]"
  shows "(\<forall>r<grid_tesseract_dim G. \<forall>c<grid_tesseract_dim G.
            (\<exists>x. run G residue 2
                   (matmul_on_grid Matmul_AB_2p5D_forward G junk ctx A B [int m, int n]) (r, c)
                 = Return x)
          \<and> (\<exists>x. run G residue (2 * grid_tesseract_dim G)
                   (matmul_on_grid Matmul_ABT_2p5D_forward G junk ctx A Bt [int m, int n]) (r, c)
                 = Return x)
          \<and> (\<exists>x. run G residue (2 * grid_tesseract_dim G)
                   (matmul_on_grid Matmul_ATB_2p5D_forward G junk ctx At B [int m, int n]) (r, c)
                 = Return x))
       \<and> matmul (assemble (grid_tesseract_dim G) m k A) (assemble (grid_tesseract_dim G) k n B)
           = Inr (assemble (grid_tesseract_dim G) m n
                   (returned_tiles (run G residue 2
                      (matmul_on_grid Matmul_AB_2p5D_forward G junk ctx A B [int m, int n]))))
       \<and> (\<exists>BT. transpose01 (assemble (grid_tesseract_dim G) n k Bt) = Inr BT
             \<and> matmul (assemble (grid_tesseract_dim G) m k A) BT
                 = Inr (assemble (grid_tesseract_dim G) m n
                         (returned_tiles (run G residue (2 * grid_tesseract_dim G)
                            (matmul_on_grid Matmul_ABT_2p5D_forward G junk ctx A Bt [int m, int n])))))
       \<and> (\<exists>AT. transpose01 (assemble (grid_tesseract_dim G) k m At) = Inr AT
             \<and> matmul AT (assemble (grid_tesseract_dim G) k n B)
                 = Inr (assemble (grid_tesseract_dim G) m n
                         (returned_tiles (run G residue (2 * grid_tesseract_dim G)
                            (matmul_on_grid Matmul_ATB_2p5D_forward G junk ctx At B [int m, int n])))))"
proof -
  let ?d = "grid_tesseract_dim G"
  let ?AB = "run G residue 2 (matmul_on_grid Matmul_AB_2p5D_forward G junk ctx A B [int m, int n])"
  let ?ABT = "run G residue (2 * ?d)
                (matmul_on_grid Matmul_ABT_2p5D_forward G junk ctx A Bt [int m, int n])"
  let ?ATB = "run G residue (2 * ?d)
                (matmul_on_grid Matmul_ATB_2p5D_forward G junk ctx At B [int m, int n])"
  have shA: "shape (A (r, c)) = [m, k]" and shB: "shape (B (r, c)) = [k, n]"
    and shAt: "shape (At (r, c)) = [k, m]" and shBt: "shape (Bt (r, c)) = [n, k]"
    if "r < ?d" "c < ?d" for r c
    using shapes [OF that] by simp_all
  have AB: "(\<exists>x. ?AB (r, c) = Return x)
      \<and> (\<forall>i<m. \<forall>j<n. data (returned_tiles ?AB (r, c)) ! (i * n + j)
           = (\<Sum>q\<leftarrow>[0..<?d]. \<Sum>l\<leftarrow>[0..<k]. data (A (r, q)) ! (i * k + l) * data (B (q, c)) ! (l * n + j)))"
    if rc: "r < ?d" "c < ?d" for r c
  proof (rule AB_on_grid [where G = G and A = A and B = B and m = m and k = k and n = n
            and r = r and c = c and residue = residue and junk = junk and ctx = ctx,
            OF shA shB pos(2,3) rc])
    fix C cx
    assume C: "?AB (r, c) = Return (C, cx)" "shape C = [m, n]"
      "\<And>i j. i < m \<Longrightarrow> j < n \<Longrightarrow> data C ! (i * n + j)
           = (\<Sum>q\<leftarrow>[0..<?d]. \<Sum>l\<leftarrow>[0..<k]. data (A (r, q)) ! (i * k + l) * data (B (q, c)) ! (l * n + j))"
    show ?thesis
      using C(3) by (simp add: returned_tiles_def C(1))
  qed
  have ABT: "(\<exists>x. ?ABT (r, c) = Return x)
      \<and> (\<forall>i<m. \<forall>j<n. data (returned_tiles ?ABT (r, c)) ! (i * n + j)
           = (\<Sum>q\<leftarrow>[0..<?d]. \<Sum>l\<leftarrow>[0..<k]. data (A (r, q)) ! (i * k + l) * data (Bt (c, q)) ! (j * k + l)))"
    if rc: "r < ?d" "c < ?d" for r c
  proof (rule ABT_on_grid [where G = G and A = A and B = Bt and m = m and k = k and n = n
            and r = r and c = c and residue = residue and junk = junk and ctx = ctx,
            OF shA shBt pos(2) rc])
    fix C cx
    assume C: "?ABT (r, c) = Return (C, cx)" "shape C = [m, n]"
      "\<And>i j. i < m \<Longrightarrow> j < n \<Longrightarrow> data C ! (i * n + j)
           = (\<Sum>q\<leftarrow>[0..<?d]. \<Sum>l\<leftarrow>[0..<k]. data (A (r, q)) ! (i * k + l) * data (Bt (c, q)) ! (j * k + l))"
    show ?thesis
      using C(3) by (simp add: returned_tiles_def C(1))
  qed
  have ATB: "(\<exists>x. ?ATB (r, c) = Return x)
      \<and> (\<forall>i<m. \<forall>j<n. data (returned_tiles ?ATB (r, c)) ! (i * n + j)
           = (\<Sum>q\<leftarrow>[0..<?d]. \<Sum>l\<leftarrow>[0..<k]. data (At (q, r)) ! (l * m + i) * data (B (q, c)) ! (l * n + j)))"
    if rc: "r < ?d" "c < ?d" for r c
  proof (rule ATB_on_grid [where G = G and A = At and B = B and m = m and k = k and n = n
            and r = r and c = c and residue = residue and junk = junk and ctx = ctx,
            OF shAt shB pos(1,3) rc])
    fix C cx
    assume C: "?ATB (r, c) = Return (C, cx)" "shape C = [m, n]"
      "\<And>i j. i < m \<Longrightarrow> j < n \<Longrightarrow> data C ! (i * n + j)
           = (\<Sum>q\<leftarrow>[0..<?d]. \<Sum>l\<leftarrow>[0..<k]. data (At (q, r)) ! (l * m + i) * data (B (q, c)) ! (l * n + j))"
    show ?thesis
      using C(3) by (simp add: returned_tiles_def C(1))
  qed
  have 1: "matmul (assemble ?d m k A) (assemble ?d k n B) = Inr (assemble ?d m n (returned_tiles ?AB))"
    by (rule AB_assembled) (use AB in blast)
  have 2: "\<exists>BT. transpose01 (assemble ?d n k Bt) = Inr BT
              \<and> matmul (assemble ?d m k A) BT = Inr (assemble ?d m n (returned_tiles ?ABT))"
    by (rule ABT_assembled) (use ABT in blast)
  have 3: "\<exists>AT. transpose01 (assemble ?d k m At) = Inr AT
              \<and> matmul AT (assemble ?d k n B) = Inr (assemble ?d m n (returned_tiles ?ATB))"
    by (rule ATB_assembled) (use ATB in blast)
  from AB ABT ATB have 0: "\<forall>r<?d. \<forall>c<?d.
      (\<exists>x. ?AB (r, c) = Return x) \<and> (\<exists>x. ?ABT (r, c) = Return x) \<and> (\<exists>x. ?ATB (r, c) = Return x)"
    by blast
  from 0 1 2 3 show ?thesis by (intro conjI)
qed

lemma tiled_matmul_exact_example:
  "assemble 2 1 1 (returned_tiles (run grid_ex residue_ex 2
      (matmul_on_grid Matmul_AB_2p5D_forward grid_ex (\<lambda>i. 0) True A_ex B_ex [1, 1])))
     = Tensor [2, 2] [9, 1, 21, 5]
   \<and> assemble 2 1 1 (returned_tiles (run grid_ex residue_ex 4
      (matmul_on_grid Matmul_ABT_2p5D_forward grid_ex (\<lambda>i. 0) True A_ex A_ex [1, 1])))
     = Tensor [2, 2] [30, 70, 70, 174]
   \<and> assemble 2 1 1 (returned_tiles (run grid_ex residue_ex 4
      (matmul_on_grid Matmul_ATB_2p5D_forward grid_ex (\<lambda>i. 0) True B_ex B_ex [1, 1])))
     = Tensor [2, 2] [3, 0, 0, 7]"
proof -
  have d: "grid_tesseract_dim grid_ex = 2"
    by (simp add: grid_ex_def)
  have sh: "shape (A_ex (r, c)) = [1, 2] \<and> shape (B_ex (r, c)) = [2, 1]
      \<and> shape (B_ex (r, c)) = [2, 1] \<and> shape (A_ex (r, c)) = [1, 2]" for r c
    by (simp add: A_ex_def B_ex_def)
  have AB: "matmul (assemble 2 1 2 A_ex) (assemble 2 2 1 B_ex) = Inr (Tensor [2, 2] [9, 1, 21, 5])"
    by code_simp
  have At: "transpose01 (assemble 2 1 2 A_ex) = Inr (Tensor [4, 2] [1, 5, 2, 6, 3, 7, 4, 8])"
    by code_simp
  have ABT: "matmul (assemble 2 1 2 A_ex) (Tensor [4, 2] [1, 5, 2, 6, 3, 7, 4, 8])
      = Inr (Tensor [2, 2] [30, 70, 70, 174])"
    by code_simp
  have Bt: "transpose01 (assemble 2 2 1 B_ex) = Inr (Tensor [2, 4] [0, 1, 1, 1, 1, - 1, 2, - 1])"
    by code_simp
  have ATB: "matmul (Tensor [2, 4] [0, 1, 1, 1, 1, - 1, 2, - 1]) (assemble 2 2 1 B_ex)
      = Inr (Tensor [2, 2] [3, 0, 0, 7])"
    by code_simp
  note inst = tiled_matmul_exact [where G = grid_ex and m = 1 and k = 2 and n = 1
      and A = A_ex and B = B_ex and At = B_ex and Bt = A_ex and residue = residue_ex
      and junk = "\<lambda>i. 0" and ctx = True, OF zero_less_one pos2 zero_less_one sh, unfolded d]
  from inst have 1: "matmul (assemble 2 1 2 A_ex) (assemble 2 2 1 B_ex)
      = Inr (assemble 2 1 1 (returned_tiles (run grid_ex residue_ex 2
          (matmul_on_grid Matmul_AB_2p5D_forward grid_ex (\<lambda>i. 0) True A_ex B_ex [1, 1]))))"
    by (simp del: One_nat_def)
  from inst have 2: "matmul (assemble 2 1 2 A_ex) (Tensor [4, 2] [1, 5, 2, 6, 3, 7, 4, 8])
      = Inr (assemble 2 1 1 (returned_tiles (run grid_ex residue_ex 4
          (matmul_on_grid Matmul_ABT_2p5D_forward grid_ex (\<lambda>i. 0) True A_ex A_ex [1, 1]))))"
    by (simp add: At del: One_nat_def)
  from inst have 3: "matmul (Tensor [2, 4] [0, 1, 1, 1, 1, - 1, 2, - 1]) (assemble 2 2 1 B_ex)
      = Inr (assemble 2 1 1 (returned_tiles (run grid_ex residue_ex 4
          (matmul_on_grid Matmul_ATB_2p5D_forward grid_ex (\<lambda>i. 0) True B_ex B_ex [1, 1]))))"
    by (simp add: Bt del: One_nat_def)
  from 1 2 3 show ?thesis
    by (simp only: AB ABT ATB sum.inject)
qed

section \<open>When no shape error is raised\<close>

lemma keeps_shapes_attempt:
  "keeps_shapes (attempt x k) ans n = (case x of Inl e \<Rightarrow> True | Inr y \<Rightarrow> keeps_shapes (k y) ans n)"
  by (cases x) simp_all

lemma keeps_shapes_seq:
  "keeps_shapes (seq p f) ans n \<Longrightarrow> keeps_shapes p ans n"
  by (induction p arbitrary: n) simp_all

lemma py_index_in_set: "py_index xs i = Inr x \<Longrightarrow> x \<in> set xs"
  by (auto simp: py_index_def split: if_splits)

lemma AB_loop_no_shape_error:
  fixes C :: "'a::semiring_0 tensor"
  assumes "\<And>x. x \<in> set A_list \<Longrightarrow> shape x = [m, k]"
    and "\<And>x. x \<in> set B_list \<Longrightarrow> shape x = [k, n]"
    and "shape C = [m, n]"
  shows "(\<exists>C'. AB_loop d r c A_list B_list C js = Inr C' \<and> shape C' = [m, n])
       \<or> (\<exists>e. AB_loop d r c A_list B_list C js = Inl e \<and> \<not> shape_error e)"
  using assms(3)
proof (induction js arbitrary: C)
  case Nil
  then show ?case by simp
next
  case (Cons i js)
  show ?case
  proof (cases "d = 0")
    case True
    then show ?thesis by simp
  next
    case d: False
    show ?thesis
    proof (cases "py_index A_list ((i + d * r) mod d)")
      case (Inl e)
      then have "e = IndexError" by (rule py_index_error)
      with Inl d show ?thesis by simp
    next
      case A: (Inr A_temp)
      show ?thesis
      proof (cases "py_index B_list ((i + d * c) mod d)")
        case (Inl e)
        then have "e = IndexError" by (rule py_index_error)
        with Inl A d show ?thesis by simp
      next
        case B: (Inr B_temp)
        have shA: "shape A_temp = [m, k]" and shB: "shape B_temp = [k, n]"
          using assms(1) [OF py_index_in_set [OF A]] assms(2) [OF py_index_in_set [OF B]]
          by simp_all
        let ?C = "Tensor [m, n] (map (\<lambda>p. data C ! p + data (projr (matmul A_temp B_temp)) ! p)
                     [0..<m * n])"
        obtain P where P: "matmul A_temp B_temp = Inr P" "shape P = [m, n]"
          by (rule matmul_entries [OF shA shB]) blast
        have add: "addmm C A_temp B_temp = Inr ?C"
          using addmm_2d [OF P Cons.prems] by (simp add: P(1))
        have "shape ?C = [m, n]" by simp
        from Cons.IH [OF this] show ?thesis
          using d A B add by simp
      qed
    qed
  qed
qed

lemma shapes_of_gathered:
  assumes "map shape xs = map shape l" "\<And>y. y \<in> set l \<Longrightarrow> shape y = sh" "x \<in> set xs"
  shows "shape x = sh"
proof -
  from assms(3) have "shape x \<in> set (map shape xs)" by simp
  then have "shape x \<in> set (map shape l)" by (simp only: assms(1))
  then show ?thesis using assms(2) by auto
qed

lemma AB_forward_no_shape_error:
  fixes A B :: "'a::semiring_0 tensor"
  assumes A: "shape A \<noteq> []" "last (shape A) = k" "0 < k"
    and B: "2 \<le> length (shape B)" "prod_list (butlast (shape B)) = k" "0 < last (shape B)"
    and os: "prod_list os = prod_list (butlast (shape A)) * last (shape B)"
    and match: "last (shape A) = shape B ! (length (shape B) - 2)"
    and keeps: "keeps_shapes (Matmul_AB_2p5D_forward env ctx A B d (map int os) r c dep rm cm
                                dpr ppr pps tps) ans n"
    and err: "exec (Matmul_AB_2p5D_forward env ctx A B d (map int os) r c dep rm cm
                      dpr ppr pps tps) ans n = Inl e"
  shows "\<not> shape_error e"
proof -
  let ?m = "prod_list (butlast (shape A))" and ?n = "last (shape B)"
  let ?A = "Tensor [?m, k] (data A)" and ?B = "Tensor [k, ?n] (data B)"
  let ?LA = "py_insert (replicate (nat (get_world_size env rm - 1)) (empty_like (uninitialized env) ?A))
               (get_local_rank env rm) ?A"
  let ?LB = "py_insert (replicate (nat (get_world_size env cm - 1)) (empty_like (uninitialized env) ?B))
               (get_local_rank env cm) ?B"
  from B(1) have Bne: "shape B \<noteq> []" by auto
  have rA: "reshape A [- 1, int k] = Inr ?A"
    by (rule reshape_rows [OF A])
  have rB: "reshape B [- 1, int ?n] = Inr ?B"
    using reshape_rows [OF Bne refl B(3)] by (simp only: B(2))
  have form: "Matmul_AB_2p5D_forward env ctx A B d (map int os) r c dep rm cm dpr ppr pps tps =
      All_gather ?LA ?A rm (\<lambda>A_list.
      All_gather ?LB ?B cm (\<lambda>B_list.
      attempt (AB_loop d r c A_list B_list (zeros [?m, ?n]) (py_range d)) (\<lambda>C.
      attempt (reshape C (map int os)) (\<lambda>out.
      Return (out, save_ctx ctx (A, B) d r c dep rm cm (shape A) (shape B) dpr ppr pps tps)))))"
    using A(1,2) B(1) match
    by (simp add: Matmul_AB_2p5D_forward_def py_index_last py_index_penultimate py_index_first
        Bne rA rB Let_def)
  let ?GA = "gathered ans n" and ?GB = "gathered ans (Suc n)"
  from keeps have k1: "map shape ?GA = map shape ?LA" and k2: "map shape ?GB = map shape ?LB"
    by (simp_all add: form)
  have gA: "shape x = [?m, k]" if "x \<in> set ?GA" for x
    by (rule shapes_of_gathered [OF k1 _ that])
      (auto simp: set_py_insert empty_like_def empty_def)
  have gB: "shape x = [k, ?n]" if "x \<in> set ?GB" for x
    by (rule shapes_of_gathered [OF k2 _ that])
      (auto simp: set_py_insert empty_like_def empty_def)
  have z: "shape (zeros [?m, ?n] :: 'a tensor) = [?m, ?n]"
    by (simp add: zeros_def)
  from AB_loop_no_shape_error [of ?GA ?m k ?GB ?n "zeros [?m, ?n]" d r c "py_range d", OF gA gB z]
  show ?thesis
  proof
    assume "\<exists>C'. AB_loop d r c ?GA ?GB (zeros [?m, ?n]) (py_range d) = Inr C' \<and> shape C' = [?m, ?n]"
    then obtain C' where C': "AB_loop d r c ?GA ?GB (zeros [?m, ?n]) (py_range d) = Inr C'"
      "shape C' = [?m, ?n]" by blast
    have "reshape C' (map int os) = Inr (Tensor os (data C'))"
      by (rule reshape_known) (simp add: C'(2) os)
    with err C'(1) show ?thesis
      by (simp add: form)
  next
    assume "\<exists>e'. AB_loop d r c ?GA ?GB (zeros [?m, ?n]) (py_range d) = Inl e' \<and> \<not> shape_error e'"
    with err show ?thesis
      by (auto simp: form)
  qed
qed

lemma ABT_loop_returns_shape:
  fixes A B C :: "'a::semiring_0 tensor"
  assumes "shape A = [m, k]" "shape B = [n, k]"
    and "shape C = [m, n]"
    and "keeps_shapes (ABT_loop d r c dep rm cm dpr ppr pps tps A B js C) ans n0"
  shows "\<exists>C'. exec (ABT_loop d r c dep rm cm dpr ppr pps tps A B js C) ans n0 = Inr C'
               \<and> shape C' = [m, n]"
  using assms(3,4)
proof (induction js arbitrary: C n0)
  case Nil
  then show ?case by simp
next
  case (Cons i js)
  let ?Bt = "received ans n0" and ?Ct = "received ans (Suc n0)"
  from Cons.prems(2) have shBt: "shape ?Bt = [n, k]"
    by (simp add: Let_def assms(2))
  obtain T where T: "transpose01 ?Bt = Inr T" "shape T = [k, n]"
    by (rule transpose01_entries [OF shBt]) blast
  obtain P where P: "matmul A T = Inr P" "shape P = [m, n]"
    by (rule matmul_entries [OF assms(1) T(2)]) blast
  from Cons.prems(2) have shCt: "shape ?Ct = [m, n]"
    and rest: "keeps_shapes (ABT_loop d r c dep rm cm dpr ppr pps tps A B js
                 (if i = c then ?Ct else C)) ans (Suc (Suc n0))"
    by (simp_all add: Let_def T(1) P)
  have "shape (if i = c then ?Ct else C) = [m, n]"
    using shCt Cons.prems(1) by simp
  from Cons.IH [OF this rest] show ?case
    by (simp add: Let_def T(1) P(1))
qed

lemma ATB_loop_returns_shape:
  fixes A B C :: "'a::semiring_0 tensor"
  assumes "shape A = [k, m]" "shape B = [k, n]"
    and "shape C = [m, n]"
    and "keeps_shapes (ATB_loop d r c dep rm cm dpr ppr pps tps A B js C) ans n0"
  shows "\<exists>C'. exec (ATB_loop d r c dep rm cm dpr ppr pps tps A B js C) ans n0 = Inr C'
               \<and> shape C' = [m, n]"
  using assms(3,4)
proof (induction js arbitrary: C n0)
  case Nil
  then show ?case by simp
next
  case (Cons i js)
  let ?At = "received ans n0" and ?Ct = "received ans (Suc n0)"
  from Cons.prems(2) have shAt: "shape ?At = [k, m]"
    by (simp add: Let_def assms(1))
  obtain T where T: "transpose01 ?At = Inr T" "shape T = [m, k]"
    by (rule transpose01_entries [OF shAt]) blast
  obtain P where P: "matmul T B = Inr P" "shape P = [m, n]"
    by (rule matmul_entries [OF T(2) assms(2)]) blast
  from Cons.prems(2) have shCt: "shape ?Ct = [m, n]"
    and rest: "keeps_shapes (ATB_loop d r c dep rm cm dpr ppr pps tps A B js
                 (if i = r then ?Ct else C)) ans (Suc (Suc n0))"
    by (simp_all add: Let_def T(1) P)
  have "shape (if i = r then ?Ct else C) = [m, n]"
    using shCt Cons.prems(1) by simp
  from Cons.IH [OF this rest] show ?case
    by (simp add: Let_def T(1) P(1))
qed

lemma exec_loop_then_reshape:
  assumes "exec p ans n = Inr C" "shape C = [m, n']" "prod_list os = m * n'"
  shows "exec (seq p (\<lambda>C. attempt (reshape C (map int os)) (\<lambda>out. Return (h out)))) ans n
           = Inr (h (Tensor os (data C)))"
proof -
  have "reshape C (map int os) = Inr (Tensor os (data C))"
    by (rule reshape_known) (simp add: assms(2,3))
  then show ?thesis
    by (simp add: exec_seq assms(1))
qed

lemma ABT_forward_returns_ok:
  fixes A B :: "'a::semiring_0 tensor"
  assumes A: "shape A \<noteq> []" "last (shape A) = k" "0 < k"
    and B: "shape B \<noteq> []" "last (shape B) = k"
    and os: "prod_list os = prod_list (butlast (shape A)) * prod_list (butlast (shape B))"
    and keeps: "keeps_shapes (Matmul_ABT_2p5D_forward env ctx A B d (map int os) r c dep rm cm
                                dpr ppr pps tps) ans n"
  shows "\<exists>x. exec (Matmul_ABT_2p5D_forward env ctx A B d (map int os) r c dep rm cm
                     dpr ppr pps tps) ans n = Inr x"
proof -
  let ?m = "prod_list (butlast (shape A))" and ?n = "prod_list (butlast (shape B))"
  let ?A = "Tensor [?m, k] (data A)" and ?B = "Tensor [?n, k] (data B)"
  let ?loop = "ABT_loop d r c dep rm cm dpr ppr pps tps ?A ?B (py_range d)
                 (empty (uninitialized env) [?m, ?n])"
  have form: "Matmul_ABT_2p5D_forward env ctx A B d (map int os) r c dep rm cm dpr ppr pps tps =
      seq ?loop (\<lambda>C. attempt (reshape C (map int os)) (\<lambda>out.
        Return (out, save_ctx ctx (A, B) d r c dep rm cm (shape A) (shape B) dpr ppr pps tps)))"
    using A(1,2) B
    by (simp add: Matmul_ABT_2p5D_forward_def py_index_last py_index_first
        reshape_rows [OF A] reshape_rows [OF B A(3)])
  from keeps have kl: "keeps_shapes ?loop ans n"
    unfolding form by (rule keeps_shapes_seq)
  have sA: "shape ?A = [?m, k]" and sB: "shape ?B = [?n, k]"
    and sE: "shape (empty (uninitialized env) [?m, ?n]) = [?m, ?n]"
    by (simp_all add: empty_def)
  obtain C' where C': "exec ?loop ans n = Inr C'" "shape C' = [?m, ?n]"
    using ABT_loop_returns_shape [OF sA sB sE kl] by blast
  show ?thesis
    unfolding form by (simp only: exec_loop_then_reshape [OF C' os]) blast
qed

lemma ATB_forward_returns_ok:
  fixes A B :: "'a::semiring_0 tensor"
  assumes A: "2 \<le> length (shape A)" "0 < last (shape A)"
    and B: "2 \<le> length (shape B)" "0 < last (shape B)"
    and rows: "prod_list (butlast (shape A)) = prod_list (butlast (shape B))"
    and os: "prod_list os = last (shape A) * last (shape B)"
    and match: "shape A ! (length (shape A) - 2) = shape B ! (length (shape B) - 2)"
    and keeps: "keeps_shapes (Matmul_ATB_2p5D_forward env ctx A B d (map int os) r c dep rm cm
                                dpr ppr pps tps) ans n"
  shows "\<exists>x. exec (Matmul_ATB_2p5D_forward env ctx A B d (map int os) r c dep rm cm
                     dpr ppr pps tps) ans n = Inr x"
proof -
  let ?k = "prod_list (butlast (shape A))"
  let ?m = "last (shape A)" and ?n = "last (shape B)"
  let ?A = "Tensor [?k, ?m] (data A)" and ?B = "Tensor [?k, ?n] (data B)"
  let ?loop = "ATB_loop d r c dep rm cm dpr ppr pps tps ?A ?B (py_range d)
                 (empty (uninitialized env) [?m, ?n])"
  from A(1) B(1) have ne: "shape A \<noteq> []" "shape B \<noteq> []" by auto
  have rA: "reshape A [- 1, int ?m] = Inr ?A"
    by (rule reshape_rows [OF ne(1) refl A(2)])
  have rB: "reshape B [- 1, int ?n] = Inr ?B"
    using reshape_rows [OF ne(2) refl B(2)] by (simp only: rows)
  have form: "Matmul_ATB_2p5D_forward env ctx A B d (map int os) r c dep rm cm dpr ppr pps tps =
      seq ?loop (\<lambda>C. attempt (reshape C (map int os)) (\<lambda>out.
        Return (out, save_ctx ctx (A, B) d r c dep rm cm (shape A) (shape B) dpr ppr pps tps)))"
    using A(1) B(1) match
    by (simp add: Matmul_ATB_2p5D_forward_def py_index_last py_index_penultimate ne rA rB Let_def)
  from keeps have kl: "keeps_shapes ?loop ans n"
    unfolding form by (rule keeps_shapes_seq)
  have sA: "shape ?A = [?k, ?m]" and sB: "shape ?B = [?k, ?n]"
    and sE: "shape (empty (uninitialized env) [?m, ?n]) = [?m, ?n]"
    by (simp_all add: empty_def)
  obtain C' where C': "exec ?loop ans n = Inr C'" "shape C' = [?m, ?n]"
    using ATB_loop_returns_shape [OF sA sB sE kl] by blast
  show ?thesis
    unfolding form by (simp only: exec_loop_then_reshape [OF C' os]) blast
qed

section \<open>The claims\<close>

subsection \<open>C2\<close>

text \<open>
  C2. Whenever a forward has returned and stored its context, the backward run on that
  context is the two sibling forwards, run one after the other under \<^verbatim>\<open>apply\<close> with the
  arguments in the order of the spec, their outputs in the first two slots of the
  result: for AB, \<open>grad_A = ABT(grad_C, B)\<close> and \<open>grad_B = ATB(A, grad_C)\<close>; for ABT,
  \<open>grad_A = AB(grad_C, B)\<close> and \<open>grad_B = ATB(grad_C, A)\<close>; for ATB,
  \<open>grad_A = ABT(B, grad_C)\<close> and \<open>grad_B = AB(A, grad_C)\<close>. The grid coordinates, the two
  parallel modes and the sizes passed on are those the forward was called with, and the
  output shapes are the shapes of \<open>A\<close> and of \<open>B\<close>.
\<close>

theorem C2_backward_duality:
  "(exec (Matmul_AB_2p5D_forward env True A B d os r c dep rm cm dpr ppr pps tps) ans n
      = Inr (out, Some ctx) \<longrightarrow>
    Matmul_AB_2p5D_backward env' ctx grad_C =
      seq (Matmul_ABT_2p5D_forward env' True grad_C B d (map int (shape A))
             r c dep rm cm dpr ppr pps tps) (\<lambda>(grad_A, _).
      seq (Matmul_ATB_2p5D_forward env' True A grad_C d (map int (shape B))
             r c dep rm cm dpr ppr pps tps) (\<lambda>(grad_B, _).
      Return [Some grad_A, Some grad_B, None, None, None, None, None, None, None, None,
              None, None, None, None, None])))
   \<and> (exec (Matmul_ABT_2p5D_forward env True A B d os r c dep rm cm dpr ppr pps tps) ans n
      = Inr (out, Some ctx) \<longrightarrow>
    Matmul_ABT_2p5D_backward env' ctx grad_C =
      seq (Matmul_AB_2p5D_forward env' True grad_C B d (map int (shape A))
             r c dep rm cm dpr ppr pps tps) (\<lambda>(grad_A, _).
      seq (Matmul_ATB_2p5D_forward env' True grad_C A d (map int (shape B))
             r c dep rm cm dpr ppr pps tps) (\<lambda>(grad_B, _).
      Return [Some grad_A, Some grad_B, None, None, None, None, None, None, None, None,
              None, None, None, None, None])))
   \<and> (exec (Matmul_ATB_2p5D_forward env True A B d os r c dep rm cm dpr ppr pps tps) ans n
      = Inr (out, Some ctx) \<longrightarrow>
    Matmul_ATB_2p5D_backward env' ctx grad_C =
      seq (Matmul_ABT_2p5D_forward env' True B grad_C d (map int (shape A))
             r c dep rm cm dpr ppr pps tps) (\<lambda>(grad_A, _).
      seq (Matmul_AB_2p5D_forward env' True A grad_C d (map int (shape B))
             r c dep rm cm dpr ppr pps tps) (\<lambda>(grad_B, _).
      Return [Some grad_A, Some grad_B, None, None, None, None, None, None, None, None,
              None, None, None, None, None])))"
proof (intro conjI impI)
  assume "exec (Matmul_AB_2p5D_forward env True A B d os r c dep rm cm dpr ppr pps tps) ans n
      = Inr (out, Some ctx)"
  from AB_forward_saves [OF this]
  have "ctx = the (save_ctx True (A, B) d r c dep rm cm (shape A) (shape B) dpr ppr pps tps)"
    by (metis option.sel)
  then show "Matmul_AB_2p5D_backward env' ctx grad_C =
      seq (Matmul_ABT_2p5D_forward env' True grad_C B d (map int (shape A))
             r c dep rm cm dpr ppr pps tps) (\<lambda>(grad_A, _).
      seq (Matmul_ATB_2p5D_forward env' True A grad_C d (map int (shape B))
             r c dep rm cm dpr ppr pps tps) (\<lambda>(grad_B, _).
      Return [Some grad_A, Some grad_B, None, None, None, None, None, None, None, None,
              None, None, None, None, None]))"
    by (simp only: AB_backward_of_saved)
next
  assume "exec (Matmul_ABT_2p5D_forward env True A B d os r c dep rm cm dpr ppr pps tps) ans n
      = Inr (out, Some ctx)"
  from ABT_forward_saves [OF this]
  have "ctx = the (save_ctx True (A, B) d r c dep rm cm (shape A) (shape B) dpr ppr pps tps)"
    by (metis option.sel)
  then show "Matmul_ABT_2p5D_backward env' ctx grad_C =
      seq (Matmul_AB_2p5D_forward env' True grad_C B d (map int (shape A))
             r c dep rm cm dpr ppr pps tps) (\<lambda>(grad_A, _).
      seq (Matmul_ATB_2p5D_forward env' True grad_C A d (map int (shape B))
             r c dep rm cm dpr ppr pps tps) (\<lambda>(grad_B, _).
      Return [Some grad_A, Some grad_B, None, None, None, None, None, None, None, None,
              None, None, None, None, None]))"
    by (simp only: ABT_backward_of_saved)
next
  assume "exec (Matmul_ATB_2p5D_forward env True A B d os r c dep rm cm dpr ppr pps tps) ans n
      = Inr (out, Some ctx)"
  from ATB_forward_saves [OF this]
  have "ctx = the (save_ctx True (A, B) d r c dep rm cm (shape A) (shape B) dpr ppr pps tps)"
    by (metis option.sel)
  then show "Matmul_ATB_2p5D_backward env' ctx grad_C =
      seq (Matmul_ABT_2p5D_forward env' True B grad_C d (map int (shape A))
             r c dep rm cm dpr ppr pps tps) (\<lambda>(grad_A, _).
      seq (Matmul_AB_2p5D_forward env' True A grad_C d (map int (shape B))
             r c dep rm cm dpr ppr pps tps) (\<lambda>(grad_B, _).
      Return [Some grad_A, Some grad_B, None, None, None, None, None, None, None, None,
              None, None, None, None, None]))"
    by (simp only: ATB_backward_of_saved)
qed

theorem C2_backward_duality_witness:
  "Matmul_AB_2p5D_backward env_ex ctx_ex (Tensor [1, 1] [7]) =
      seq (Matmul_ABT_2p5D_forward env_ex True (Tensor [1, 1] [7]) (Tensor [1, 1] [3]) 2 [1, 1]
             1 0 0 PARALLEL_2P5D_ROW PARALLEL_2P5D_COL 0 0 1 4) (\<lambda>(grad_A, _).
      seq (Matmul_ATB_2p5D_forward env_ex True (Tensor [1, 1] [2]) (Tensor [1, 1] [7]) 2 [1, 1]
             1 0 0 PARALLEL_2P5D_ROW PARALLEL_2P5D_COL 0 0 1 4) (\<lambda>(grad_B, _).
      Return [Some grad_A, Some grad_B, None, None, None, None, None, None, None, None,
              None, None, None, None, None]))
   \<and> Matmul_ABT_2p5D_backward env_ex ctx_ex (Tensor [1, 1] [7]) =
      seq (Matmul_AB_2p5D_forward env_ex True (Tensor [1, 1] [7]) (Tensor [1, 1] [3]) 2 [1, 1]
             1 0 0 PARALLEL_2P5D_ROW PARALLEL_2P5D_COL 0 0 1 4) (\<lambda>(grad_A, _).
      seq (Matmul_ATB_2p5D_forward env_ex True (Tensor [1, 1] [7]) (Tensor [1, 1] [2]) 2 [1, 1]
             1 0 0 PARALLEL_2P5D_ROW PARALLEL_2P5D_COL 0 0 1 4) (\<lambda>(grad_B, _).
      Return [Some grad_A, Some grad_B, None, None, None, None, None, None, None, None,
              None, None, None, None, None]))
   \<and> Matmul_ATB_2p5D_backward env_ex ctx_ex (Tensor [1, 1] [7]) =
      seq (Matmul_ABT_2p5D_forward env_ex True (Tensor [1, 1] [3]) (Tensor [1, 1] [7]) 2 [1, 1]
             1 0 0 PARALLEL_2P5D_ROW PARALLEL_2P5D_COL 0 0 1 4) (\<lambda>(grad_A, _).
      seq (Matmul_AB_2p5D_forward env_ex True (Tensor [1, 1] [2]) (Tensor [1, 1] [7]) 2 [1, 1]
             1 0 0 PARALLEL_2P5D_ROW PARALLEL_2P5D_COL 0 0 1 4) (\<lambda>(grad_B, _).
      Return [Some grad_A, Some grad_B, None, None, None, None, None, None, None, None,
              None, None, None, None, None]))"
proof -
  have ab: "exec (Matmul_AB_2p5D_forward env_ex True (Tensor [1, 1] [2]) (Tensor [1, 1] [3]) 2
      [1, 1] 1 0 0 PARALLEL_2P5D_ROW PARALLEL_2P5D_COL 0 0 1 4) ans_ex 0
      = Inr (Tensor [1, 1] [13], Some ctx_ex)"
    by code_simp
  have abt: "exec (Matmul_ABT_2p5D_forward env_ex True (Tensor [1, 1] [2]) (Tensor [1, 1] [3]) 2
      [1, 1] 1 0 0 PARALLEL_2P5D_ROW PARALLEL_2P5D_COL 0 0 1 4) ans_ex 0
      = Inr (Tensor [1, 1] [5], Some ctx_ex)"
    by code_simp
  have atb: "exec (Matmul_ATB_2p5D_forward env_ex True (Tensor [1, 1] [2]) (Tensor [1, 1] [3]) 2
      [1, 1] 1 0 0 PARALLEL_2P5D_ROW PARALLEL_2P5D_COL 0 0 1 4) ans_ex 0
      = Inr (Tensor [1, 1] [5], Some ctx_ex)"
    by code_simp
  show ?thesis
    using ab abt atb
      C2_backward_duality [of env_ex "Tensor [1, 1] [2]" "Tensor [1, 1] [3]" 2 "[1, 1]" 1 0 0
        PARALLEL_2P5D_ROW PARALLEL_2P5D_COL 0 0 1 4 ans_ex 0 "Tensor [1, 1] [13]" ctx_ex
        env_ex "Tensor [1, 1] [7]"]
      C2_backward_duality [of env_ex "Tensor [1, 1] [2]" "Tensor [1, 1] [3]" 2 "[1, 1]" 1 0 0
        PARALLEL_2P5D_ROW PARALLEL_2P5D_COL 0 0 1 4 ans_ex 0 "Tensor [1, 1] [5]" ctx_ex
        env_ex "Tensor [1, 1] [7]"]
    by simp
qed

subsection \<open>C3\<close>

text \<open>
  C3 (as amended). In the forward of \<^verbatim>\<open>Matmul_AB_2p5D\<close> the loop over
  \<^verbatim>\<open>range(tesseract_dim)\<close> multiplies, at iteration \<open>i\<close>, the tile \<open>A_list[i]\<close> by the tile
  \<open>B_list[i]\<close> and adds the product into the running sum \<open>C\<close>: the indices the code
  computes, \<open>(i + tesseract_dim * row_rank) mod tesseract_dim\<close> and
  \<open>(i + tesseract_dim * col_rank) mod tesseract_dim\<close>, are \<open>i\<close> whatever the rank's
  coordinates are.
\<close>

theorem C3_AB_loop_index_is_i:
  "AB_loop d row_rank col_rank A_list B_list C (py_range d) =
   accumulate_tiles (\<lambda>i. i) (\<lambda>i. i) A_list B_list C (py_range d)"
  by (rule AB_loop_accumulates [OF py_range_bounds])

text \<open>
  C3 as the claim states it, with the indices \<open>(i + row_rank) mod d\<close> and
  \<open>(i + col_rank) mod d\<close>, fails: on a 2 x 2 grid the rank at row 1, column 0 with the
  1 x 1 tiles \<open>A_list = [1, 2]\<close> and \<open>B_list = [1, 10]\<close> computes \<open>1 * 1 + 2 * 10 = 21\<close>,
  where the claimed pairing gives \<open>2 * 1 + 1 * 10 = 12\<close>.
\<close>

theorem C3_shifted_index_counterexample:
  "AB_loop 2 1 0 [Tensor [1, 1] [1 :: int], Tensor [1, 1] [2]]
      [Tensor [1, 1] [1], Tensor [1, 1] [10]] (zeros [1, 1]) (py_range 2)
     = Inr (Tensor [1, 1] [21])
   \<and> accumulate_tiles (\<lambda>i. (i + 1) mod 2) (\<lambda>i. (i + 0) mod 2)
      [Tensor [1, 1] [1 :: int], Tensor [1, 1] [2]]
      [Tensor [1, 1] [1], Tensor [1, 1] [10]] (zeros [1, 1]) (py_range 2)
     = Inr (Tensor [1, 1] [12])"
  by (simp add: py_range_def py_index_def addmm_def matmul_def zeros_def upt_rec)

subsection \<open>C4\<close>

text \<open>
  C4. With \<open>grid_address m\<close> standing for \<open>m + dep_rank * tesseract_dim\<^sup>2 +
  data_parallel_rank * pipeline_parallel_size * tensor_parallel_size +
  pipeline_parallel_rank * tensor_parallel_size\<close>: the collectives a rank has issued in the
  forward of ABT are, in order, the first ones of the list that has, for each loop index
  \<open>i\<close> of \<^verbatim>\<open>range(tesseract_dim)\<close> in turn, the broadcast in the column group from
  \<open>grid_address (col_rank + i * tesseract_dim)\<close> followed by the reduce in the row group to
  \<open>grid_address (i + row_rank * tesseract_dim)\<close>; and a forward that returns has issued the
  whole list. The same holds of the forward of ATB, with the broadcast of iteration \<open>i\<close> in
  the row group from \<open>grid_address (i + row_rank * tesseract_dim)\<close> and its reduce in the
  column group to \<open>grid_address (col_rank + i * tesseract_dim)\<close>. The bias forward issues one
  broadcast, in the column group from \<open>grid_address col_rank\<close>, and the bias backward one
  reduce, in the column group to \<open>grid_address col_rank\<close>. The forward of AB issues two
  all-gathers, which take no address.
\<close>

theorem C4_collective_addresses:
  fixes A B input bias g :: "'a::semiring_0 tensor"
  shows
    "map collective_of
        (requests (Matmul_ABT_2p5D_forward env ctx A B d os r c dep rm cm dpr ppr pps tps) ans n)
       = take (length (requests (Matmul_ABT_2p5D_forward env ctx A B d os r c dep rm cm
                                   dpr ppr pps tps) ans n))
           (concat (map (\<lambda>i. [Bcast (grid_address (c + i * d) dep d dpr ppr pps tps) cm,
                               Red (grid_address (i + r * d) dep d dpr ppr pps tps) rm])
                      (py_range d)))
     \<and> (exec (Matmul_ABT_2p5D_forward env ctx A B d os r c dep rm cm dpr ppr pps tps) ans n
           = Inr x \<longrightarrow>
         map collective_of
           (requests (Matmul_ABT_2p5D_forward env ctx A B d os r c dep rm cm dpr ppr pps tps) ans n)
          = concat (map (\<lambda>i. [Bcast (grid_address (c + i * d) dep d dpr ppr pps tps) cm,
                               Red (grid_address (i + r * d) dep d dpr ppr pps tps) rm])
                      (py_range d)))
     \<and> map collective_of
        (requests (Matmul_ATB_2p5D_forward env ctx A B d os r c dep rm cm dpr ppr pps tps) ans n)
       = take (length (requests (Matmul_ATB_2p5D_forward env ctx A B d os r c dep rm cm
                                   dpr ppr pps tps) ans n))
           (concat (map (\<lambda>i. [Bcast (grid_address (i + r * d) dep d dpr ppr pps tps) rm,
                               Red (grid_address (c + i * d) dep d dpr ppr pps tps) cm])
                      (py_range d)))
     \<and> (exec (Matmul_ATB_2p5D_forward env ctx A B d os r c dep rm cm dpr ppr pps tps) ans n
           = Inr x \<longrightarrow>
         map collective_of
           (requests (Matmul_ATB_2p5D_forward env ctx A B d os r c dep rm cm dpr ppr pps tps) ans n)
          = concat (map (\<lambda>i. [Bcast (grid_address (i + r * d) dep d dpr ppr pps tps) rm,
                               Red (grid_address (c + i * d) dep d dpr ppr pps tps) cm])
                      (py_range d)))
     \<and> map collective_of
        (requests (Add_Bias_2p5D_forward input bias osp d r c dep cm skip dpr ppr pps tps) ans n)
       = take (length (requests (Add_Bias_2p5D_forward input bias osp d r c dep cm skip
                                   dpr ppr pps tps) ans n))
           [Bcast (grid_address c dep d dpr ppr pps tps) cm]
     \<and> (exec (Add_Bias_2p5D_forward input bias osp d r c dep cm skip dpr ppr pps tps) ans n
           = Inr y \<longrightarrow>
         map collective_of
           (requests (Add_Bias_2p5D_forward input bias osp d r c dep cm skip dpr ppr pps tps) ans n)
          = [Bcast (grid_address c dep d dpr ppr pps tps) cm])
     \<and> map collective_of (requests (Add_Bias_2p5D_backward bctx g) ans n)
       = [Red (grid_address (bias_col_rank bctx) (bias_dep_rank bctx) (bias_tesseract_dim bctx)
                 (bias_data_parallel_rank bctx) (bias_pipeline_parallel_rank bctx)
                 (bias_pipeline_parallel_size bctx) (bias_tensor_parallel_size bctx))
              (bias_col_parallel_mode bctx)]
     \<and> map collective_of
        (requests (Matmul_AB_2p5D_forward env ctx A B d os r c dep rm cm dpr ppr pps tps) ans n)
       = take (length (requests (Matmul_AB_2p5D_forward env ctx A B d os r c dep rm cm
                                   dpr ppr pps tps) ans n)) [Gather rm, Gather cm]
     \<and> (exec (Matmul_AB_2p5D_forward env ctx A B d os r c dep rm cm dpr ppr pps tps) ans n
           = Inr x \<longrightarrow>
         map collective_of
           (requests (Matmul_AB_2p5D_forward env ctx A B d os r c dep rm cm dpr ppr pps tps) ans n)
          = [Gather rm, Gather cm])"
proof (intro conjI impI)
  show "map collective_of
        (requests (Matmul_ABT_2p5D_forward env ctx A B d os r c dep rm cm dpr ppr pps tps) ans n)
       = take (length (requests (Matmul_ABT_2p5D_forward env ctx A B d os r c dep rm cm
                                   dpr ppr pps tps) ans n))
           (concat (map (\<lambda>i. [Bcast (grid_address (c + i * d) dep d dpr ppr pps tps) cm,
                               Red (grid_address (i + r * d) dep d dpr ppr pps tps) rm])
                      (py_range d)))"
    by (rule ABT_forward_schedule)
next
  assume "exec (Matmul_ABT_2p5D_forward env ctx A B d os r c dep rm cm dpr ppr pps tps) ans n
           = Inr x"
  then have "length (requests (Matmul_ABT_2p5D_forward env ctx A B d os r c dep rm cm
                                 dpr ppr pps tps) ans n)
      = length (concat (map (\<lambda>i. [Bcast (grid_address (c + i * d) dep d dpr ppr pps tps) cm,
                               Red (grid_address (i + r * d) dep d dpr ppr pps tps) rm])
                      (py_range d)))"
    by (simp only: ABT_forward_returns length_schedule)
  with ABT_forward_schedule
  show "map collective_of
           (requests (Matmul_ABT_2p5D_forward env ctx A B d os r c dep rm cm dpr ppr pps tps) ans n)
          = concat (map (\<lambda>i. [Bcast (grid_address (c + i * d) dep d dpr ppr pps tps) cm,
                               Red (grid_address (i + r * d) dep d dpr ppr pps tps) rm])
                      (py_range d))"
    by (rule whole_schedule)
next
  show "map collective_of
        (requests (Matmul_ATB_2p5D_forward env ctx A B d os r c dep rm cm dpr ppr pps tps) ans n)
       = take (length (requests (Matmul_ATB_2p5D_forward env ctx A B d os r c dep rm cm
                                   dpr ppr pps tps) ans n))
           (concat (map (\<lambda>i. [Bcast (grid_address (i + r * d) dep d dpr ppr pps tps) rm,
                               Red (grid_address (c + i * d) dep d dpr ppr pps tps) cm])
                      (py_range d)))"
    by (rule ATB_forward_schedule)
next
  assume "exec (Matmul_ATB_2p5D_forward env ctx A B d os r c dep rm cm dpr ppr pps tps) ans n
           = Inr x"
  then have "length (requests (Matmul_ATB_2p5D_forward env ctx A B d os r c dep rm cm
                                 dpr ppr pps tps) ans n)
      = length (concat (map (\<lambda>i. [Bcast (grid_address (i + r * d) dep d dpr ppr pps tps) rm,
                               Red (grid_address (c + i * d) dep d dpr ppr pps tps) cm])
                      (py_range d)))"
    by (simp only: ATB_forward_returns length_schedule)
  with ATB_forward_schedule
  show "map collective_of
           (requests (Matmul_ATB_2p5D_forward env ctx A B d os r c dep rm cm dpr ppr pps tps) ans n)
          = concat (map (\<lambda>i. [Bcast (grid_address (i + r * d) dep d dpr ppr pps tps) rm,
                               Red (grid_address (c + i * d) dep d dpr ppr pps tps) cm])
                      (py_range d))"
    by (rule whole_schedule)
next
  show "map collective_of
        (requests (Add_Bias_2p5D_forward input bias osp d r c dep cm skip dpr ppr pps tps) ans n)
       = take (length (requests (Add_Bias_2p5D_forward input bias osp d r c dep cm skip
                                   dpr ppr pps tps) ans n))
           [Bcast (grid_address c dep d dpr ppr pps tps) cm]"
    by (rule Add_Bias_forward_schedule)
next
  assume "exec (Add_Bias_2p5D_forward input bias osp d r c dep cm skip dpr ppr pps tps) ans n
           = Inr y"
  then have "length (requests (Add_Bias_2p5D_forward input bias osp d r c dep cm skip
                                 dpr ppr pps tps) ans n)
      = length [Bcast (grid_address c dep d dpr ppr pps tps) cm]"
    by (simp add: Add_Bias_forward_returns)
  with Add_Bias_forward_schedule
  show "map collective_of
           (requests (Add_Bias_2p5D_forward input bias osp d r c dep cm skip dpr ppr pps tps) ans n)
          = [Bcast (grid_address c dep d dpr ppr pps tps) cm]"
    by (rule whole_schedule)
next
  show "map collective_of (requests (Add_Bias_2p5D_backward bctx g) ans n)
       = [Red (grid_address (bias_col_rank bctx) (bias_dep_rank bctx) (bias_tesseract_dim bctx)
                 (bias_data_parallel_rank bctx) (bias_pipeline_parallel_rank bctx)
                 (bias_pipeline_parallel_size bctx) (bias_tensor_parallel_size bctx))
              (bias_col_parallel_mode bctx)]"
    by (simp add: Add_Bias_backward_requests)
next
  show "map collective_of
        (requests (Matmul_AB_2p5D_forward env ctx A B d os r c dep rm cm dpr ppr pps tps) ans n)
       = take (length (requests (Matmul_AB_2p5D_forward env ctx A B d os r c dep rm cm
                                   dpr ppr pps tps) ans n)) [Gather rm, Gather cm]"
    by (rule AB_forward_schedule)
next
  assume "exec (Matmul_AB_2p5D_forward env ctx A B d os r c dep rm cm dpr ppr pps tps) ans n
           = Inr x"
  then have "length (requests (Matmul_AB_2p5D_forward env ctx A B d os r c dep rm cm
                                 dpr ppr pps tps) ans n)
      = length [Gather rm, Gather cm]"
    by (simp add: AB_forward_returns)
  with AB_forward_schedule
  show "map collective_of
           (requests (Matmul_AB_2p5D_forward env ctx A B d os r c dep rm cm dpr ppr pps tps) ans n)
          = [Gather rm, Gather cm]"
    by (rule whole_schedule)
qed

text \<open>
  At row 1, column 0 of the slice at depth 1 of a 2 x 2 x 2 grid (so \<open>tensor_parallel_size = 8\<close>
  and the slice starts at rank 4): the forward of ABT broadcasts from rank
  \<open>0 + 0 * 2 + 4 = 4\<close> and reduces to \<open>0 + 1 * 2 + 4 = 6\<close> at iteration 0, broadcasts from
  \<open>0 + 1 * 2 + 4 = 6\<close> and reduces to \<open>1 + 1 * 2 + 4 = 7\<close> at iteration 1; the forward of ATB
  broadcasts from 6 and reduces to 4, then broadcasts from 7 and reduces to 6. The bias
  operations at row 0, column 1 address rank \<open>1 + 4 = 5\<close>.
\<close>

theorem C4_collective_addresses_witness:
  "map collective_of
      (requests (Matmul_ABT_2p5D_forward env_ex True (Tensor [1, 1] [2]) (Tensor [1, 1] [3]) 2
                   [1, 1] 1 0 1 PARALLEL_2P5D_ROW PARALLEL_2P5D_COL 0 0 1 8) ans_ex 0)
     = [Bcast 4 PARALLEL_2P5D_COL, Red 6 PARALLEL_2P5D_ROW,
        Bcast 6 PARALLEL_2P5D_COL, Red 7 PARALLEL_2P5D_ROW]
   \<and> map collective_of
      (requests (Matmul_ATB_2p5D_forward env_ex True (Tensor [1, 1] [2]) (Tensor [1, 1] [3]) 2
                   [1, 1] 1 0 1 PARALLEL_2P5D_ROW PARALLEL_2P5D_COL 0 0 1 8) ans_ex 0)
     = [Bcast 6 PARALLEL_2P5D_ROW, Red 4 PARALLEL_2P5D_COL,
        Bcast 7 PARALLEL_2P5D_ROW, Red 6 PARALLEL_2P5D_COL]
   \<and> map collective_of
      (requests (Add_Bias_2p5D_forward (Tensor [1, 2] [1, 2]) (Tensor [2] [10, 20]) 2 2 0 1 1
                   PARALLEL_2P5D_COL False 0 0 1 8) bias_ans_ex 0)
     = [Bcast 5 PARALLEL_2P5D_COL]
   \<and> map collective_of
      (requests (Add_Bias_2p5D_backward (bias_ctx_ex True) (Tensor [2] [1, 2])) bias_ans_ex 0)
     = [Red 5 PARALLEL_2P5D_COL]
   \<and> map collective_of
      (requests (Matmul_AB_2p5D_forward env_ex True (Tensor [1, 1] [2]) (Tensor [1, 1] [3]) 2
                   [1, 1] 1 0 1 PARALLEL_2P5D_ROW PARALLEL_2P5D_COL 0 0 1 8) ans_ex 0)
     = [Gather PARALLEL_2P5D_ROW, Gather PARALLEL_2P5D_COL]"
proof -
  have abt: "exec (Matmul_ABT_2p5D_forward env_ex True (Tensor [1, 1] [2]) (Tensor [1, 1] [3]) 2
                [1, 1] 1 0 1 PARALLEL_2P5D_ROW PARALLEL_2P5D_COL 0 0 1 8) ans_ex 0
      = Inr (Tensor [1, 1] [5], save_ctx True (Tensor [1, 1] [2], Tensor [1, 1] [3]) 2 1 0 1
               PARALLEL_2P5D_ROW PARALLEL_2P5D_COL [1, 1] [1, 1] 0 0 1 8)"
    by code_simp
  have atb: "exec (Matmul_ATB_2p5D_forward env_ex True (Tensor [1, 1] [2]) (Tensor [1, 1] [3]) 2
                [1, 1] 1 0 1 PARALLEL_2P5D_ROW PARALLEL_2P5D_COL 0 0 1 8) ans_ex 0
      = Inr (Tensor [1, 1] [5], save_ctx True (Tensor [1, 1] [2], Tensor [1, 1] [3]) 2 1 0 1
               PARALLEL_2P5D_ROW PARALLEL_2P5D_COL [1, 1] [1, 1] 0 0 1 8)"
    by code_simp
  have ab: "exec (Matmul_AB_2p5D_forward env_ex True (Tensor [1, 1] [2]) (Tensor [1, 1] [3]) 2
                [1, 1] 1 0 1 PARALLEL_2P5D_ROW PARALLEL_2P5D_COL 0 0 1 8) ans_ex 0
      = Inr (Tensor [1, 1] [13], save_ctx True (Tensor [1, 1] [2], Tensor [1, 1] [3]) 2 1 0 1
               PARALLEL_2P5D_ROW PARALLEL_2P5D_COL [1, 1] [1, 1] 0 0 1 8)"
    by code_simp
  have bf: "exec (Add_Bias_2p5D_forward (Tensor [1, 2] [1, 2]) (Tensor [2] [10, 20]) 2 2 0 1 1
                PARALLEL_2P5D_COL False 0 0 1 8) bias_ans_ex 0
      = Inr (Tensor [1, 2] [11, 22], bias_ctx_ex False)"
    by code_simp
  have sched: "concat (map (\<lambda>i. [Bcast (grid_address (0 + i * 2) 1 2 0 0 1 8) PARALLEL_2P5D_COL,
                                  Red (grid_address (i + 1 * 2) 1 2 0 0 1 8) PARALLEL_2P5D_ROW])
                         (py_range 2))
      = [Bcast 4 PARALLEL_2P5D_COL, Red 6 PARALLEL_2P5D_ROW,
         Bcast 6 PARALLEL_2P5D_COL, Red 7 PARALLEL_2P5D_ROW]"
    "concat (map (\<lambda>i. [Bcast (grid_address (i + 1 * 2) 1 2 0 0 1 8) PARALLEL_2P5D_ROW,
                        Red (grid_address (0 + i * 2) 1 2 0 0 1 8) PARALLEL_2P5D_COL])
               (py_range 2))
      = [Bcast 6 PARALLEL_2P5D_ROW, Red 4 PARALLEL_2P5D_COL,
         Bcast 7 PARALLEL_2P5D_ROW, Red 6 PARALLEL_2P5D_COL]"
    by code_simp+
  have addr: "grid_address 1 1 2 0 0 1 8 = 5"
    by (simp add: grid_address_def)
  note inst = C4_collective_addresses [where env = env_ex and ctx = True
      and A = "Tensor [1, 1] [2]" and B = "Tensor [1, 1] [3]" and d = 2 and os = "[1, 1]"
      and dep = 1 and rm = PARALLEL_2P5D_ROW and cm = PARALLEL_2P5D_COL and dpr = 0
      and ppr = 0 and pps = 1 and tps = 8 and n = 0 and input = "Tensor [1, 2] [1, 2]"
      and bias = "Tensor [2] [10, 20]" and osp = 2 and skip = False
      and bctx = "bias_ctx_ex True" and g = "Tensor [2] [1, 2]"]
  note m = inst [where r = 1 and c = 0 and ans = ans_ex]
  note b = inst [where r = 0 and c = 1 and ans = bias_ans_ex]
  have 1: "map collective_of
      (requests (Matmul_ABT_2p5D_forward env_ex True (Tensor [1, 1] [2]) (Tensor [1, 1] [3]) 2
                   [1, 1] 1 0 1 PARALLEL_2P5D_ROW PARALLEL_2P5D_COL 0 0 1 8) ans_ex 0)
     = [Bcast 4 PARALLEL_2P5D_COL, Red 6 PARALLEL_2P5D_ROW,
        Bcast 6 PARALLEL_2P5D_COL, Red 7 PARALLEL_2P5D_ROW]"
    using m [THEN conjunct2, THEN conjunct1, THEN mp, OF abt] by (simp only: sched)
  have 2: "map collective_of
      (requests (Matmul_ATB_2p5D_forward env_ex True (Tensor [1, 1] [2]) (Tensor [1, 1] [3]) 2
                   [1, 1] 1 0 1 PARALLEL_2P5D_ROW PARALLEL_2P5D_COL 0 0 1 8) ans_ex 0)
     = [Bcast 6 PARALLEL_2P5D_ROW, Red 4 PARALLEL_2P5D_COL,
        Bcast 7 PARALLEL_2P5D_ROW, Red 6 PARALLEL_2P5D_COL]"
    using m [THEN conjunct2, THEN conjunct2, THEN conjunct2, THEN conjunct1, THEN mp, OF atb]
    by (simp only: sched)
  have 3: "map collective_of
      (requests (Add_Bias_2p5D_forward (Tensor [1, 2] [1, 2]) (Tensor [2] [10, 20]) 2 2 0 1 1
                   PARALLEL_2P5D_COL False 0 0 1 8) bias_ans_ex 0)
     = [Bcast 5 PARALLEL_2P5D_COL]"
    using b [THEN conjunct2, THEN conjunct2, THEN conjunct2, THEN conjunct2, THEN conjunct2,
        THEN conjunct1, THEN mp, OF bf]
    by (simp only: addr)
  have 4: "map collective_of
      (requests (Add_Bias_2p5D_backward (bias_ctx_ex True) (Tensor [2] [1, 2])) bias_ans_ex 0)
     = [Red 5 PARALLEL_2P5D_COL]"
    using b [THEN conjunct2, THEN conjunct2, THEN conjunct2, THEN conjunct2, THEN conjunct2,
        THEN conjunct2, THEN conjunct1]
    by (simp add: bias_ctx_ex_def addr)
  have 5: "map collective_of
      (requests (Matmul_AB_2p5D_forward env_ex True (Tensor [1, 1] [2]) (Tensor [1, 1] [3]) 2
                   [1, 1] 1 0 1 PARALLEL_2P5D_ROW PARALLEL_2P5D_COL 0 0 1 8) ans_ex 0)
     = [Gather PARALLEL_2P5D_ROW, Gather PARALLEL_2P5D_COL]"
    using m [THEN conjunct2, THEN conjunct2, THEN conjunct2, THEN conjunct2, THEN conjunct2,
        THEN conjunct2, THEN conjunct2, THEN conjunct2, THEN mp, OF ab]
    by simp
  from 1 2 3 4 5 show ?thesis
    by (intro conjI)
qed
subsection \<open>C5\<close>

text \<open>
  C5 (as amended). Each of the three forwards checks its inputs' inner dimensions first.
  When they differ (for AB the last dimension of \<open>A\<close> and the second-to-last of \<open>B\<close>, for
  ABT the two last dimensions, for ATB the two second-to-last dimensions), the forward is
  the assertion error that carries both shapes and the name of the operation, and the
  rank has issued no collective. When they agree, the forward never raises that error,
  whatever the collectives hand back. It raises no shape error at all when moreover the
  last dimensions are positive, the operands as flattened to two dimensions fit (for AB
  the dimensions of \<open>B\<close> before its last multiply to the last dimension of \<open>A\<close>; for ATB
  the dimensions of \<open>A\<close> before its last and those of \<open>B\<close> before its last have the same
  product; both hold of 2-D operands), \<open>out_shape\<close> is a shape with as many elements as the
  product has, and the collectives leave the shapes of their buffers as they were: then
  the forwards of ABT and ATB return, and the forward of AB raises no shape error (it
  can still fail to index its gathered list when the group is smaller than
  \<open>tesseract_dim\<close>).
\<close>

theorem C5_shape_contract:
  fixes A B :: "'a::semiring_0 tensor"
  shows
    "(shape A \<noteq> [] \<and> 2 \<le> length (shape B) \<longrightarrow>
        (if last (shape A) \<noteq> shape B ! (length (shape B) - 2)
         then Matmul_AB_2p5D_forward env ctx A B d os r c dep rm cm dpr ppr pps tps
                = Raise (Invalid_shapes (shape A) (shape B) ''AB'')
              \<and> requests (Matmul_AB_2p5D_forward env ctx A B d os r c dep rm cm dpr ppr pps tps)
                  ans n = []
         else \<forall>sa sb opn.
                exec (Matmul_AB_2p5D_forward env ctx A B d os r c dep rm cm dpr ppr pps tps) ans n
                  \<noteq> Inl (Invalid_shapes sa sb opn)))
     \<and> (shape A \<noteq> [] \<and> shape B \<noteq> [] \<longrightarrow>
        (if last (shape A) \<noteq> last (shape B)
         then Matmul_ABT_2p5D_forward env ctx A B d os r c dep rm cm dpr ppr pps tps
                = Raise (Invalid_shapes (shape A) (shape B) ''ABT'')
              \<and> requests (Matmul_ABT_2p5D_forward env ctx A B d os r c dep rm cm dpr ppr pps tps)
                  ans n = []
         else \<forall>sa sb opn.
                exec (Matmul_ABT_2p5D_forward env ctx A B d os r c dep rm cm dpr ppr pps tps) ans n
                  \<noteq> Inl (Invalid_shapes sa sb opn)))
     \<and> (2 \<le> length (shape A) \<and> 2 \<le> length (shape B) \<longrightarrow>
        (if shape A ! (length (shape A) - 2) \<noteq> shape B ! (length (shape B) - 2)
         then Matmul_ATB_2p5D_forward env ctx A B d os r c dep rm cm dpr ppr pps tps
                = Raise (Invalid_shapes (shape A) (shape B) ''ATB'')
              \<and> requests (Matmul_ATB_2p5D_forward env ctx A B d os r c dep rm cm dpr ppr pps tps)
                  ans n = []
         else \<forall>sa sb opn.
                exec (Matmul_ATB_2p5D_forward env ctx A B d os r c dep rm cm dpr ppr pps tps) ans n
                  \<noteq> Inl (Invalid_shapes sa sb opn)))
     \<and> (shape A \<noteq> [] \<and> 2 \<le> length (shape B)
        \<and> last (shape A) = shape B ! (length (shape B) - 2)
        \<and> 0 < last (shape A) \<and> 0 < last (shape B)
        \<and> prod_list (butlast (shape B)) = last (shape A)
        \<and> prod_list os' = prod_list (butlast (shape A)) * last (shape B)
        \<and> keeps_shapes (Matmul_AB_2p5D_forward env ctx A B d (map int os') r c dep rm cm
                           dpr ppr pps tps) ans n \<longrightarrow>
        (\<forall>e. exec (Matmul_AB_2p5D_forward env ctx A B d (map int os') r c dep rm cm
                      dpr ppr pps tps) ans n = Inl e \<longrightarrow> \<not> shape_error e))
     \<and> (shape A \<noteq> [] \<and> shape B \<noteq> []
        \<and> last (shape A) = last (shape B)
        \<and> 0 < last (shape A)
        \<and> prod_list os' = prod_list (butlast (shape A)) * prod_list (butlast (shape B))
        \<and> keeps_shapes (Matmul_ABT_2p5D_forward env ctx A B d (map int os') r c dep rm cm
                           dpr ppr pps tps) ans n \<longrightarrow>
        (\<exists>x. exec (Matmul_ABT_2p5D_forward env ctx A B d (map int os') r c dep rm cm
                      dpr ppr pps tps) ans n = Inr x))
     \<and> (2 \<le> length (shape A) \<and> 2 \<le> length (shape B)
        \<and> shape A ! (length (shape A) - 2) = shape B ! (length (shape B) - 2)
        \<and> 0 < last (shape A) \<and> 0 < last (shape B)
        \<and> prod_list (butlast (shape A)) = prod_list (butlast (shape B))
        \<and> prod_list os' = last (shape A) * last (shape B)
        \<and> keeps_shapes (Matmul_ATB_2p5D_forward env ctx A B d (map int os') r c dep rm cm
                           dpr ppr pps tps) ans n \<longrightarrow>
        (\<exists>x. exec (Matmul_ATB_2p5D_forward env ctx A B d (map int os') r c dep rm cm
                      dpr ppr pps tps) ans n = Inr x))"
proof (intro conjI impI)
  assume "shape A \<noteq> [] \<and> 2 \<le> length (shape B)"
  then show "if last (shape A) \<noteq> shape B ! (length (shape B) - 2)
         then Matmul_AB_2p5D_forward env ctx A B d os r c dep rm cm dpr ppr pps tps
                = Raise (Invalid_shapes (shape A) (shape B) ''AB'')
              \<and> requests (Matmul_AB_2p5D_forward env ctx A B d os r c dep rm cm dpr ppr pps tps)
                  ans n = []
         else \<forall>sa sb opn.
                exec (Matmul_AB_2p5D_forward env ctx A B d os r c dep rm cm dpr ppr pps tps) ans n
                  \<noteq> Inl (Invalid_shapes sa sb opn)"
    using AB_forward_mismatch [of A B env ctx d os r c dep rm cm dpr ppr pps tps]
      AB_forward_match [of A B env ctx d os r c dep rm cm dpr ppr pps tps ans n]
    by (cases "last (shape A) = shape B ! (length (shape B) - 2)") simp_all
next
  assume "shape A \<noteq> [] \<and> shape B \<noteq> []"
  then show "if last (shape A) \<noteq> last (shape B)
         then Matmul_ABT_2p5D_forward env ctx A B d os r c dep rm cm dpr ppr pps tps
                = Raise (Invalid_shapes (shape A) (shape B) ''ABT'')
              \<and> requests (Matmul_ABT_2p5D_forward env ctx A B d os r c dep rm cm dpr ppr pps tps)
                  ans n = []
         else \<forall>sa sb opn.
                exec (Matmul_ABT_2p5D_forward env ctx A B d os r c dep rm cm dpr ppr pps tps) ans n
                  \<noteq> Inl (Invalid_shapes sa sb opn)"
    using ABT_forward_mismatch [of A B env ctx d os r c dep rm cm dpr ppr pps tps]
      ABT_forward_match [of A B env ctx d os r c dep rm cm dpr ppr pps tps ans n]
    by (cases "last (shape A) = last (shape B)") simp_all
next
  assume "2 \<le> length (shape A) \<and> 2 \<le> length (shape B)"
  then show "if shape A ! (length (shape A) - 2) \<noteq> shape B ! (length (shape B) - 2)
         then Matmul_ATB_2p5D_forward env ctx A B d os r c dep rm cm dpr ppr pps tps
                = Raise (Invalid_shapes (shape A) (shape B) ''ATB'')
              \<and> requests (Matmul_ATB_2p5D_forward env ctx A B d os r c dep rm cm dpr ppr pps tps)
                  ans n = []
         else \<forall>sa sb opn.
                exec (Matmul_ATB_2p5D_forward env ctx A B d os r c dep rm cm dpr ppr pps tps) ans n
                  \<noteq> Inl (Invalid_shapes sa sb opn)"
    using ATB_forward_mismatch [of A B env ctx d os r c dep rm cm dpr ppr pps tps]
      ATB_forward_match [of A B env ctx d os r c dep rm cm dpr ppr pps tps ans n]
    by (cases "shape A ! (length (shape A) - 2) = shape B ! (length (shape B) - 2)") simp_all
next
  assume h: "shape A \<noteq> [] \<and> 2 \<le> length (shape B)
        \<and> last (shape A) = shape B ! (length (shape B) - 2)
        \<and> 0 < last (shape A) \<and> 0 < last (shape B)
        \<and> prod_list (butlast (shape B)) = last (shape A)
        \<and> prod_list os' = prod_list (butlast (shape A)) * last (shape B)
        \<and> keeps_shapes (Matmul_AB_2p5D_forward env ctx A B d (map int os') r c dep rm cm
                           dpr ppr pps tps) ans n"
  show "\<forall>e. exec (Matmul_AB_2p5D_forward env ctx A B d (map int os') r c dep rm cm
                      dpr ppr pps tps) ans n = Inl e \<longrightarrow> \<not> shape_error e"
  proof (intro allI impI)
    fix e
    assume "exec (Matmul_AB_2p5D_forward env ctx A B d (map int os') r c dep rm cm
                      dpr ppr pps tps) ans n = Inl e"
    with h show "\<not> shape_error e"
      by (intro AB_forward_no_shape_error [where A = A and B = B and k = "last (shape A)"
            and os = os' and e = e]) simp_all
  qed
next
  assume h: "shape A \<noteq> [] \<and> shape B \<noteq> []
        \<and> last (shape A) = last (shape B)
        \<and> 0 < last (shape A)
        \<and> prod_list os' = prod_list (butlast (shape A)) * prod_list (butlast (shape B))
        \<and> keeps_shapes (Matmul_ABT_2p5D_forward env ctx A B d (map int os') r c dep rm cm
                           dpr ppr pps tps) ans n"
  then show "\<exists>x. exec (Matmul_ABT_2p5D_forward env ctx A B d (map int os') r c dep rm cm
                      dpr ppr pps tps) ans n = Inr x"
    by (intro ABT_forward_returns_ok [where A = A and B = B and k = "last (shape A)"
          and os = os']) simp_all
next
  assume h: "2 \<le> length (shape A) \<and> 2 \<le> length (shape B)
        \<and> shape A ! (length (shape A) - 2) = shape B ! (length (shape B) - 2)
        \<and> 0 < last (shape A) \<and> 0 < last (shape B)
        \<and> prod_list (butlast (shape A)) = prod_list (butlast (shape B))
        \<and> prod_list os' = last (shape A) * last (shape B)
        \<and> keeps_shapes (Matmul_ATB_2p5D_forward env ctx A B d (map int os') r c dep rm cm
                           dpr ppr pps tps) ans n"
  then show "\<exists>x. exec (Matmul_ATB_2p5D_forward env ctx A B d (map int os') r c dep rm cm
                      dpr ppr pps tps) ans n = Inr x"
    by (intro ATB_forward_returns_ok [where A = A and B = B and os = os']) simp_all
qed

text \<open>
  At mismatching 2-D operands, and at matching ones: AB on a 3-D \<open>A\<close> of shape
  \<open>[1, 2, 2]\<close> and \<open>B\<close> of shape \<open>[2, 1]\<close>, ABT on shapes \<open>[1, 2, 2]\<close> and \<open>[3, 2]\<close>, ATB on
  shapes \<open>[3, 1, 2]\<close> and \<open>[3, 1, 3]\<close>.
\<close>

theorem C5_shape_contract_witness:
  "Matmul_AB_2p5D_forward env_ex True (Tensor [2, 3] [1, 2, 3, 4, 5, 6]) (Tensor [2, 2] [1, 2, 3, 4])
      2 [2, 2] 0 1 0 PARALLEL_2P5D_ROW PARALLEL_2P5D_COL 0 0 1 4
     = Raise (Invalid_shapes [2, 3] [2, 2] ''AB'')
   \<and> Matmul_ABT_2p5D_forward env_ex True (Tensor [2, 3] [1, 2, 3, 4, 5, 6]) (Tensor [2, 2] [1, 2, 3, 4])
      2 [2, 2] 0 1 0 PARALLEL_2P5D_ROW PARALLEL_2P5D_COL 0 0 1 4
     = Raise (Invalid_shapes [2, 3] [2, 2] ''ABT'')
   \<and> Matmul_ATB_2p5D_forward env_ex True (Tensor [2, 3] [1, 2, 3, 4, 5, 6]) (Tensor [3, 2] [1, 2, 3, 4, 5, 6])
      2 [3, 2] 0 1 0 PARALLEL_2P5D_ROW PARALLEL_2P5D_COL 0 0 1 4
     = Raise (Invalid_shapes [2, 3] [3, 2] ''ATB'')
   \<and> exec (Matmul_AB_2p5D_forward env_ex True (Tensor [1, 2, 2] [1, 2, 3, 4]) (Tensor [2, 1] [5, 6])
      2 [1, 2, 1] 0 1 0 PARALLEL_2P5D_ROW PARALLEL_2P5D_COL 0 0 1 4) shapes_ans_ex 0
     \<noteq> Inl RuntimeError
   \<and> (\<exists>x. exec (Matmul_ABT_2p5D_forward env_ex True (Tensor [1, 2, 2] [1, 2, 3, 4])
                  (Tensor [3, 2] [1, 2, 3, 4, 5, 6])
      2 [1, 2, 3] 0 1 0 PARALLEL_2P5D_ROW PARALLEL_2P5D_COL 0 0 1 4) shapes_ans_ex 0 = Inr x)
   \<and> (\<exists>x. exec (Matmul_ATB_2p5D_forward env_ex True (Tensor [3, 1, 2] [1, 2, 3, 4, 5, 6])
                  (Tensor [3, 1, 3] [1, 2, 3, 4, 5, 6, 7, 8, 9])
      2 [2, 3] 0 1 0 PARALLEL_2P5D_ROW PARALLEL_2P5D_COL 0 0 1 4) shapes_ans_ex 0 = Inr x)"
proof -
  let ?A2 = "Tensor [2, 3] [1, 2, 3, 4, 5, 6 :: int]" and ?B2 = "Tensor [2, 2] [1, 2, 3, 4 :: int]"
  let ?B3 = "Tensor [3, 2] [1, 2, 3, 4, 5, 6 :: int]"
  let ?A = "Tensor [1, 2, 2] [1, 2, 3, 4 :: int]" and ?B = "Tensor [2, 1] [5, 6 :: int]"
  let ?At = "Tensor [3, 1, 2] [1, 2, 3, 4, 5, 6 :: int]"
    and ?Bt = "Tensor [3, 1, 3] [1, 2, 3, 4, 5, 6, 7, 8, 9 :: int]"
  note mis = C5_shape_contract [where env = env_ex and ctx = True and d = 2 and r = 0 and c = 1
      and dep = 0 and rm = PARALLEL_2P5D_ROW and cm = PARALLEL_2P5D_COL and dpr = 0 and ppr = 0
      and pps = 1 and tps = 4 and ans = shapes_ans_ex and n = 0]
  have kab: "keeps_shapes (Matmul_AB_2p5D_forward env_ex True ?A ?B 2 (map int [1, 2, 1]) 0 1 0
      PARALLEL_2P5D_ROW PARALLEL_2P5D_COL 0 0 1 4) shapes_ans_ex 0"
    by code_simp
  have kabt: "keeps_shapes (Matmul_ABT_2p5D_forward env_ex True ?A ?B3 2 (map int [1, 2, 3]) 0 1 0
      PARALLEL_2P5D_ROW PARALLEL_2P5D_COL 0 0 1 4) shapes_ans_ex 0"
    by code_simp
  have katb: "keeps_shapes (Matmul_ATB_2p5D_forward env_ex True ?At ?Bt 2 (map int [2, 3]) 0 1 0
      PARALLEL_2P5D_ROW PARALLEL_2P5D_COL 0 0 1 4) shapes_ans_ex 0"
    by code_simp
  have 1: "Matmul_AB_2p5D_forward env_ex True ?A2 ?B2 2 [2, 2] 0 1 0
      PARALLEL_2P5D_ROW PARALLEL_2P5D_COL 0 0 1 4 = Raise (Invalid_shapes [2, 3] [2, 2] ''AB'')"
    using mis [where A = ?A2 and B = ?B2 and os = "[2, 2]", THEN conjunct1] by simp
  have 2: "Matmul_ABT_2p5D_forward env_ex True ?A2 ?B2 2 [2, 2] 0 1 0
      PARALLEL_2P5D_ROW PARALLEL_2P5D_COL 0 0 1 4 = Raise (Invalid_shapes [2, 3] [2, 2] ''ABT'')"
    using mis [where A = ?A2 and B = ?B2 and os = "[2, 2]", THEN conjunct2, THEN conjunct1] by simp
  have 3: "Matmul_ATB_2p5D_forward env_ex True ?A2 ?B3 2 [3, 2] 0 1 0
      PARALLEL_2P5D_ROW PARALLEL_2P5D_COL 0 0 1 4 = Raise (Invalid_shapes [2, 3] [3, 2] ''ATB'')"
    using mis [where A = ?A2 and B = ?B3 and os = "[3, 2]", THEN conjunct2, THEN conjunct2,
        THEN conjunct1] by simp
  have 4: "exec (Matmul_AB_2p5D_forward env_ex True ?A ?B 2 [1, 2, 1] 0 1 0
      PARALLEL_2P5D_ROW PARALLEL_2P5D_COL 0 0 1 4) shapes_ans_ex 0 \<noteq> Inl RuntimeError"
    using mis [where A = ?A and B = ?B and os' = "[1, 2, 1]", THEN conjunct2, THEN conjunct2,
        THEN conjunct2, THEN conjunct1] kab
    by auto
  have 5: "\<exists>x. exec (Matmul_ABT_2p5D_forward env_ex True ?A ?B3 2 [1, 2, 3] 0 1 0
      PARALLEL_2P5D_ROW PARALLEL_2P5D_COL 0 0 1 4) shapes_ans_ex 0 = Inr x"
    using mis [where A = ?A and B = ?B3 and os' = "[1, 2, 3]", THEN conjunct2, THEN conjunct2,
        THEN conjunct2, THEN conjunct2, THEN conjunct1] kabt
    by simp
  have 6: "\<exists>x. exec (Matmul_ATB_2p5D_forward env_ex True ?At ?Bt 2 [2, 3] 0 1 0
      PARALLEL_2P5D_ROW PARALLEL_2P5D_COL 0 0 1 4) shapes_ans_ex 0 = Inr x"
    using mis [where A = ?At and B = ?Bt and os' = "[2, 3]", THEN conjunct2, THEN conjunct2,
        THEN conjunct2, THEN conjunct2, THEN conjunct2] katb
    by simp
  from 1 2 3 4 5 6 show ?thesis
    by (intro conjI)
qed

text \<open>
  C5 as the claim states it fails in its last part: matching dimensions do not exclude a
  shape error. The assertion of ATB compares the second-to-last dimensions only. For
  \<open>A\<close> of shape \<open>[2, 3, 4]\<close> and \<open>B\<close> of shape \<open>[5, 3, 6]\<close> they agree, the operands are
  flattened to \<open>[6, 4]\<close> and \<open>[15, 6]\<close>, the rank issues its first broadcast, and the
  product of the transposed \<open>[4, 6]\<close> with \<open>[15, 6]\<close> fails in \<^verbatim>\<open>torch.matmul\<close>. For AB
  with \<open>A\<close> of shape \<open>[2, 3]\<close> and \<open>B\<close> of shape \<open>[2, 3, 4]\<close> the assertion passes too, \<open>B\<close> is
  flattened to \<open>[6, 4]\<close>, and \<^verbatim>\<open>torch.addmm\<close> fails after the two all-gathers.
\<close>

theorem C5_match_counterexample:
  "shape (zeros [2, 3, 4] :: int tensor) ! (length (shape (zeros [2, 3, 4] :: int tensor)) - 2)
     = shape (zeros [5, 3, 6] :: int tensor) ! (length (shape (zeros [5, 3, 6] :: int tensor)) - 2)
   \<and> exec (Matmul_ATB_2p5D_forward env_ex True (zeros [2, 3, 4]) (zeros [5, 3, 6] :: int tensor)
        2 [4, 6] 0 0 0 PARALLEL_2P5D_ROW PARALLEL_2P5D_COL 0 0 1 4)
        \<lparr>gathered = (\<lambda>n. []), received = (\<lambda>n. zeros [6, 4])\<rparr> 0
     = Inl RuntimeError
   \<and> shape_error RuntimeError
   \<and> keeps_shapes (Matmul_ATB_2p5D_forward env_ex True (zeros [2, 3, 4]) (zeros [5, 3, 6] :: int tensor)
        2 [4, 6] 0 0 0 PARALLEL_2P5D_ROW PARALLEL_2P5D_COL 0 0 1 4)
        \<lparr>gathered = (\<lambda>n. []), received = (\<lambda>n. zeros [6, 4])\<rparr> 0
   \<and> map collective_of
       (requests (Matmul_ATB_2p5D_forward env_ex True (zeros [2, 3, 4]) (zeros [5, 3, 6] :: int tensor)
          2 [4, 6] 0 0 0 PARALLEL_2P5D_ROW PARALLEL_2P5D_COL 0 0 1 4)
          \<lparr>gathered = (\<lambda>n. []), received = (\<lambda>n. zeros [6, 4])\<rparr> 0)
     = [Bcast 0 PARALLEL_2P5D_ROW]
   \<and> last (shape (zeros [2, 3] :: int tensor))
     = shape (zeros [2, 3, 4] :: int tensor) ! (length (shape (zeros [2, 3, 4] :: int tensor)) - 2)
   \<and> exec (Matmul_AB_2p5D_forward env_ex True (zeros [2, 3]) (zeros [2, 3, 4] :: int tensor)
        2 [2, 4] 0 0 0 PARALLEL_2P5D_ROW PARALLEL_2P5D_COL 0 0 1 4)
        \<lparr>gathered = (\<lambda>n. if n = 0 then [zeros [2, 3], zeros [2, 3]]
                            else [zeros [6, 4], zeros [6, 4]]),
         received = (\<lambda>n. zeros [])\<rparr> 0
     = Inl RuntimeError
   \<and> keeps_shapes (Matmul_AB_2p5D_forward env_ex True (zeros [2, 3]) (zeros [2, 3, 4] :: int tensor)
        2 [2, 4] 0 0 0 PARALLEL_2P5D_ROW PARALLEL_2P5D_COL 0 0 1 4)
        \<lparr>gathered = (\<lambda>n. if n = 0 then [zeros [2, 3], zeros [2, 3]]
                            else [zeros [6, 4], zeros [6, 4]]),
         received = (\<lambda>n. zeros [])\<rparr> 0
   \<and> map collective_of
       (requests (Matmul_AB_2p5D_forward env_ex True (zeros [2, 3]) (zeros [2, 3, 4] :: int tensor)
          2 [2, 4] 0 0 0 PARALLEL_2P5D_ROW PARALLEL_2P5D_COL 0 0 1 4)
          \<lparr>gathered = (\<lambda>n. if n = 0 then [zeros [2, 3], zeros [2, 3]]
                              else [zeros [6, 4], zeros [6, 4]]),
           received = (\<lambda>n. zeros [])\<rparr> 0)
     = [Gather PARALLEL_2P5D_ROW, Gather PARALLEL_2P5D_COL]"
  by code_simp
subsection \<open>C10\<close>

text \<open>
  C10. The forward of \<^verbatim>\<open>AllGatherLast\<close> on an input whose number of dimensions is not 3
  raises before it issues the all-gather: \<^verbatim>\<open>inputs.permute(2, 0, 1)\<close>, an argument of the
  \<^verbatim>\<open>all_gather\<close> call, fails for such an input (and for an input without dimensions
  \<^verbatim>\<open>inputs.size(-1)\<close> fails before it). A 3-D input with a positive \<open>tesseract_dim\<close>
  does reach the all-gather.
\<close>

theorem C10_AllGatherLast_needs_3d:
  "(length (shape inputs) \<noteq> 3 \<longrightarrow>
      permute inputs [2, 0, 1] = Inl RuntimeError
      \<and> (\<exists>e. AllGatherLast_forward env inputs d cm = Raise e)
      \<and> requests (AllGatherLast_forward env inputs d cm) ans n = [])
   \<and> (length (shape inputs) = 3 \<and> 0 < d \<longrightarrow>
      (\<exists>chunks permuted k.
         AllGatherLast_forward env inputs d cm = All_gather chunks permuted cm k))"
proof (intro conjI impI)
  assume ne: "length (shape inputs) \<noteq> 3"
  then show "permute inputs [2, 0, 1] = Inl RuntimeError"
    by (simp add: permute_wrong_rank)
  from AllGatherLast_forward_raises [OF ne]
  obtain e where e: "AllGatherLast_forward env inputs d cm = Raise e"
    by blast
  then show "\<exists>e. AllGatherLast_forward env inputs d cm = Raise e"
    by blast
  from e show "requests (AllGatherLast_forward env inputs d cm) ans n = []"
    by simp
next
  assume "length (shape inputs) = 3 \<and> 0 < d"
  then show "\<exists>chunks permuted k.
      AllGatherLast_forward env inputs d cm = All_gather chunks permuted cm k"
    by (simp add: AllGatherLast_forward_gathers)
qed

theorem C10_AllGatherLast_needs_3d_witness:
  "AllGatherLast_forward
      \<lparr>get_world_size = (\<lambda>g. 2), get_local_rank = (\<lambda>g. 0), uninitialized = (\<lambda>i. 0)\<rparr>
      (Tensor [2, 2] [1, 2, 3, 4 :: int]) 2 PARALLEL_2P5D_COL
     = Raise RuntimeError
   \<and> (\<exists>chunks permuted k.
        AllGatherLast_forward
          \<lparr>get_world_size = (\<lambda>g. 2), get_local_rank = (\<lambda>g. 0), uninitialized = (\<lambda>i. 0)\<rparr>
          (Tensor [1, 2, 2] [1, 2, 3, 4 :: int]) 2 PARALLEL_2P5D_COL
        = All_gather chunks permuted PARALLEL_2P5D_COL k)"
proof
  have "\<exists>e. AllGatherLast_forward
      \<lparr>get_world_size = (\<lambda>g. 2), get_local_rank = (\<lambda>g. 0), uninitialized = (\<lambda>i. 0)\<rparr>
      (Tensor [2, 2] [1, 2, 3, 4 :: int]) 2 PARALLEL_2P5D_COL = Raise e"
    using C10_AllGatherLast_needs_3d [of "Tensor [2, 2] [1, 2, 3, 4 :: int]"
        "\<lparr>get_world_size = (\<lambda>g. 2), get_local_rank = (\<lambda>g. 0), uninitialized = (\<lambda>i. 0)\<rparr>"
        2 PARALLEL_2P5D_COL]
    by simp
  then show "AllGatherLast_forward
      \<lparr>get_world_size = (\<lambda>g. 2), get_local_rank = (\<lambda>g. 0), uninitialized = (\<lambda>i. 0)\<rparr>
      (Tensor [2, 2] [1, 2, 3, 4 :: int]) 2 PARALLEL_2P5D_COL = Raise RuntimeError"
    by (auto simp: AllGatherLast_forward_def Let_def py_index_def chunk_def permute_def
        split: if_splits)
  show "\<exists>chunks permuted k.
        AllGatherLast_forward
          \<lparr>get_world_size = (\<lambda>g. 2), get_local_rank = (\<lambda>g. 0), uninitialized = (\<lambda>i. 0)\<rparr>
          (Tensor [1, 2, 2] [1, 2, 3, 4 :: int]) 2 PARALLEL_2P5D_COL
        = All_gather chunks permuted PARALLEL_2P5D_COL k"
    using C10_AllGatherLast_needs_3d [of "Tensor [1, 2, 2] [1, 2, 3, 4 :: int]"
        "\<lparr>get_world_size = (\<lambda>g. 2), get_local_rank = (\<lambda>g. 0), uninitialized = (\<lambda>i. 0)\<rparr>"
        2 PARALLEL_2P5D_COL]
    by simp
qed

subsection \<open>C6\<close>



subsection \<open>C7\<close>

text \<open>
  C7. On a grid whose ranks at row 0 hold a bias of shape \<open>[output_size_per_partition]\<close>,
  one round completes the forward of \<^verbatim>\<open>Add_Bias_2p5D\<close> on every rank, and every rank of
  column \<open>c\<close> then holds the bias of the rank at row 0 of that column: it returns that
  bias when the add is skipped, and its input plus that bias otherwise. One round
  completes the backward: the rank at row 0 returns, as the gradient of the bias, the
  sum over its column of what the ranks reduce; every other rank returns zeros.
\<close>

theorem C7_bias_broadcast_and_gradient:
  fixes input bias grad :: "nat \<times> nat \<Rightarrow> 'a::semiring_0 tensor"
  assumes "r < grid_tesseract_dim G" "c < grid_tesseract_dim G"
    and "0 \<le> osp" "shape (bias (0, c)) = [nat osp]"
    and "\<forall>q < grid_tesseract_dim G. shape (grad (q, c)) = shape (grad (r, c))"
  shows "run G residue 1 (Add_Bias_on_grid G input bias osp skip) (r, c) =
           (if skip then Return (bias (0, c), Add_Bias_ctx_on_grid G skip (r, c))
            else attempt (pointwise plus (input (r, c)) (bias (0, c))) (\<lambda>output.
                 Return (output, Add_Bias_ctx_on_grid G skip (r, c))))
         \<and> run G residue 1 (Add_Bias_backward_on_grid G skip grad) (r, c) =
           Return ((if skip then None else Some (grad (r, c)))
             # Some (if r = 0
                     then tensor_sum
                            (map (\<lambda>q. if skip then grad (q, c) else sum_leading (grad (q, c)))
                               [0..<grid_tesseract_dim G])
                     else zeros (shape (if skip then grad (r, c) else sum_leading (grad (r, c)))))
             # replicate (if skip then 14 else 15) None)"
proof
  show "run G residue 1 (Add_Bias_on_grid G input bias osp skip) (r, c) =
           (if skip then Return (bias (0, c), Add_Bias_ctx_on_grid G skip (r, c))
            else attempt (pointwise plus (input (r, c)) (bias (0, c))) (\<lambda>output.
                 Return (output, Add_Bias_ctx_on_grid G skip (r, c))))"
    using assms(1-4)
      bias_forward_grid [where r = r and c = c and G = G and osp = osp and bias = bias
        and input = input and skip = skip and residue = residue]
    by (simp add: Add_Bias_on_grid_def Add_Bias_ctx_on_grid_def Let_def)
  have sh: "\<And>q. q < grid_tesseract_dim G \<Longrightarrow> shape (grad (q, c)) = shape (grad (r, c))"
    using assms(5) by blast
  show "run G residue 1 (Add_Bias_backward_on_grid G skip grad) (r, c) =
           Return ((if skip then None else Some (grad (r, c)))
             # Some (if r = 0
                     then tensor_sum
                            (map (\<lambda>q. if skip then grad (q, c) else sum_leading (grad (q, c)))
                               [0..<grid_tesseract_dim G])
                     else zeros (shape (if skip then grad (r, c) else sum_leading (grad (r, c)))))
             # replicate (if skip then 14 else 15) None)"
    using bias_backward_grid [where r = r and c = c and G = G and grad = grad and skip = skip
        and residue = residue, OF assms(1,2) sh]
    by (simp add: Add_Bias_backward_on_grid_def Add_Bias_ctx_on_grid_def)
qed

theorem C7_bias_broadcast_and_gradient_witness:
  "run grid_ex residue_ex 1 (Add_Bias_on_grid grid_ex input_ex bias_ex 2 True) (1, 0)
     = Return (Tensor [2] [10, 20], Add_Bias_ctx_on_grid grid_ex True (1, 0))
   \<and> run grid_ex residue_ex 1 (Add_Bias_backward_on_grid grid_ex True grad_ex) (1, 0)
     = Return [None, Some (Tensor [2, 2] [0, 0, 0, 0]), None, None, None, None, None, None,
               None, None, None, None, None, None, None, None]
   \<and> run grid_ex residue_ex 1 (Add_Bias_backward_on_grid grid_ex False grad_ex) (0, 1)
     = Return [Some (Tensor [2, 2] [1, 0, 1, 2]), Some (Tensor [2] [4, 5]), None, None, None,
               None, None, None, None, None, None, None, None, None, None, None, None]"
proof -
  have h1: "1 < grid_tesseract_dim grid_ex" "0 < grid_tesseract_dim grid_ex"
    by (simp_all add: grid_ex_def)
  have h2: "shape (bias_ex (0, 0)) = [nat 2]"
    by (simp add: bias_ex_def)
  have h3: "\<forall>q < grid_tesseract_dim grid_ex. shape (grad_ex (q, 0)) = shape (grad_ex (1, 0))"
    "\<forall>q < grid_tesseract_dim grid_ex. shape (grad_ex (q, 1)) = shape (grad_ex (0, 1))"
    by (simp_all add: grad_ex_def)
  have v1: "bias_ex (0, 0) = Tensor [2] [10, 20]"
    by (simp add: bias_ex_def)
  have v2: "zeros (shape (grad_ex (Suc 0, 0))) = Tensor [2, 2] [0, 0, 0, 0 :: int]"
    by code_simp
  have v3: "tensor_sum (map (\<lambda>q. sum_leading (grad_ex (q, Suc 0)))
                [0..<grid_tesseract_dim grid_ex])
              = Tensor [2] [4, 5]"
    by code_simp
  have v4: "grad_ex (0, Suc 0) = Tensor [2, 2] [1, 0, 1, 2]"
    by (simp add: grad_ex_def)
  have r14: "replicate 14 None = [None, None, None, None, None, None, None, None, None, None,
      None, None, None, None :: int tensor option]"
    by (simp add: numeral_eq_Suc)
  have r15: "replicate 15 None = [None, None, None, None, None, None, None, None, None, None,
      None, None, None, None, None :: int tensor option]"
    by (simp add: numeral_eq_Suc)
  from C7_bias_broadcast_and_gradient [where G = grid_ex and r = 1 and c = 0 and osp = 2
      and bias = bias_ex and grad = grad_ex and skip = True and residue = residue_ex
      and input = input_ex, OF h1(1) h1(2) _ h2 h3(1)]
  have a: "run grid_ex residue_ex 1 (Add_Bias_on_grid grid_ex input_ex bias_ex 2 True) (1, 0)
     = Return (Tensor [2] [10, 20], Add_Bias_ctx_on_grid grid_ex True (1, 0))"
    and b: "run grid_ex residue_ex 1 (Add_Bias_backward_on_grid grid_ex True grad_ex) (1, 0)
     = Return [None, Some (Tensor [2, 2] [0, 0, 0, 0]), None, None, None, None, None, None,
               None, None, None, None, None, None, None, None]"
    by (simp_all add: v1 v2 r14)
  from C7_bias_broadcast_and_gradient [where G = grid_ex and r = 0 and c = 1 and osp = 2
      and bias = bias_ex and grad = grad_ex and skip = False and residue = residue_ex
      and input = input_ex, OF h1(2) h1(1) _ _ h3(2)]
  have c: "run grid_ex residue_ex 1 (Add_Bias_backward_on_grid grid_ex False grad_ex) (0, 1)
     = Return [Some (Tensor [2, 2] [1, 0, 1, 2]), Some (Tensor [2] [4, 5]), None, None, None,
               None, None, None, None, None, None, None, None, None, None, None, None]"
    by (simp add: v3 v4 r15 bias_ex_def)
  from a b c show ?thesis by (intro conjI)
qed

subsection \<open>C8\<close>

text \<open>
  C8 (as amended). After a forward of \<^verbatim>\<open>Add_Bias_2p5D\<close>, its backward issues one reduce, to
  the column group, with destination \<open>col_rank\<close> plus the offset of the slice (the rank
  at row 0 of the column). When the add was skipped in forward, what it reduces is the
  output gradient itself. When the add was performed and the output gradient has two or
  more dimensions, what it reduces is the column-sum of the output gradient, its sum over
  every dimension but the last. When the add was performed, the gradient returned for
  \<open>input\<close> is the output gradient unchanged.
\<close>

theorem C8_bias_backward_reduces:
  fixes input bias g :: "'a::semiring_0 tensor"
  assumes "exec (Add_Bias_2p5D_forward input bias osp d r c dep cm skip_bias_add
                   dpr ppr pps tps) ans n = Inr (output, ctx)"
  shows "(skip_bias_add \<longrightarrow>
            requests (Add_Bias_2p5D_backward ctx g) ans' n' =
              [Req_reduce g (grid_address c dep d dpr ppr pps tps) cm])
         \<and> (\<not> skip_bias_add \<and> 2 \<le> length (shape g) \<longrightarrow>
            requests (Add_Bias_2p5D_backward ctx g) ans' n' =
              [Req_reduce (column_sum g) (grid_address c dep d dpr ppr pps tps) cm])
         \<and> (\<not> skip_bias_add \<longrightarrow>
             (\<exists>grad_bias. exec (Add_Bias_2p5D_backward ctx g) ans' n' =
                Inr [Some g, Some grad_bias, None, None, None, None, None, None, None, None,
                     None, None, None, None, None, None, None]))"
proof -
  have ctx: "ctx = \<lparr>bias_row_rank = r, bias_col_rank = c, bias_dep_rank = dep,
                  bias_tesseract_dim = d, bias_col_parallel_mode = cm, bias_bias = skip_bias_add,
                  bias_data_parallel_rank = dpr, bias_pipeline_parallel_rank = ppr,
                  bias_pipeline_parallel_size = pps, bias_tensor_parallel_size = tps\<rparr>"
    using assms by (rule Add_Bias_forward_saves)
  have req: "requests (Add_Bias_2p5D_backward ctx g) ans' n' =
           [Req_reduce (if skip_bias_add then g else sum_leading g)
              (grid_address c dep d dpr ppr pps tps) cm]"
    by (simp add: Add_Bias_backward_requests ctx)
  have 1: "skip_bias_add \<longrightarrow>
            requests (Add_Bias_2p5D_backward ctx g) ans' n' =
              [Req_reduce g (grid_address c dep d dpr ppr pps tps) cm]"
    by (simp add: req)
  have 2: "\<not> skip_bias_add \<and> 2 \<le> length (shape g) \<longrightarrow>
            requests (Add_Bias_2p5D_backward ctx g) ans' n' =
              [Req_reduce (column_sum g) (grid_address c dep d dpr ppr pps tps) cm]"
    by (simp add: req sum_leading_column_sum)
  have 3: "\<not> skip_bias_add \<longrightarrow>
             (\<exists>grad_bias. exec (Add_Bias_2p5D_backward ctx g) ans' n' =
                Inr [Some g, Some grad_bias, None, None, None, None, None, None, None, None,
                     None, None, None, None, None, None, None])"
    using Add_Bias_backward_input_grad [of ctx g ans' n'] by (simp add: ctx)
  from 1 2 3 show ?thesis by (intro conjI)
qed

text \<open>
  With the add performed and the output gradient \<open>[[1, 2], [3, 4]]\<close>, the rank at row 0,
  column 1 reduces the column sums \<open>[4, 6]\<close> to rank 5 and returns the gradient itself
  for \<open>input\<close>; with the output gradient \<open>[[[1, 2], [3, 4]], [[5, 6], [7, 8]]]\<close> it
  reduces \<open>[16, 20]\<close>. With the add skipped and the output gradient \<open>[1, 2]\<close>, it
  reduces \<open>[1, 2]\<close>.
\<close>

theorem C8_bias_backward_reduces_witness:
  "requests (Add_Bias_2p5D_backward (bias_ctx_ex False) (Tensor [2, 2] [1, 2, 3, 4]))
       bias_ans_ex 0
     = [Req_reduce (Tensor [2] [4, 6]) 5 PARALLEL_2P5D_COL]
   \<and> requests (Add_Bias_2p5D_backward (bias_ctx_ex False)
                 (Tensor [2, 2, 2] [1, 2, 3, 4, 5, 6, 7, 8])) bias_ans_ex 0
     = [Req_reduce (Tensor [2] [16, 20]) 5 PARALLEL_2P5D_COL]
   \<and> exec (Add_Bias_2p5D_backward (bias_ctx_ex False) (Tensor [2, 2] [1, 2, 3, 4]))
       bias_ans_ex 0
     = Inr [Some (Tensor [2, 2] [1, 2, 3, 4]), Some (Tensor [2] [10, 20]), None, None, None,
            None, None, None, None, None, None, None, None, None, None, None, None]
   \<and> requests (Add_Bias_2p5D_backward (bias_ctx_ex True) (Tensor [2] [1, 2])) bias_ans_ex 0
     = [Req_reduce (Tensor [2] [1, 2]) 5 PARALLEL_2P5D_COL]"
proof -
  have f: "exec (Add_Bias_2p5D_forward (Tensor [2, 2] [1, 2, 3, 4]) (Tensor [2] [10, 20]) 2 2 0 1 1
              PARALLEL_2P5D_COL False 0 0 1 8) bias_ans_ex 0
           = Inr (Tensor [2, 2] [11, 22, 13, 24], bias_ctx_ex False)"
    by code_simp
  have t: "exec (Add_Bias_2p5D_forward (Tensor [2, 2] [1, 2, 3, 4]) (Tensor [2] [10, 20]) 2 2 0 1 1
              PARALLEL_2P5D_COL True 0 0 1 8) bias_ans_ex 0
           = Inr (Tensor [2] [10, 20], bias_ctx_ex True)"
    by code_simp
  have e: "exec (Add_Bias_2p5D_backward (bias_ctx_ex False) (Tensor [2, 2] [1, 2, 3, 4]))
       bias_ans_ex 0
     = Inr [Some (Tensor [2, 2] [1, 2, 3, 4]), Some (Tensor [2] [10, 20]), None, None, None,
            None, None, None, None, None, None, None, None, None, None, None, None]"
    by code_simp
  have s: "column_sum (Tensor [2, 2] [1, 2, 3, 4 :: int]) = Tensor [2] [4, 6]"
    "column_sum (Tensor [2, 2, 2] [1, 2, 3, 4, 5, 6, 7, 8 :: int]) = Tensor [2] [16, 20]"
    by code_simp+
  have a: "grid_address 1 1 2 0 0 1 8 = 5"
    by (simp add: grid_address_def)
  show ?thesis
    using C8_bias_backward_reduces [OF f, of "Tensor [2, 2] [1, 2, 3, 4]" bias_ans_ex 0]
      C8_bias_backward_reduces [OF f, of "Tensor [2, 2, 2] [1, 2, 3, 4, 5, 6, 7, 8]" bias_ans_ex 0]
      C8_bias_backward_reduces [OF t, of "Tensor [2] [1, 2]" bias_ans_ex 0] e s a
    by simp
qed

text \<open>
  C8 as the claim states it fails: it has the output gradient itself reduced when the
  add was performed. With the add performed in forward (\<open>skip_bias_add = False\<close>) and the
  output gradient \<open>[[1, 2], [3, 4]]\<close>, the backward reduces the column sums \<open>[4, 6]\<close>, not
  the output gradient.
\<close>

theorem C8_exchanged_cases_counterexample:
  "exec (Add_Bias_2p5D_forward (Tensor [2, 2] [1, 2, 3, 4]) (Tensor [2] [10, 20]) 2 2 0 1 1
      PARALLEL_2P5D_COL False 0 0 1 8) bias_ans_ex 0
     = Inr (Tensor [2, 2] [11, 22, 13, 24], bias_ctx_ex False)
   \<and> requests (Add_Bias_2p5D_backward (bias_ctx_ex False) (Tensor [2, 2] [1, 2, 3, 4]))
       bias_ans_ex 0
     = [Req_reduce (Tensor [2] [4, 6]) 5 PARALLEL_2P5D_COL]
   \<and> Tensor [2] [4, 6] \<noteq> Tensor [2, 2] [1, 2, 3, 4 :: int]"
  by code_simp
subsection \<open>C9\<close>

text \<open>
  C9. On a row of the grid whose ranks hold inputs and output gradients of shape
  \<open>s @ [h]\<close> (the local part of the hidden dimension last) and means and inverse standard
  deviations of shape \<open>s @ [1]\<close>: the forward of \<^verbatim>\<open>_LayerNorm_2p5D\<close> returns
  \<open>(input - E_x) * Var_x\<close> elementwise and stores it; and two rounds complete the backward
  on that context, which returns at every position \<open>(p, j)\<close>
  \<open>Var_x[p] * (grad_out[p, j] - output[p, j] * mean_term[p] - sum_term[p])\<close>, where
  \<open>sum_term[p]\<close> is the sum of \<open>grad_out[p, _]\<close> over the last dimension and over the ranks
  of the row, divided by \<open>hidden_size\<close>, and \<open>mean_term[p]\<close> the same sum of
  \<open>grad_out[p, _] * output[p, _]\<close> divided by \<open>hidden_size\<close>. The arithmetic is that of a
  field, and \<open>hidden_size\<close> is not 0.
\<close>

theorem C9_layernorm_forward_backward:
  fixes input E_x Var_x grad_out :: "nat \<times> nat \<Rightarrow> 'a::field tensor"
  assumes "r < grid_tesseract_dim G" "c < grid_tesseract_dim G" "hidden_size \<noteq> 0"
    and "\<forall>q < grid_tesseract_dim G.
           shape (input (r, q)) = s @ [h] \<and> shape (E_x (r, q)) = s @ [1]
           \<and> shape (Var_x (r, q)) = s @ [1] \<and> shape (grad_out (r, q)) = s @ [h]"
  shows "\<exists>out grad_in.
     (\<forall>q < grid_tesseract_dim G.
        LayerNorm_2p5D_forward (input (r, q)) (E_x (r, q)) (Var_x (r, q)) hidden_size
            PARALLEL_2P5D_ROW
          = Return (out (r, q),
              \<lparr>ln_hidden_size = hidden_size, ln_saved_tensors = (out (r, q), Var_x (r, q)),
               ln_row_parallel_mode = PARALLEL_2P5D_ROW\<rparr>)
        \<and> shape (out (r, q)) = s @ [h]
        \<and> (\<forall>p < prod_list s. \<forall>j < h.
              data (out (r, q)) ! (p * h + j)
                = (data (input (r, q)) ! (p * h + j) - data (E_x (r, q)) ! p)
                  * data (Var_x (r, q)) ! p))
     \<and> run G residue 2
         (LayerNorm_backward_on_grid
            (\<lambda>rc. \<lparr>ln_hidden_size = hidden_size, ln_saved_tensors = (out rc, Var_x rc),
                    ln_row_parallel_mode = PARALLEL_2P5D_ROW\<rparr>)
            grad_out) (r, c)
         = Return [Some grad_in, None, None, None, None, None, None]
     \<and> shape grad_in = s @ [h]
     \<and> (\<forall>p < prod_list s. \<forall>j < h.
           data grad_in ! (p * h + j)
             = data (Var_x (r, c)) ! p
               * (data (grad_out (r, c)) ! (p * h + j)
                  - data (out (r, c)) ! (p * h + j)
                    * ((\<Sum>q\<leftarrow>[0..<grid_tesseract_dim G]. \<Sum>j'\<leftarrow>[0..<h].
                          data (grad_out (r, q)) ! (p * h + j') * data (out (r, q)) ! (p * h + j'))
                       / of_int hidden_size)
                  - (\<Sum>q\<leftarrow>[0..<grid_tesseract_dim G]. \<Sum>j'\<leftarrow>[0..<h].
                        data (grad_out (r, q)) ! (p * h + j'))
                    / of_int hidden_size))"
proof -
  let ?d = "grid_tesseract_dim G"
  define out where "out rc = fst (projr (exec
      (LayerNorm_2p5D_forward (input rc) (E_x rc) (Var_x rc) hidden_size PARALLEL_2P5D_ROW)
      \<lparr>gathered = (\<lambda>n. []), received = (\<lambda>n. Tensor [] [])\<rparr> 0))" for rc
  have fwd: "LayerNorm_2p5D_forward (input (r, q)) (E_x (r, q)) (Var_x (r, q)) hidden_size
            PARALLEL_2P5D_ROW
          = Return (out (r, q),
              \<lparr>ln_hidden_size = hidden_size, ln_saved_tensors = (out (r, q), Var_x (r, q)),
               ln_row_parallel_mode = PARALLEL_2P5D_ROW\<rparr>)"
    "shape (out (r, q)) = s @ [h]"
    "\<And>p j. p < prod_list s \<Longrightarrow> j < h \<Longrightarrow>
        data (out (r, q)) ! (p * h + j)
          = (data (input (r, q)) ! (p * h + j) - data (E_x (r, q)) ! p) * data (Var_x (r, q)) ! p"
    if "q < ?d" for q
  proof -
    from assms(4) that have sh: "shape (input (r, q)) = s @ [h]" "shape (E_x (r, q)) = s @ [1]"
      "shape (Var_x (r, q)) = s @ [1]"
      by blast+
    obtain z where z: "LayerNorm_2p5D_forward (input (r, q)) (E_x (r, q)) (Var_x (r, q))
          hidden_size PARALLEL_2P5D_ROW
        = Return (z, \<lparr>ln_hidden_size = hidden_size, ln_saved_tensors = (z, Var_x (r, q)),
                      ln_row_parallel_mode = PARALLEL_2P5D_ROW\<rparr>)"
      "shape z = s @ [h]"
      "\<And>p j. p < prod_list s \<Longrightarrow> j < h \<Longrightarrow>
         data z ! (p * h + j)
           = (data (input (r, q)) ! (p * h + j) - data (E_x (r, q)) ! p) * data (Var_x (r, q)) ! p"
      using LayerNorm_forward_entries [OF sh, of hidden_size PARALLEL_2P5D_ROW] by blast
    have "out (r, q) = z" by (simp add: out_def z(1))
    with z show "LayerNorm_2p5D_forward (input (r, q)) (E_x (r, q)) (Var_x (r, q)) hidden_size
            PARALLEL_2P5D_ROW
          = Return (out (r, q),
              \<lparr>ln_hidden_size = hidden_size, ln_saved_tensors = (out (r, q), Var_x (r, q)),
               ln_row_parallel_mode = PARALLEL_2P5D_ROW\<rparr>)"
      "shape (out (r, q)) = s @ [h]"
      "\<And>p j. p < prod_list s \<Longrightarrow> j < h \<Longrightarrow>
        data (out (r, q)) ! (p * h + j)
          = (data (input (r, q)) ! (p * h + j) - data (E_x (r, q)) ! p) * data (Var_x (r, q)) ! p"
      by simp_all
  qed
  have shg: "\<And>q. q < ?d \<Longrightarrow> shape (grad_out (r, q)) = s @ [h]"
    and shv: "shape (Var_x (r, c)) = s @ [1]"
    using assms(2,4) by blast+
  obtain gin where gin:
    "run G residue 2
       (LayerNorm_backward_on_grid
          (\<lambda>rc. \<lparr>ln_hidden_size = hidden_size, ln_saved_tensors = (out rc, Var_x rc),
                  ln_row_parallel_mode = PARALLEL_2P5D_ROW\<rparr>)
          grad_out) (r, c)
       = Return [Some gin, None, None, None, None, None, None]"
    "shape gin = s @ [h]"
    "\<And>p j. p < prod_list s \<Longrightarrow> j < h \<Longrightarrow>
       data gin ! (p * h + j) =
         ((data (grad_out (r, c)) ! (p * h + j)
            - data (out (r, c)) ! (p * h + j)
              * ((\<Sum>q\<leftarrow>[0..<?d]. \<Sum>j'\<leftarrow>[0..<h].
                    data (grad_out (r, q)) ! (p * h + j') * data (out (r, q)) ! (p * h + j'))
                 / of_int hidden_size))
          - (\<Sum>q\<leftarrow>[0..<?d]. \<Sum>j'\<leftarrow>[0..<h]. data (grad_out (r, q)) ! (p * h + j'))
            / of_int hidden_size)
         * data (Var_x (r, c)) ! p"
    using layernorm_backward_grid [where G = G and d = "?d" and r = r and c = c
        and H = hidden_size and g = grad_out and x = out and v = Var_x and s = s and h = h
        and residue = residue
        and ctx = "\<lambda>rc. \<lparr>ln_hidden_size = hidden_size, ln_saved_tensors = (out rc, Var_x rc),
                  ln_row_parallel_mode = PARALLEL_2P5D_ROW\<rparr>",
        OF assms(1,2) refl assms(3) shg fwd(2) shv refl]
    by blast
  show ?thesis
  proof (intro exI [of _ out] exI [of _ gin] conjI allI impI)
    fix q assume q: "q < ?d"
    show "LayerNorm_2p5D_forward (input (r, q)) (E_x (r, q)) (Var_x (r, q)) hidden_size
            PARALLEL_2P5D_ROW
          = Return (out (r, q),
              \<lparr>ln_hidden_size = hidden_size, ln_saved_tensors = (out (r, q), Var_x (r, q)),
               ln_row_parallel_mode = PARALLEL_2P5D_ROW\<rparr>)"
      by (rule fwd(1) [OF q])
    show "shape (out (r, q)) = s @ [h]" by (rule fwd(2) [OF q])
    fix p j assume "p < prod_list s" "j < h"
    then show "data (out (r, q)) ! (p * h + j)
          = (data (input (r, q)) ! (p * h + j) - data (E_x (r, q)) ! p) * data (Var_x (r, q)) ! p"
      by (rule fwd(3) [OF q])
  next
    show "run G residue 2
       (LayerNorm_backward_on_grid
          (\<lambda>rc. \<lparr>ln_hidden_size = hidden_size, ln_saved_tensors = (out rc, Var_x rc),
                  ln_row_parallel_mode = PARALLEL_2P5D_ROW\<rparr>)
          grad_out) (r, c)
       = Return [Some gin, None, None, None, None, None, None]"
      by (rule gin(1))
    show "shape gin = s @ [h]" by (rule gin(2))
  next
    fix p j assume "p < prod_list s" "j < h"
    from gin(3) [OF this]
    show "data gin ! (p * h + j)
             = data (Var_x (r, c)) ! p
               * (data (grad_out (r, c)) ! (p * h + j)
                  - data (out (r, c)) ! (p * h + j)
                    * ((\<Sum>q\<leftarrow>[0..<?d]. \<Sum>j'\<leftarrow>[0..<h].
                          data (grad_out (r, q)) ! (p * h + j') * data (out (r, q)) ! (p * h + j'))
                       / of_int hidden_size)
                  - (\<Sum>q\<leftarrow>[0..<?d]. \<Sum>j'\<leftarrow>[0..<h].
                        data (grad_out (r, q)) ! (p * h + j'))
                    / of_int hidden_size)"
      by (simp only: mult.commute)
  qed
qed

theorem C9_layernorm_forward_backward_witness:
  "\<exists>out grad_in.
     out (0, 0) = Tensor [1, 2] [- 1 / 2, 1]
     \<and> out (0, 1) = Tensor [1, 2] [0, 1 / 2]
     \<and> run grid_ex ln_residue_ex 2
         (LayerNorm_backward_on_grid
            (\<lambda>rc. \<lparr>ln_hidden_size = 4, ln_saved_tensors = (out rc, ln_Var_ex rc),
                    ln_row_parallel_mode = PARALLEL_2P5D_ROW\<rparr>)
            ln_grad_ex) (0, 1)
         = Return [Some grad_in, None, None, None, None, None, None]
     \<and> shape grad_in = [1, 2]
     \<and> data grad_in ! 0 = - 3 / 8
     \<and> data grad_in ! 1 = 7 / 16"
proof -
  have h1: "0 < grid_tesseract_dim grid_ex" "1 < grid_tesseract_dim grid_ex"
    by (simp_all add: grid_ex_def)
  have h2: "(4::int) \<noteq> 0" by simp
  have h3: "\<forall>q < grid_tesseract_dim grid_ex.
           shape (ln_input_ex (0, q)) = [1] @ [2] \<and> shape (ln_E_ex (0, q)) = [1] @ [1]
           \<and> shape (ln_Var_ex (0, q)) = [1] @ [1] \<and> shape (ln_grad_ex (0, q)) = [1] @ [2]"
    by (simp add: ln_input_ex_def ln_E_ex_def ln_Var_ex_def ln_grad_ex_def)
  from C9_layernorm_forward_backward [where G = grid_ex and r = 0 and c = 1 and hidden_size = 4
      and input = ln_input_ex and E_x = ln_E_ex and Var_x = ln_Var_ex and grad_out = ln_grad_ex
      and s = "[1]" and h = 2 and residue = ln_residue_ex, OF h1 h2 h3]
  obtain out gin where
    fwd: "\<forall>q < grid_tesseract_dim grid_ex.
        LayerNorm_2p5D_forward (ln_input_ex (0, q)) (ln_E_ex (0, q)) (ln_Var_ex (0, q)) 4
            PARALLEL_2P5D_ROW
          = Return (out (0, q),
              \<lparr>ln_hidden_size = 4, ln_saved_tensors = (out (0, q), ln_Var_ex (0, q)),
               ln_row_parallel_mode = PARALLEL_2P5D_ROW\<rparr>)
        \<and> shape (out (0, q)) = [1] @ [2]
        \<and> (\<forall>p < prod_list [1]. \<forall>j < 2.
              data (out (0, q)) ! (p * 2 + j)
                = (data (ln_input_ex (0, q)) ! (p * 2 + j) - data (ln_E_ex (0, q)) ! p)
                  * data (ln_Var_ex (0, q)) ! p)"
    and bwd: "run grid_ex ln_residue_ex 2
         (LayerNorm_backward_on_grid
            (\<lambda>rc. \<lparr>ln_hidden_size = 4, ln_saved_tensors = (out rc, ln_Var_ex rc),
                    ln_row_parallel_mode = PARALLEL_2P5D_ROW\<rparr>)
            ln_grad_ex) (0, 1)
         = Return [Some gin, None, None, None, None, None, None]"
    and sh: "shape gin = [1] @ [2]"
    and entries: "\<forall>p < prod_list [1]. \<forall>j < 2.
           data gin ! (p * 2 + j)
             = data (ln_Var_ex (0, 1)) ! p
               * (data (ln_grad_ex (0, 1)) ! (p * 2 + j)
                  - data (out (0, 1)) ! (p * 2 + j)
                    * ((\<Sum>q\<leftarrow>[0..<grid_tesseract_dim grid_ex]. \<Sum>j'\<leftarrow>[0..<2].
                          data (ln_grad_ex (0, q)) ! (p * 2 + j') * data (out (0, q)) ! (p * 2 + j'))
                       / of_int 4)
                  - (\<Sum>q\<leftarrow>[0..<grid_tesseract_dim grid_ex]. \<Sum>j'\<leftarrow>[0..<2].
                        data (ln_grad_ex (0, q)) ! (p * 2 + j'))
                    / of_int 4)"
    by blast
  have f0: "exec (LayerNorm_2p5D_forward (ln_input_ex (0, 0)) (ln_E_ex (0, 0)) (ln_Var_ex (0, 0)) 4
            PARALLEL_2P5D_ROW) \<lparr>gathered = (\<lambda>n. []), received = (\<lambda>n. Tensor [] [])\<rparr> 0
       = Inr (Tensor [1, 2] [- 1 / 2, 1],
              \<lparr>ln_hidden_size = 4, ln_saved_tensors = (Tensor [1, 2] [- 1 / 2, 1], ln_Var_ex (0, 0)),
               ln_row_parallel_mode = PARALLEL_2P5D_ROW\<rparr>)"
    by code_simp
  have f1: "exec (LayerNorm_2p5D_forward (ln_input_ex (0, 1)) (ln_E_ex (0, 1)) (ln_Var_ex (0, 1)) 4
            PARALLEL_2P5D_ROW) \<lparr>gathered = (\<lambda>n. []), received = (\<lambda>n. Tensor [] [])\<rparr> 0
       = Inr (Tensor [1, 2] [0, 1 / 2],
              \<lparr>ln_hidden_size = 4, ln_saved_tensors = (Tensor [1, 2] [0, 1 / 2], ln_Var_ex (0, 1)),
               ln_row_parallel_mode = PARALLEL_2P5D_ROW\<rparr>)"
    by code_simp
  have o0: "out (0, 0) = Tensor [1, 2] [- 1 / 2, 1]"
    using fwd [rule_format, OF h1(1)] f0 by simp
  have o1: "out (0, Suc 0) = Tensor [1, 2] [0, 1 / 2]"
    using fwd [rule_format, OF h1(2)] f1 by simp
  have e0: "data gin ! 0 = - 3 / 8"
    using entries [rule_format, of 0 0]
    by (simp add: o0 o1 ln_grad_ex_def ln_Var_ex_def grid_ex_def upt_rec)
  have e1: "data gin ! 1 = 7 / 16"
    using entries [rule_format, of 0 1]
    by (simp add: o0 o1 ln_grad_ex_def ln_Var_ex_def grid_ex_def upt_rec)
  from o0 o1 bwd sh e0 e1 show ?thesis
    by (intro exI [of _ out] exI [of _ gin]) simp
qed

end
